theory Spec2Isabelle
  imports Main
begin

section \<open>Strings and numbers as the Go library handles them\<close>

text \<open>
  \<open>strings.Split(s, sep)\<close> for a one-byte separator: the pieces between the
  separators, at least one piece, the empty string giving one empty piece.
  \<open>strings.SplitN(s, sep, 2)[0]\<close> is the first piece of the same list.
\<close>

fun split_on :: "char \<Rightarrow> string \<Rightarrow> string list" where
  "split_on sep [] = [[]]"
| "split_on sep (x # xs) =
     (if x = sep then [] # split_on sep xs
      else (case split_on sep xs of
              [] \<Rightarrow> [[x]]
            | w # ws \<Rightarrow> (x # w) # ws))"

datatype error =
    InvalidClusterName
  | ConsistencyError
  | ClusterExists
  | NetworkCreateFailed
  | APIPortInvalid
  | PortSpecFatal
  | VolumeCreateFailed
  | ServerCreateFailed
  | WaitFailed
  | WorkerCreateFailed
  | ServerRemoveFailed
  | ServerStopFailed
  | ServerStartFailed
  | DockerClientFailed
  | UnsupportedRole
  | ServerNotFound
  | InspectFailed
  | SecretNotFound
  | ListenPortNotFound
  | NetworkNotFound
  | WorkerListFailed
  | SuffixSyntax
  | SuffixRange
  | IndexOutOfRange

definition is_digit :: "char \<Rightarrow> bool" where
  "is_digit ch = (48 \<le> (of_char ch :: nat) \<and> (of_char ch :: nat) \<le> 57)"

definition digit_val :: "char \<Rightarrow> int" where
  "digit_val ch = int (of_char ch) - 48"

fun digits_val :: "int \<Rightarrow> string \<Rightarrow> int" where
  "digits_val acc [] = acc"
| "digits_val acc (ch # cs) = digits_val (acc * 10 + digit_val ch) cs"

definition maxInt :: int where
  "maxInt = 9223372036854775807"

definition minInt :: int where
  "minInt = - 9223372036854775808"

text \<open>Go's \<open>int\<close> on a 64-bit platform: arithmetic wraps around.\<close>

definition wrap :: "int \<Rightarrow> int" where
  "wrap x = (x + 9223372036854775808) mod 18446744073709551616 - 9223372036854775808"

text \<open>
  \<open>strconv.Atoi\<close>: an optional sign, then at least one decimal digit and nothing
  else; a value outside the range of \<open>int\<close> is an error.
\<close>

definition Atoi :: "string \<Rightarrow> error + int" where
  "Atoi s =
     (let neg = (s \<noteq> [] \<and> hd s = CHR ''-'');
          ds = (if s \<noteq> [] \<and> (hd s = CHR ''-'' \<or> hd s = CHR ''+'') then tl s else s)
      in if ds = [] \<or> \<not> list_all is_digit ds then Inl SuffixSyntax
         else let v = (if neg then - digits_val 0 ds else digits_val 0 ds)
              in if v < minInt \<or> maxInt < v then Inl SuffixRange else Inr v)"

function itoa_nat :: "nat \<Rightarrow> string" where
  "itoa_nat n =
     (if n < 10 then [''0123456789'' ! n]
      else itoa_nat (n div 10) @ [''0123456789'' ! (n mod 10)])"
  by pat_completeness auto
termination
  by (relation "measure id") auto

declare itoa_nat.simps [simp del]

definition Itoa :: "int \<Rightarrow> string" where
  "Itoa i = (if i < 0 then CHR ''-'' # itoa_nat (nat (- i)) else itoa_nat (nat i))"

section \<open>The data the backend works on\<close>

record apiPort =
  Host :: string
  HostIP :: string
  Port :: string

record ClusterSpec =
  AgentArgs :: "string list"
  APIPort :: apiPort
  AutoRestart :: bool
  ClusterName :: string
  Env :: "string list"
  Image :: string
  NodeToPortSpecMap :: "(string \<times> string list) list"
  PortAutoOffset :: int
  ServerArgs :: "string list"
  Verbose :: bool
  Volumes :: "string list"

text \<open>
  A container as the runtime reports it (\<open>types.Container\<close>, and the \<open>Config\<close> that
  \<open>ContainerInspect\<close> returns): its ID, its name, its labels, the environment and the
  command it was created with, and whether it is running.
\<close>

record container =
  ctr_ID :: string
  ctr_Name :: string
  ctr_Labels :: "(string \<times> string) list"
  ctr_Env :: "string list"
  ctr_Cmd :: "string list"
  ctr_Running :: bool

text \<open>The discovered view of a cluster: \<open>cluster.name\<close>, \<open>cluster.server\<close>, \<open>cluster.workers\<close>.\<close>

record cluster =
  cl_name :: string
  cl_server :: container
  cl_workers :: "container list"

text \<open>
  The calls that change something at the container runtime or in the local
  file system. The runtime state keeps them in the order they were issued.
\<close>

datatype call =
    NetworkCreate string
  | VolumeCreate string
  | ClusterDirCreate string
  | ServerCreate ClusterSpec
  | WaitForLogMessage string string int
  | WorkerCreate ClusterSpec int
  | ContainerRemove string
  | ClusterDirDelete string
  | NetworkRemove string
  | VolumeRemove string
  | ContainerStop string
  | ContainerStart string

text \<open>The read-only requests, which can fail too.\<close>

datatype request =
    NewClient
  | ListServers string
  | Inspect string
  | ListNetworks string
  | ListWorkers string

record runtime =
  containers :: "container list"
  networks :: "string list"
  volumes :: "string list"
  dirs :: "string list"
  calls :: "call list"

text \<open>
  What the orchestrator cannot decide itself: the helpers of the repository that only
  compute (name check, port parsing, random string), and for each call and request
  whether the runtime answers it with an error.
\<close>

record externals =
  CheckClusterName :: "string \<Rightarrow> bool"
  parseAPIPort :: "string \<Rightarrow> apiPort option"
  getDockerMachineIp :: "string \<times> bool"
  mapNodesToPortSpecs :: "string list \<Rightarrow> string list \<Rightarrow> (string \<times> string list) list option"
  GenerateRandomString :: "nat \<Rightarrow> string"
  fails :: "call \<Rightarrow> bool"
  refuses :: "request \<Rightarrow> bool"

text \<open>The flags of the command line that the backend reads through \<open>cli.Context\<close>.\<close>

record cli_context =
  c_name :: string
  c_all :: bool
  c_image :: string
  c_env :: "string list"
  c_api_port :: string
  c_server_arg_set :: bool
  c_server_arg :: "string list"
  c_agent_arg_set :: bool
  c_agent_arg :: "string list"
  c_port :: "string list"
  c_workers :: int
  c_volume :: "string list"
  c_auto_restart :: bool
  c_port_auto_offset :: int
  c_verbose :: bool
  c_wait :: "int option"
  c_role :: string
  c_count :: int

section \<open>The provisioning primitives\<close>

definition issue :: "call \<Rightarrow> runtime \<Rightarrow> runtime" where
  "issue k rt = rt\<lparr>calls := calls rt @ [k]\<rparr>"

text \<open>Labels are a map from keys to values: the first binding of a key counts.\<close>

definition has_label :: "string \<Rightarrow> string \<Rightarrow> container \<Rightarrow> bool" where
  "has_label k v ct = (map_of (ctr_Labels ct) k = Some v)"

definition label_value :: "string \<Rightarrow> container \<Rightarrow> string" where
  "label_value k ct = (case map_of (ctr_Labels ct) k of None \<Rightarrow> [] | Some v \<Rightarrow> v)"

definition server_name :: "string \<Rightarrow> string" where
  "server_name n = n @ ''-server''"

definition worker_name :: "string \<Rightarrow> int \<Rightarrow> string" where
  "worker_name n i = n @ ''-worker-'' @ Itoa i"

definition node_labels :: "string \<Rightarrow> string \<Rightarrow> (string \<times> string) list" where
  "node_labels n role = [(''app'', ''k3d''), (''cluster'', n), (''component'', role)]"

text \<open>
  Modelled from the spec: \<open>createClusterNetwork\<close>, \<open>createImageVolume\<close> and
  \<open>createClusterDir\<close> are called by the backend and defined elsewhere in the repository.
  The spec gives every cluster one network and one volume, named from the cluster name (here:
  kept under the cluster name), and a local directory. A call the runtime answers with an error
  changes nothing; the creation of the directory returns no error.
\<close>

definition createClusterNetwork :: "externals \<Rightarrow> string \<Rightarrow> runtime \<Rightarrow> (error + string) \<times> runtime" where
  "createClusterNetwork E n rt =
     (let rt1 = issue (NetworkCreate n) rt
      in if fails E (NetworkCreate n) then (Inl NetworkCreateFailed, rt1)
         else (Inr n, rt1\<lparr>networks := networks rt1 @ [n]\<rparr>))"

definition createImageVolume :: "externals \<Rightarrow> string \<Rightarrow> runtime \<Rightarrow> (error + string) \<times> runtime" where
  "createImageVolume E n rt =
     (let rt1 = issue (VolumeCreate n) rt
      in if fails E (VolumeCreate n) then (Inl VolumeCreateFailed, rt1)
         else (Inr n, rt1\<lparr>volumes := volumes rt1 @ [n]\<rparr>))"

definition createClusterDir :: "string \<Rightarrow> runtime \<Rightarrow> runtime" where
  "createClusterDir n rt =
     (let rt1 = issue (ClusterDirCreate n) rt in rt1\<lparr>dirs := dirs rt1 @ [n]\<rparr>)"

text \<open>
  Modelled from the spec: \<open>createServer\<close> and \<open>createWorker\<close> are defined elsewhere in
  the repository. The spec has them create and start a container named \<open><cluster>-server\<close>
  or \<open><cluster>-worker-<n>\<close>, labelled \<open>app=k3d\<close>, \<open>cluster=<name>\<close> and
  \<open>component=server|worker\<close>, with the environment and the arguments of the specification. A
  creation the runtime refuses leaves no container. A container is addressed by its name, which
  the runtime accepts wherever it expects an ID.
\<close>

definition createServer :: "externals \<Rightarrow> ClusterSpec \<Rightarrow> runtime \<Rightarrow> (error + string) \<times> runtime" where
  "createServer E spec rt =
     (let rt1 = issue (ServerCreate spec) rt;
          nm = server_name (ClusterName spec)
      in if fails E (ServerCreate spec) then (Inl ServerCreateFailed, rt1)
         else (Inr nm,
               rt1\<lparr>containers := containers rt1 @
                 [\<lparr>ctr_ID = nm, ctr_Name = nm,
                   ctr_Labels = node_labels (ClusterName spec) ''server'',
                   ctr_Env = Env spec, ctr_Cmd = ServerArgs spec, ctr_Running = True\<rparr>]\<rparr>))"

definition createWorker :: "externals \<Rightarrow> ClusterSpec \<Rightarrow> int \<Rightarrow> runtime \<Rightarrow> (error + string) \<times> runtime" where
  "createWorker E spec i rt =
     (let rt1 = issue (WorkerCreate spec i) rt;
          nm = worker_name (ClusterName spec) i
      in if fails E (WorkerCreate spec i) then (Inl WorkerCreateFailed, rt1)
         else (Inr nm,
               rt1\<lparr>containers := containers rt1 @
                 [\<lparr>ctr_ID = nm, ctr_Name = nm,
                   ctr_Labels = node_labels (ClusterName spec) ''worker'',
                   ctr_Env = Env spec, ctr_Cmd = AgentArgs spec, ctr_Running = True\<rparr>]\<rparr>))"

text \<open>
  Modelled from the spec: \<open>waitForContainerLogMessage\<close> is defined elsewhere in the
  repository. The spec's watcher returns when the marker appears in the container's log and an
  error at the timeout or when the stream fails; which of these happens is the runtime's answer.
\<close>

definition waitForContainerLogMessage ::
  "externals \<Rightarrow> string \<Rightarrow> string \<Rightarrow> int \<Rightarrow> runtime \<Rightarrow> (error + unit) \<times> runtime" where
  "waitForContainerLogMessage E cid marker secs rt =
     (let rt1 = issue (WaitForLogMessage cid marker secs) rt
      in if fails E (WaitForLogMessage cid marker secs) then (Inl WaitFailed, rt1)
         else (Inr (), rt1))"

text \<open>
  Modelled from the spec: \<open>removeContainer\<close>, \<open>deleteClusterDir\<close>,
  \<open>deleteClusterNetwork\<close> and \<open>deleteImageVolume\<close> are defined elsewhere in the
  repository. A removal the runtime accepts removes what carries the ID or the name; one it
  refuses changes nothing; the removal of the directory returns no error.
\<close>

definition removeContainer :: "externals \<Rightarrow> string \<Rightarrow> runtime \<Rightarrow> bool \<times> runtime" where
  "removeContainer E cid rt =
     (let rt1 = issue (ContainerRemove cid) rt
      in if fails E (ContainerRemove cid) then (False, rt1)
         else (True, rt1\<lparr>containers := filter (\<lambda>ct. ctr_ID ct \<noteq> cid) (containers rt1)\<rparr>))"

definition deleteClusterDir :: "string \<Rightarrow> runtime \<Rightarrow> runtime" where
  "deleteClusterDir n rt =
     (let rt1 = issue (ClusterDirDelete n) rt in rt1\<lparr>dirs := filter (\<lambda>d. d \<noteq> n) (dirs rt1)\<rparr>)"

definition deleteClusterNetwork :: "externals \<Rightarrow> string \<Rightarrow> runtime \<Rightarrow> bool \<times> runtime" where
  "deleteClusterNetwork E n rt =
     (let rt1 = issue (NetworkRemove n) rt
      in if fails E (NetworkRemove n) then (False, rt1)
         else (True, rt1\<lparr>networks := filter (\<lambda>d. d \<noteq> n) (networks rt1)\<rparr>))"

definition deleteImageVolume :: "externals \<Rightarrow> string \<Rightarrow> runtime \<Rightarrow> bool \<times> runtime" where
  "deleteImageVolume E n rt =
     (let rt1 = issue (VolumeRemove n) rt
      in if fails E (VolumeRemove n) then (False, rt1)
         else (True, rt1\<lparr>volumes := filter (\<lambda>d. d \<noteq> n) (volumes rt1)\<rparr>))"

text \<open>\<open>docker.ContainerStop\<close> and \<open>docker.ContainerStart\<close> of the runtime client.\<close>

definition set_running :: "string \<Rightarrow> bool \<Rightarrow> container \<Rightarrow> container" where
  "set_running cid b ct = (if ctr_ID ct = cid then ct\<lparr>ctr_Running := b\<rparr> else ct)"

definition ContainerStop_rt :: "externals \<Rightarrow> string \<Rightarrow> runtime \<Rightarrow> bool \<times> runtime" where
  "ContainerStop_rt E cid rt =
     (let rt1 = issue (ContainerStop cid) rt
      in if fails E (ContainerStop cid) then (False, rt1)
         else (True, rt1\<lparr>containers := map (set_running cid False) (containers rt1)\<rparr>))"

definition ContainerStart_rt :: "externals \<Rightarrow> string \<Rightarrow> runtime \<Rightarrow> bool \<times> runtime" where
  "ContainerStart_rt E cid rt =
     (let rt1 = issue (ContainerStart cid) rt
      in if fails E (ContainerStart cid) then (False, rt1)
         else (True, rt1\<lparr>containers := map (set_running cid True) (containers rt1)\<rparr>))"

section \<open>Discovery\<close>

text \<open>
  Modelled from the spec: \<open>getClusters\<close> is called by every operation and defined elsewhere
  in the repository. The spec's registry queries the containers labelled \<open>app=k3d\<close> (and
  \<open>cluster=<name>\<close> when \<open>all\<close> is false and the name is not empty), groups them by the value
  of the \<open>cluster\<close> label, takes the container labelled \<open>component=server\<close> as the server
  (more than one is a consistency error) and the containers labelled \<open>component=worker\<close>, in
  ascending order of name suffix, as the workers. A name without containers is absent from
  the result. A group without a server has the zero-valued container in its place, as the
  field \<open>cluster.server\<close> that the backend reads without a check.
\<close>

definition name_suffix :: "string \<Rightarrow> error + int" where
  "name_suffix nm = Atoi (last (split_on CHR ''-'' nm))"

definition worker_suffix :: "container \<Rightarrow> int" where
  "worker_suffix ct = (case name_suffix (ctr_Name ct) of Inl _ \<Rightarrow> 0 | Inr v \<Rightarrow> v)"

definition zero_container :: container where
  "zero_container =
     \<lparr>ctr_ID = [], ctr_Name = [], ctr_Labels = [], ctr_Env = [], ctr_Cmd = [], ctr_Running = False\<rparr>"

definition query_containers :: "bool \<Rightarrow> string \<Rightarrow> runtime \<Rightarrow> container list" where
  "query_containers all n rt =
     filter (\<lambda>ct. has_label ''app'' ''k3d'' ct \<and> (all \<or> n = [] \<or> has_label ''cluster'' n ct))
       (containers rt)"

definition servers_of :: "container list \<Rightarrow> string \<Rightarrow> container list" where
  "servers_of cs n =
     filter (\<lambda>ct. label_value ''cluster'' ct = n \<and> has_label ''component'' ''server'' ct) cs"

definition workers_of :: "container list \<Rightarrow> string \<Rightarrow> container list" where
  "workers_of cs n =
     filter (\<lambda>ct. label_value ''cluster'' ct = n \<and> has_label ''component'' ''worker'' ct) cs"

definition group_cluster :: "container list \<Rightarrow> string \<Rightarrow> cluster" where
  "group_cluster cs n =
     \<lparr>cl_name = n,
      cl_server = (case servers_of cs n of [] \<Rightarrow> zero_container | s # _ \<Rightarrow> s),
      cl_workers = sort_key worker_suffix (workers_of cs n)\<rparr>"

definition getClusters :: "bool \<Rightarrow> string \<Rightarrow> runtime \<Rightarrow> error + cluster list" where
  "getClusters all n rt =
     (let cs = query_containers all n rt;
          names = remdups (map (label_value ''cluster'') cs)
      in if list_ex (\<lambda>m. 1 < length (servers_of cs m)) names then Inl ConsistencyError
         else Inr (map (group_cluster cs) names))"

section \<open>DeleteCluster\<close>

text \<open>The inner loop over \<open>cluster.workers\<close>: an error is logged, the loop continues.\<close>

fun remove_workers :: "externals \<Rightarrow> container list \<Rightarrow> runtime \<Rightarrow> runtime" where
  "remove_workers E [] rt = rt"
| "remove_workers E (worker # rest) rt =
     (case removeContainer E (ctr_ID worker) rt of
        (False, rt1) \<Rightarrow> remove_workers E rest rt1
      | (True, rt1) \<Rightarrow> remove_workers E rest rt1)"

text \<open>The body of the loop over the discovered clusters.\<close>

definition delete_one :: "externals \<Rightarrow> cluster \<Rightarrow> runtime \<Rightarrow> (error + unit) \<times> runtime" where
  "delete_one E cl rt =
     (let rt1 = (if 0 < length (cl_workers cl) then remove_workers E (cl_workers cl) rt else rt);
          rt2 = deleteClusterDir (cl_name cl) rt1
      in case removeContainer E (ctr_ID (cl_server cl)) rt2 of
           (False, rt3) \<Rightarrow> (Inl ServerRemoveFailed, rt3)
         | (True, rt3) \<Rightarrow>
             (let rt4 = snd (deleteClusterNetwork E (cl_name cl) rt3);
                  rt5 = snd (deleteImageVolume E (cl_name cl) rt4)
              in (Inr (), rt5)))"

fun delete_clusters :: "externals \<Rightarrow> cluster list \<Rightarrow> runtime \<Rightarrow> (error + unit) \<times> runtime" where
  "delete_clusters E [] rt = (Inr (), rt)"
| "delete_clusters E (cl # rest) rt =
     (case delete_one E cl rt of
        (Inl err, rt1) \<Rightarrow> (Inl err, rt1)
      | (Inr u, rt1) \<Rightarrow> delete_clusters E rest rt1)"

definition DeleteCluster :: "externals \<Rightarrow> cli_context \<Rightarrow> runtime \<Rightarrow> (error + unit) \<times> runtime" where
  "DeleteCluster E c rt =
     (case getClusters (c_all c) (c_name c) rt of
        Inl err \<Rightarrow> (Inl err, rt)
      | Inr clusters \<Rightarrow> delete_clusters E clusters rt)"

section \<open>StopCluster and StartCluster\<close>

fun stop_workers :: "externals \<Rightarrow> container list \<Rightarrow> runtime \<Rightarrow> runtime" where
  "stop_workers E [] rt = rt"
| "stop_workers E (worker # rest) rt =
     (case ContainerStop_rt E (ctr_ID worker) rt of
        (False, rt1) \<Rightarrow> stop_workers E rest rt1
      | (True, rt1) \<Rightarrow> stop_workers E rest rt1)"

definition stop_one :: "externals \<Rightarrow> cluster \<Rightarrow> runtime \<Rightarrow> (error + unit) \<times> runtime" where
  "stop_one E cl rt =
     (let rt1 = (if 0 < length (cl_workers cl) then stop_workers E (cl_workers cl) rt else rt)
      in case ContainerStop_rt E (ctr_ID (cl_server cl)) rt1 of
           (False, rt2) \<Rightarrow> (Inl ServerStopFailed, rt2)
         | (True, rt2) \<Rightarrow> (Inr (), rt2))"

fun stop_clusters :: "externals \<Rightarrow> cluster list \<Rightarrow> runtime \<Rightarrow> (error + unit) \<times> runtime" where
  "stop_clusters E [] rt = (Inr (), rt)"
| "stop_clusters E (cl # rest) rt =
     (case stop_one E cl rt of
        (Inl err, rt1) \<Rightarrow> (Inl err, rt1)
      | (Inr u, rt1) \<Rightarrow> stop_clusters E rest rt1)"

definition StopCluster :: "externals \<Rightarrow> cli_context \<Rightarrow> runtime \<Rightarrow> (error + unit) \<times> runtime" where
  "StopCluster E c rt =
     (case getClusters (c_all c) (c_name c) rt of
        Inl err \<Rightarrow> (Inl err, rt)
      | Inr clusters \<Rightarrow>
          if refuses E NewClient then (Inl DockerClientFailed, rt)
          else stop_clusters E clusters rt)"

fun start_workers :: "externals \<Rightarrow> container list \<Rightarrow> runtime \<Rightarrow> runtime" where
  "start_workers E [] rt = rt"
| "start_workers E (worker # rest) rt =
     (case ContainerStart_rt E (ctr_ID worker) rt of
        (False, rt1) \<Rightarrow> start_workers E rest rt1
      | (True, rt1) \<Rightarrow> start_workers E rest rt1)"

definition start_one :: "externals \<Rightarrow> cluster \<Rightarrow> runtime \<Rightarrow> (error + unit) \<times> runtime" where
  "start_one E cl rt =
     (case ContainerStart_rt E (ctr_ID (cl_server cl)) rt of
        (False, rt1) \<Rightarrow> (Inl ServerStartFailed, rt1)
      | (True, rt1) \<Rightarrow>
          (Inr (), if 0 < length (cl_workers cl) then start_workers E (cl_workers cl) rt1 else rt1))"

fun start_clusters :: "externals \<Rightarrow> cluster list \<Rightarrow> runtime \<Rightarrow> (error + unit) \<times> runtime" where
  "start_clusters E [] rt = (Inr (), rt)"
| "start_clusters E (cl # rest) rt =
     (case start_one E cl rt of
        (Inl err, rt1) \<Rightarrow> (Inl err, rt1)
      | (Inr u, rt1) \<Rightarrow> start_clusters E rest rt1)"

definition StartCluster :: "externals \<Rightarrow> cli_context \<Rightarrow> runtime \<Rightarrow> (error + unit) \<times> runtime" where
  "StartCluster E c rt =
     (case getClusters (c_all c) (c_name c) rt of
        Inl err \<Rightarrow> (Inl err, rt)
      | Inr clusters \<Rightarrow>
          if refuses E NewClient then (Inl DockerClientFailed, rt)
          else start_clusters E clusters rt)"

section \<open>CreateCluster\<close>

text \<open>The registry is prepended when the image reference has at most two path elements.\<close>

definition default_image :: "string \<Rightarrow> string" where
  "default_image img =
     (if length (split_on CHR ''/'' img) \<le> 2 then ''docker.io'' @ ''/'' @ img else img)"

text \<open>The three statements that build \<open>env\<close>, in their order.\<close>

definition create_env :: "externals \<Rightarrow> cli_context \<Rightarrow> string list" where
  "create_env E c =
     (let env = [''K3S_KUBECONFIG_OUTPUT=/output/kubeconfig.yaml''];
          env = env @ c_env c;
          env = env @ [''K3S_CLUSTER_SECRET='' @ GenerateRandomString E 20]
      in env)"

text \<open>
  Modelled from the spec: \<open>GetAllContainerNames\<close> is defined elsewhere in the repository;
  the names are the server's and the workers' with ordinals from 0.
\<close>

definition GetAllContainerNames :: "string \<Rightarrow> int \<Rightarrow> int \<Rightarrow> string list" where
  "GetAllContainerNames n serverCount workerCount =
     replicate (nat serverCount) (server_name n) @ map (worker_name n) [0 ..  workerCount - 1]"

text \<open>
  The closure \<open>deleteCluster\<close> of \<open>CreateCluster\<close>: it calls \<open>DeleteCluster\<close> with the
  context of the create command and only logs an error.
\<close>

definition rollback :: "externals \<Rightarrow> cli_context \<Rightarrow> runtime \<Rightarrow> runtime" where
  "rollback E c rt = snd (DeleteCluster E c rt)"

text \<open>The loop \<open>for i := 0; i < c.Int("workers"); i++\<close>, entered at \<open>i\<close>.\<close>

function create_workers ::
  "externals \<Rightarrow> cli_context \<Rightarrow> ClusterSpec \<Rightarrow> int \<Rightarrow> runtime \<Rightarrow> (error + unit) \<times> runtime" where
  "create_workers E c spec i rt =
     (if i < c_workers c then
        (case createWorker E spec i rt of
           (Inl err, rt1) \<Rightarrow> (Inl err, rollback E c rt1)
         | (Inr workerID, rt1) \<Rightarrow> create_workers E c spec (i + 1) rt1)
      else (Inr (), rt))"
  by pat_completeness auto
termination
  by (relation "measure (\<lambda>(E, c, spec, i, rt). nat (c_workers c - i))") auto

declare create_workers.simps [simp del]

text \<open>The part of \<open>CreateCluster\<close> under the heading CREATION.\<close>

definition create_nodes ::
  "externals \<Rightarrow> cli_context \<Rightarrow> ClusterSpec \<Rightarrow> runtime \<Rightarrow> (error + unit) \<times> runtime" where
  "create_nodes E c clusterSpec rt =
     (let rt1 = createClusterDir (c_name c) rt
      in case createServer E clusterSpec rt1 of
           (Inl err, rt2) \<Rightarrow> (Inl err, rollback E c rt2)
         | (Inr serverContainerID, rt2) \<Rightarrow>
             (case (case c_wait c of
                      None \<Rightarrow> (Inr (), rt2)
                    | Some secs \<Rightarrow>
                        waitForContainerLogMessage E serverContainerID ''Running kubelet'' secs rt2) of
                (Inl err, rt3) \<Rightarrow> (Inl WaitFailed, rollback E c rt3)
              | (Inr u, rt3) \<Rightarrow>
                  if 0 < c_workers c then create_workers E c clusterSpec 0 rt3
                  else (Inr (), rt3)))"

text \<open>The server arguments: the listen port, the TLS SAN of a host, the user's arguments.\<close>

definition api_port_host :: "externals \<Rightarrow> apiPort \<Rightarrow> apiPort" where
  "api_port_host E ap =
     (if Host ap = [] then ap\<lparr>Host := fst (getDockerMachineIp E), HostIP := fst (getDockerMachineIp E)\<rparr>
      else ap)"

definition server_args :: "cli_context \<Rightarrow> apiPort \<Rightarrow> string list" where
  "server_args c ap =
     (let k3sServerArgs = [''--https-listen-port'', Port ap];
          k3sServerArgs = (if Host ap \<noteq> [] then k3sServerArgs @ [''--tls-san'', Host ap]
                           else k3sServerArgs);
          k3sServerArgs = (if c_server_arg_set c then k3sServerArgs @ c_server_arg c
                           else k3sServerArgs)
      in k3sServerArgs)"

definition CreateCluster :: "externals \<Rightarrow> cli_context \<Rightarrow> runtime \<Rightarrow> (error + unit) \<times> runtime" where
  "CreateCluster E c rt =
     (if \<not> CheckClusterName E (c_name c) then (Inl InvalidClusterName, rt)
      else case getClusters False (c_name c) rt of
        Inl err \<Rightarrow> (Inl err, rt)
      | Inr cluster \<Rightarrow>
          if length cluster \<noteq> 0 then (Inl ClusterExists, rt)
          else
            (let img = default_image (c_image c)
             in case createClusterNetwork E (c_name c) rt of
                  (Inl err, rt1) \<Rightarrow> (Inl err, rt1)
                | (Inr networkID, rt1) \<Rightarrow>
                    (let env = create_env E c
                     in case parseAPIPort E (c_api_port c) of
                          None \<Rightarrow> (Inl APIPortInvalid, rt1)
                        | Some ap0 \<Rightarrow>
                            (let ap = api_port_host E ap0;
                                 k3sServerArgs = server_args c ap;
                                 k3AgentArgs = (if c_agent_arg_set c then c_agent_arg c else [])
                             in case mapNodesToPortSpecs E (c_port c)
                                       (GetAllContainerNames (c_name c) 1 (c_workers c)) of
                                  None \<Rightarrow> (Inl PortSpecFatal, rt1)
                                | Some portmap \<Rightarrow>
                                    (case createImageVolume E (c_name c) rt1 of
                                       (Inl err, rt2) \<Rightarrow> (Inl err, rt2)
                                     | (Inr imageVolume, rt2) \<Rightarrow>
                                         (let volumes = c_volume c @ [imageVolume @ '':/images''];
                                              clusterSpec =
                                                \<lparr>AgentArgs = k3AgentArgs,
                                                 APIPort = ap,
                                                 AutoRestart = c_auto_restart c,
                                                 ClusterName = c_name c,
                                                 Env = env,
                                                 Image = img,
                                                 NodeToPortSpecMap = portmap,
                                                 PortAutoOffset = c_port_auto_offset c,
                                                 ServerArgs = k3sServerArgs,
                                                 Verbose = c_verbose c,
                                                 Volumes = volumes\<rparr>
                                          in create_nodes E c clusterSpec rt2))))))"

section \<open>AddNode\<close>

text \<open>
  (1.2.1) The loop over \<open>serverContainer.Config.Env\<close>; the last matching entry stays.
  The key of an entry is \<open>strings.SplitN(envVar, "=", 2)[0]\<close>.
\<close>

definition env_key :: "string \<Rightarrow> string" where
  "env_key envVar = (case split_on CHR ''='' envVar of [] \<Rightarrow> [] | envVarSplit0 # _ \<Rightarrow> envVarSplit0)"

fun extract_secret :: "string \<Rightarrow> string list \<Rightarrow> string" where
  "extract_secret clusterSecretEnvVar [] = clusterSecretEnvVar"
| "extract_secret clusterSecretEnvVar (envVar # rest) =
     extract_secret
       (if env_key envVar = ''K3S_CLUSTER_SECRET'' then envVar else clusterSecretEnvVar) rest"

text \<open>
  (1.2.2) The loop over \<open>serverContainer.Config.Cmd\<close>. At \<open>cmdPart\<close> the rest of the list
  starts at index \<open>cmdIndex+1\<close>: reading that index when the rest is empty is Go's
  index-out-of-range panic.
\<close>

fun extract_port :: "string \<Rightarrow> string list \<Rightarrow> error + string" where
  "extract_port serverListenPort [] = Inr serverListenPort"
| "extract_port serverListenPort (cmdPart # rest) =
     (if cmdPart = ''--https-listen-port'' then
        (case rest of
           [] \<Rightarrow> Inl IndexOutOfRange
         | nxt # _ \<Rightarrow> extract_port nxt rest)
      else extract_port serverListenPort rest)"

text \<open>(2) The loop over the existing workers.\<close>

fun highest_suffix :: "int \<Rightarrow> container list \<Rightarrow> error + int" where
  "highest_suffix highestExistingWorkerSuffix [] = Inr highestExistingWorkerSuffix"
| "highest_suffix highestExistingWorkerSuffix (worker # rest) =
     (case name_suffix (ctr_Name worker) of
        Inl err \<Rightarrow> Inl err
      | Inr currSuffix \<Rightarrow>
          highest_suffix
            (if currSuffix > highestExistingWorkerSuffix then currSuffix
             else highestExistingWorkerSuffix) rest)"

text \<open>
  (3) The loop \<open>for suffix := ...; suffix < bound; suffix++\<close>. The bound is an \<open>int\<close>, so
  the increment of a suffix below it cannot wrap.
\<close>

function add_workers ::
  "externals \<Rightarrow> ClusterSpec \<Rightarrow> int \<Rightarrow> int \<Rightarrow> runtime \<Rightarrow> (error + unit) \<times> runtime" where
  "add_workers E spec suffix bound rt =
     (if suffix < bound then
        (case createWorker E spec suffix rt of
           (Inl err, rt1) \<Rightarrow> (Inl WorkerCreateFailed, rt1)
         | (Inr workerContainerID, rt1) \<Rightarrow> add_workers E spec (suffix + 1) bound rt1)
      else (Inr (), rt))"
  by pat_completeness auto
termination
  by (relation "measure (\<lambda>(E, spec, suffix, bound, rt). nat (bound - suffix))") auto

declare add_workers.simps [simp del]

definition node_role :: "string \<Rightarrow> string" where
  "node_role r =
     (let nodeRole = r;
          nodeRole = (if nodeRole = ''worker'' then ''agent'' else nodeRole);
          nodeRole = (if nodeRole = ''master'' then ''server'' else nodeRole)
      in nodeRole)"

definition running_servers :: "string \<Rightarrow> runtime \<Rightarrow> container list" where
  "running_servers clusterName rt =
     filter (\<lambda>ct. has_label ''cluster'' clusterName ct \<and> has_label ''app'' ''k3d'' ct \<and>
                  has_label ''component'' ''server'' ct \<and> ctr_Running ct) (containers rt)"

definition all_workers :: "string \<Rightarrow> runtime \<Rightarrow> container list" where
  "all_workers clusterName rt =
     filter (\<lambda>ct. has_label ''cluster'' clusterName ct \<and> has_label ''app'' ''k3d'' ct \<and>
                  has_label ''component'' ''worker'' ct) (containers rt)"

definition join_spec :: "string \<Rightarrow> string \<Rightarrow> string list \<Rightarrow> ClusterSpec" where
  "join_spec clusterName img env =
     \<lparr>AgentArgs = [],
      APIPort = \<lparr>Host = [], HostIP = [], Port = []\<rparr>,
      AutoRestart = False,
      ClusterName = clusterName,
      Env = env,
      Image = img,
      NodeToPortSpecMap = [],
      PortAutoOffset = 0,
      ServerArgs = [],
      Verbose = False,
      Volumes = []\<rparr>"

definition AddNode :: "externals \<Rightarrow> cli_context \<Rightarrow> runtime \<Rightarrow> (error + unit) \<times> runtime" where
  "AddNode E c rt =
     (let clusterName = c_name c;
          nodeCount = c_count c;
          nodeRole = node_role (c_role c)
      in if nodeRole = ''server'' then (Inl UnsupportedRole, rt)
         else
           (let img = default_image (c_image c)
            in if refuses E NewClient then (Inl DockerClientFailed, rt)
               else if refuses E (ListServers clusterName) \<or>
                       length (running_servers clusterName rt) = 0
               then (Inl ServerNotFound, rt)
               else
                 (case running_servers clusterName rt of
                    [] \<Rightarrow> (Inl IndexOutOfRange, rt)
                  | serverContainer # _ \<Rightarrow>
                      if refuses E (Inspect (ctr_ID serverContainer)) then (Inl InspectFailed, rt)
                      else
                        (let clusterSecretEnvVar = extract_secret [] (ctr_Env serverContainer)
                         in if clusterSecretEnvVar = [] then (Inl SecretNotFound, rt)
                            else
                              (case extract_port [] (ctr_Cmd serverContainer) of
                                 Inl panic \<Rightarrow> (Inl panic, rt)
                               | Inr serverListenPort \<Rightarrow>
                                   if serverListenPort = [] then (Inl ListenPortNotFound, rt)
                                   else if refuses E (ListNetworks clusterName) \<or>
                                           length (filter (\<lambda>n. n = clusterName) (networks rt)) = 0
                                   then (Inl NetworkNotFound, rt)
                                   else
                                     (case (if nodeRole = ''agent'' then
                                              (if refuses E (ListWorkers clusterName)
                                               then Inl WorkerListFailed
                                               else highest_suffix 0 (all_workers clusterName rt))
                                            else Inr 0) of
                                        Inl err \<Rightarrow> (Inl err, rt)
                                      | Inr highestExistingWorkerSuffix \<Rightarrow>
                                          (let serverURLEnvVar =
                                                 ''K3S_URL=https://'' @ ctr_Name serverContainer @
                                                 '':'' @ serverListenPort;
                                               env = [serverURLEnvVar, clusterSecretEnvVar];
                                               clusterSpec = join_spec clusterName img env
                                           in if nodeRole = ''agent'' then
                                                add_workers E clusterSpec
                                                  (wrap (highestExistingWorkerSuffix + 1))
                                                  (wrap (nodeCount + 1 + highestExistingWorkerSuffix)) rt
                                              else (Inr (), rt))))))))"

text \<open>
  \<open>AddNode\<close> gets as far as step (1.2) with \<open>srv\<close> as \<open>serverContainer\<close>: the role is
  not the server's, the client could be made, the list of running servers of the cluster was
  answered and starts with \<open>srv\<close>, and the inspection of \<open>srv\<close> was answered.
\<close>

definition server_inspected :: "externals \<Rightarrow> cli_context \<Rightarrow> runtime \<Rightarrow> container \<Rightarrow> bool" where
  "server_inspected E c rt srv =
     (node_role (c_role c) \<noteq> ''server'' \<and> \<not> refuses E NewClient \<and>
      \<not> refuses E (ListServers (c_name c)) \<and>
      (case running_servers (c_name c) rt of [] \<Rightarrow> False | s # _ \<Rightarrow> s = srv) \<and>
      \<not> refuses E (Inspect (ctr_ID srv)))"

text \<open>
  \<open>AddNode\<close> gets as far as the loop of step (2) over the existing workers: the secret
  and the listen port \<open>port\<close> were found, the network of the cluster was found, the role is
  the agent's and the list of the workers was answered.
\<close>

definition workers_listed :: "externals \<Rightarrow> cli_context \<Rightarrow> runtime \<Rightarrow> container \<Rightarrow> string \<Rightarrow> bool" where
  "workers_listed E c rt srv port =
     (server_inspected E c rt srv \<and>
      extract_secret [] (ctr_Env srv) \<noteq> [] \<and>
      extract_port [] (ctr_Cmd srv) = Inr port \<and> port \<noteq> [] \<and>
      \<not> refuses E (ListNetworks (c_name c)) \<and> c_name c \<in> set (networks rt) \<and>
      node_role (c_role c) = ''agent'' \<and>
      \<not> refuses E (ListWorkers (c_name c)))"

text \<open>The environment of step (3): the URL of the server, then the secret.\<close>

definition join_env :: "container \<Rightarrow> string \<Rightarrow> string list" where
  "join_env srv port =
     [''K3S_URL=https://'' @ ctr_Name srv @ '':'' @ port, extract_secret [] (ctr_Env srv)]"

text \<open>The calls that undo something: the only ones a rollback may issue.\<close>

fun is_removal :: "call \<Rightarrow> bool" where
  "is_removal (ContainerRemove cid) = True"
| "is_removal (ClusterDirDelete n) = True"
| "is_removal (NetworkRemove n) = True"
| "is_removal (VolumeRemove n) = True"
| "is_removal k = False"

text \<open>
  The \<open>clusterSpec\<close> that \<open>CreateCluster\<close> builds, from the parsed API port and the
  port map.
\<close>

definition created_spec ::
  "externals \<Rightarrow> cli_context \<Rightarrow> apiPort \<Rightarrow> (string \<times> string list) list \<Rightarrow> ClusterSpec" where
  "created_spec E c ap portmap =
     \<lparr>AgentArgs = (if c_agent_arg_set c then c_agent_arg c else []),
      APIPort = ap,
      AutoRestart = c_auto_restart c,
      ClusterName = c_name c,
      Env = create_env E c,
      Image = default_image (c_image c),
      NodeToPortSpecMap = portmap,
      PortAutoOffset = c_port_auto_offset c,
      ServerArgs = server_args c ap,
      Verbose = c_verbose c,
      Volumes = c_volume c @ [c_name c @ '':/images'']\<rparr>"

text \<open>
  The calls of a \<open>CreateCluster\<close> in which nothing fails, in the order of the code: the
  network, the image volume, the cluster directory, the server, the wait when one was asked
  for, the workers from ordinal 0.
\<close>

definition wait_calls :: "cli_context \<Rightarrow> call list" where
  "wait_calls c =
     (case c_wait c of
        None \<Rightarrow> []
      | Some secs \<Rightarrow> [WaitForLogMessage (server_name (c_name c)) ''Running kubelet'' secs])"

definition node_order :: "cli_context \<Rightarrow> ClusterSpec \<Rightarrow> call list" where
  "node_order c spec =
     [ClusterDirCreate (c_name c), ServerCreate spec] @ wait_calls c @
     map (WorkerCreate spec) [0 .. c_workers c - 1]"

definition create_order :: "cli_context \<Rightarrow> ClusterSpec \<Rightarrow> call list" where
  "create_order c spec = [NetworkCreate (c_name c), VolumeCreate (c_name c)] @ node_order c spec"

text \<open>
  The order as the specification words it, with the cluster directory created last, and the
  environment as the specification words it, with the user's variables after the secret.
\<close>

definition spec_create_order :: "cli_context \<Rightarrow> ClusterSpec \<Rightarrow> call list" where
  "spec_create_order c spec =
     [NetworkCreate (c_name c), VolumeCreate (c_name c), ServerCreate spec] @ wait_calls c @
     map (WorkerCreate spec) [0 .. c_workers c - 1] @ [ClusterDirCreate (c_name c)]"

definition spec_create_env :: "externals \<Rightarrow> cli_context \<Rightarrow> string list" where
  "spec_create_env E c =
     [''K3S_KUBECONFIG_OUTPUT=/output/kubeconfig.yaml'',
      ''K3S_CLUSTER_SECRET='' @ GenerateRandomString E 20] @ c_env c"

text \<open>
  A container of the cluster \<open>n\<close>; a runtime in which the cluster \<open>n\<close> has exactly one
  server container and otherwise workers; a runtime in which nothing of the cluster \<open>n\<close>
  is left.
\<close>

definition labelled :: "string \<Rightarrow> container \<Rightarrow> bool" where
  "labelled n ct = (has_label ''app'' ''k3d'' ct \<and> has_label ''cluster'' n ct)"

definition one_server :: "string \<Rightarrow> runtime \<Rightarrow> bool" where
  "one_server n rt =
     (length (filter (\<lambda>ct. labelled n ct \<and> has_label ''component'' ''server'' ct) (containers rt)) = 1 \<and>
      list_all (\<lambda>ct. labelled n ct \<longrightarrow>
                  has_label ''component'' ''server'' ct \<or> has_label ''component'' ''worker'' ct)
        (containers rt))"

definition cleaned :: "string \<Rightarrow> runtime \<Rightarrow> bool" where
  "cleaned n rt =
     (list_all (\<lambda>ct. \<not> labelled n ct) (containers rt) \<and>
      n \<notin> set (networks rt) \<and> n \<notin> set (volumes rt) \<and> n \<notin> set (dirs rt))"

section \<open>A small cluster to run the operations on\<close>

definition example_externals :: "(call \<Rightarrow> bool) \<Rightarrow> externals" where
  "example_externals f =
     \<lparr>CheckClusterName = (\<lambda>n. n \<noteq> []),
      parseAPIPort = (\<lambda>s. Some \<lparr>Host = [], HostIP = [], Port = s\<rparr>),
      getDockerMachineIp = ([], False),
      mapNodesToPortSpecs = (\<lambda>ps ns. Some []),
      GenerateRandomString = (\<lambda>n. ''s3cr3t''),
      fails = f,
      refuses = (\<lambda>r. False)\<rparr>"

definition example_node :: "string \<Rightarrow> string \<Rightarrow> string \<Rightarrow> container" where
  "example_node n role nm =
     \<lparr>ctr_ID = nm, ctr_Name = nm, ctr_Labels = node_labels n role,
      ctr_Env = [], ctr_Cmd = [], ctr_Running = True\<rparr>"

definition example_runtime :: runtime where
  "example_runtime =
     \<lparr>containers = [example_node ''demo'' ''server'' ''demo-server'',
                     example_node ''demo'' ''worker'' ''demo-worker-0'',
                     example_node ''demo'' ''worker'' ''demo-worker-1''],
      networks = [''demo''], volumes = [''demo''], dirs = [''demo''], calls = []\<rparr>"

definition example_cluster :: cluster where
  "example_cluster =
     \<lparr>cl_name = ''demo'',
      cl_server = example_node ''demo'' ''server'' ''demo-server'',
      cl_workers = [example_node ''demo'' ''worker'' ''demo-worker-0'',
                    example_node ''demo'' ''worker'' ''demo-worker-1'']\<rparr>"

definition example_context :: cli_context where
  "example_context =
     \<lparr>c_name = ''demo'', c_all = False, c_image = ''rancher/k3s:latest'', c_env = [''A=1''],
      c_api_port = ''6443'', c_server_arg_set = False, c_server_arg = [],
      c_agent_arg_set = False, c_agent_arg = [], c_port = [], c_workers = 2, c_volume = [],
      c_auto_restart = False, c_port_auto_offset = 0, c_verbose = False, c_wait = None,
      c_role = ''worker'', c_count = 2\<rparr>"

definition example_server :: "string list \<Rightarrow> string list \<Rightarrow> container" where
  "example_server env cmd =
     \<lparr>ctr_ID = ''c-server'', ctr_Name = ''c-server'', ctr_Labels = node_labels ''c'' ''server'',
      ctr_Env = env, ctr_Cmd = cmd, ctr_Running = True\<rparr>"

definition example_join_runtime :: "container \<Rightarrow> container list \<Rightarrow> runtime" where
  "example_join_runtime srv ws =
     \<lparr>containers = srv # ws, networks = [''c''], volumes = [''c''], dirs = [''c''], calls = []\<rparr>"

definition example_join_context :: "int \<Rightarrow> cli_context" where
  "example_join_context n =
     \<lparr>c_name = ''c'', c_all = False, c_image = ''rancher/k3s:latest'', c_env = [],
      c_api_port = [], c_server_arg_set = False, c_server_arg = [],
      c_agent_arg_set = False, c_agent_arg = [], c_port = [], c_workers = 0, c_volume = [],
      c_auto_restart = False, c_port_auto_offset = 0, c_verbose = False, c_wait = None,
      c_role = ''worker'', c_count = n\<rparr>"

definition example_empty_runtime :: runtime where
  "example_empty_runtime = \<lparr>containers = [], networks = [], volumes = [], dirs = [], calls = []\<rparr>"

section \<open>The calls an operation issues, and its result\<close>

lemma calls_issue: "calls (issue k rt) = calls rt @ [k]"
  by (simp add: issue_def)

lemma removeContainer_calls: "calls (snd (removeContainer E i rt)) = calls rt @ [ContainerRemove i]"
  by (simp add: removeContainer_def issue_def Let_def)

lemma removeContainer_fst: "fst (removeContainer E i rt) = (\<not> fails E (ContainerRemove i))"
  by (simp add: removeContainer_def Let_def)

lemma remove_workers_step:
  "remove_workers E (w # ws) rt = remove_workers E ws (snd (removeContainer E (ctr_ID w) rt))"
  by (simp split: prod.splits bool.splits)

lemma remove_workers_calls:
  "calls (remove_workers E ws rt) = calls rt @ map (\<lambda>w. ContainerRemove (ctr_ID w)) ws"
proof (induction ws arbitrary: rt)
  case Nil
  show ?case by simp
next
  case (Cons w ws)
  show ?case
    unfolding remove_workers_step by (simp add: Cons.IH removeContainer_calls)
qed

lemma deleteClusterDir_calls: "calls (deleteClusterDir n rt) = calls rt @ [ClusterDirDelete n]"
  by (simp add: deleteClusterDir_def issue_def Let_def)

lemma deleteClusterNetwork_calls:
  "calls (snd (deleteClusterNetwork E n rt)) = calls rt @ [NetworkRemove n]"
  by (simp add: deleteClusterNetwork_def issue_def Let_def)

lemma deleteImageVolume_calls:
  "calls (snd (deleteImageVolume E n rt)) = calls rt @ [VolumeRemove n]"
  by (simp add: deleteImageVolume_def issue_def Let_def)

lemma delete_one_calls:
  "calls (snd (delete_one E cl rt)) =
     calls rt @ map (\<lambda>w. ContainerRemove (ctr_ID w)) (cl_workers cl) @
       [ClusterDirDelete (cl_name cl), ContainerRemove (ctr_ID (cl_server cl))] @
       (if fails E (ContainerRemove (ctr_ID (cl_server cl))) then []
        else [NetworkRemove (cl_name cl), VolumeRemove (cl_name cl)])"
proof -
  let ?rt1 = "if 0 < length (cl_workers cl) then remove_workers E (cl_workers cl) rt else rt"
  have r1: "calls ?rt1 = calls rt @ map (\<lambda>w. ContainerRemove (ctr_ID w)) (cl_workers cl)"
    by (simp add: remove_workers_calls)
  let ?rt2 = "deleteClusterDir (cl_name cl) ?rt1"
  obtain ok rt3 where rc: "removeContainer E (ctr_ID (cl_server cl)) ?rt2 = (ok, rt3)"
    by (cases "removeContainer E (ctr_ID (cl_server cl)) ?rt2")
  have ok: "ok = (\<not> fails E (ContainerRemove (ctr_ID (cl_server cl))))"
    using removeContainer_fst [of E "ctr_ID (cl_server cl)" ?rt2] rc by simp
  have c3: "calls rt3 = calls ?rt2 @ [ContainerRemove (ctr_ID (cl_server cl))]"
    using removeContainer_calls [of E "ctr_ID (cl_server cl)" ?rt2] rc by simp
  show ?thesis
    using rc ok c3 r1
    by (simp add: delete_one_def Let_def deleteClusterDir_calls deleteClusterNetwork_calls
        deleteImageVolume_calls del: remove_workers.simps)
qed

lemma delete_one_result:
  "fst (delete_one E cl rt) =
     (if fails E (ContainerRemove (ctr_ID (cl_server cl))) then Inl ServerRemoveFailed else Inr ())"
  by (simp add: delete_one_def Let_def removeContainer_def split: prod.splits)

lemma removeContainer_containers:
  "containers (snd (removeContainer E i rt)) =
     (if fails E (ContainerRemove i) then containers rt
      else filter (\<lambda>ct. ctr_ID ct \<noteq> i) (containers rt))"
  by (simp add: removeContainer_def issue_def Let_def)

lemma remove_workers_containers:
  "containers (remove_workers E ws rt) =
     filter (\<lambda>ct. \<not> (\<exists>w \<in> set ws. ctr_ID w = ctr_ID ct \<and> \<not> fails E (ContainerRemove (ctr_ID w))))
       (containers rt)"
proof (induction ws arbitrary: rt)
  case Nil
  show ?case by simp
next
  case (Cons w ws)
  show ?case
    unfolding remove_workers_step
    by (auto simp add: Cons.IH removeContainer_containers intro!: filter_cong)
qed

lemma ContainerStop_calls: "calls (snd (ContainerStop_rt E i rt)) = calls rt @ [ContainerStop i]"
  by (simp add: ContainerStop_rt_def issue_def Let_def)

lemma ContainerStop_fst: "fst (ContainerStop_rt E i rt) = (\<not> fails E (ContainerStop i))"
  by (simp add: ContainerStop_rt_def Let_def)

lemma ContainerStart_calls: "calls (snd (ContainerStart_rt E i rt)) = calls rt @ [ContainerStart i]"
  by (simp add: ContainerStart_rt_def issue_def Let_def)

lemma ContainerStart_fst: "fst (ContainerStart_rt E i rt) = (\<not> fails E (ContainerStart i))"
  by (simp add: ContainerStart_rt_def Let_def)

lemma stop_workers_step:
  "stop_workers E (w # ws) rt = stop_workers E ws (snd (ContainerStop_rt E (ctr_ID w) rt))"
  by (simp split: prod.splits bool.splits)

lemma start_workers_step:
  "start_workers E (w # ws) rt = start_workers E ws (snd (ContainerStart_rt E (ctr_ID w) rt))"
  by (simp split: prod.splits bool.splits)

lemma stop_workers_calls:
  "calls (stop_workers E ws rt) = calls rt @ map (\<lambda>w. ContainerStop (ctr_ID w)) ws"
proof (induction ws arbitrary: rt)
  case Nil
  show ?case by simp
next
  case (Cons w ws)
  show ?case
    unfolding stop_workers_step by (simp add: Cons.IH ContainerStop_calls)
qed

lemma start_workers_calls:
  "calls (start_workers E ws rt) = calls rt @ map (\<lambda>w. ContainerStart (ctr_ID w)) ws"
proof (induction ws arbitrary: rt)
  case Nil
  show ?case by simp
next
  case (Cons w ws)
  show ?case
    unfolding start_workers_step by (simp add: Cons.IH ContainerStart_calls)
qed

lemma stop_one_calls:
  "calls (snd (stop_one E cl rt)) =
     calls rt @ map (\<lambda>w. ContainerStop (ctr_ID w)) (cl_workers cl) @
       [ContainerStop (ctr_ID (cl_server cl))]"
proof -
  let ?rt1 = "if 0 < length (cl_workers cl) then stop_workers E (cl_workers cl) rt else rt"
  have r1: "calls ?rt1 = calls rt @ map (\<lambda>w. ContainerStop (ctr_ID w)) (cl_workers cl)"
    by (simp add: stop_workers_calls)
  have "snd (stop_one E cl rt) = snd (ContainerStop_rt E (ctr_ID (cl_server cl)) ?rt1)"
    by (simp add: stop_one_def Let_def split: prod.splits bool.splits)
  then show ?thesis
    using r1 by (simp add: ContainerStop_calls del: stop_workers.simps)
qed

lemma stop_one_result:
  "fst (stop_one E cl rt) =
     (if fails E (ContainerStop (ctr_ID (cl_server cl))) then Inl ServerStopFailed else Inr ())"
  by (simp add: stop_one_def Let_def ContainerStop_rt_def split: prod.splits)

lemma start_one_calls:
  "calls (snd (start_one E cl rt)) =
     calls rt @ [ContainerStart (ctr_ID (cl_server cl))] @
       (if fails E (ContainerStart (ctr_ID (cl_server cl))) then []
        else map (\<lambda>w. ContainerStart (ctr_ID w)) (cl_workers cl))"
proof -
  obtain ok rt1 where rc: "ContainerStart_rt E (ctr_ID (cl_server cl)) rt = (ok, rt1)"
    by (cases "ContainerStart_rt E (ctr_ID (cl_server cl)) rt")
  have ok: "ok = (\<not> fails E (ContainerStart (ctr_ID (cl_server cl))))"
    using ContainerStart_fst [of E "ctr_ID (cl_server cl)" rt] rc by simp
  have c1: "calls rt1 = calls rt @ [ContainerStart (ctr_ID (cl_server cl))]"
    using ContainerStart_calls [of E "ctr_ID (cl_server cl)" rt] rc by simp
  show ?thesis
    using rc ok c1 by (simp add: start_one_def start_workers_calls del: start_workers.simps)
qed

lemma start_one_result:
  "fst (start_one E cl rt) =
     (if fails E (ContainerStart (ctr_ID (cl_server cl))) then Inl ServerStartFailed else Inr ())"
  by (simp add: start_one_def Let_def ContainerStart_rt_def split: prod.splits)

lemma stop_clusters_step:
  "stop_clusters E (cl # rest) rt =
     (if fails E (ContainerStop (ctr_ID (cl_server cl))) then (Inl ServerStopFailed, snd (stop_one E cl rt))
      else stop_clusters E rest (snd (stop_one E cl rt)))"
  using stop_one_result [of E cl rt]
  by (cases "stop_one E cl rt") (auto split: sum.splits if_splits)

lemma start_clusters_step:
  "start_clusters E (cl # rest) rt =
     (if fails E (ContainerStart (ctr_ID (cl_server cl))) then (Inl ServerStartFailed, snd (start_one E cl rt))
      else start_clusters E rest (snd (start_one E cl rt)))"
  using start_one_result [of E cl rt]
  by (cases "start_one E cl rt") (auto split: sum.splits if_splits)

lemma delete_clusters_step:
  "delete_clusters E (cl # rest) rt =
     (if fails E (ContainerRemove (ctr_ID (cl_server cl))) then (Inl ServerRemoveFailed, snd (delete_one E cl rt))
      else delete_clusters E rest (snd (delete_one E cl rt)))"
  using delete_one_result [of E cl rt]
  by (cases "delete_one E cl rt") (auto split: sum.splits if_splits)

lemma query_absent:
  assumes "n \<noteq> []"
    and "\<forall>ct \<in> set (containers rt). \<not> (has_label ''app'' ''k3d'' ct \<and> has_label ''cluster'' n ct)"
  shows "query_containers False n rt = []"
  using assms by (auto simp add: query_containers_def filter_empty_conv)

lemma getClusters_absent:
  assumes "n \<noteq> []"
    and "\<forall>ct \<in> set (containers rt). \<not> (has_label ''app'' ''k3d'' ct \<and> has_label ''cluster'' n ct)"
  shows "getClusters False n rt = Inr []"
  using query_absent [OF assms] by (simp add: getClusters_def)

lemma name_suffix_0: "name_suffix ''demo-worker-0'' = Inr 0"
  by (simp add: name_suffix_def Atoi_def is_digit_def digit_val_def minInt_def maxInt_def Let_def)
lemma name_suffix_1: "name_suffix ''demo-worker-1'' = Inr 1"
  by (simp add: name_suffix_def Atoi_def is_digit_def digit_val_def minInt_def maxInt_def Let_def)

lemma example_getClusters: "getClusters False ''demo'' example_runtime = Inr [example_cluster]"
  by (simp add: getClusters_def query_containers_def example_runtime_def example_node_def
      node_labels_def has_label_def label_value_def servers_of_def workers_of_def
      group_cluster_def example_cluster_def worker_suffix_def name_suffix_0 name_suffix_1 Let_def)

lemma deleteClusterDir_containers: "containers (deleteClusterDir n rt) = containers rt"
  by (simp add: deleteClusterDir_def issue_def Let_def)

lemma deleteClusterNetwork_containers: "containers (snd (deleteClusterNetwork E n rt)) = containers rt"
  by (simp add: deleteClusterNetwork_def issue_def Let_def)

lemma deleteImageVolume_containers: "containers (snd (deleteImageVolume E n rt)) = containers rt"
  by (simp add: deleteImageVolume_def issue_def Let_def)

lemma delete_one_snd:
  "snd (delete_one E cl rt) =
     (let rt1 = (if 0 < length (cl_workers cl) then remove_workers E (cl_workers cl) rt else rt);
          rt3 = snd (removeContainer E (ctr_ID (cl_server cl)) (deleteClusterDir (cl_name cl) rt1))
      in if fails E (ContainerRemove (ctr_ID (cl_server cl))) then rt3
         else snd (deleteImageVolume E (cl_name cl) (snd (deleteClusterNetwork E (cl_name cl) rt3))))"
  by (simp add: delete_one_def Let_def removeContainer_def split: prod.splits)

lemma delete_one_containers:
  "containers (snd (delete_one E cl rt)) =
     filter (\<lambda>ct. \<not> (\<exists>w \<in> set (cl_workers cl).
                        ctr_ID w = ctr_ID ct \<and> \<not> fails E (ContainerRemove (ctr_ID w))) \<and>
                  (fails E (ContainerRemove (ctr_ID (cl_server cl))) \<or>
                   ctr_ID ct \<noteq> ctr_ID (cl_server cl)))
       (containers rt)"
proof -
  let ?rt1 = "if 0 < length (cl_workers cl) then remove_workers E (cl_workers cl) rt else rt"
  have r1: "containers ?rt1 =
      filter (\<lambda>ct. \<not> (\<exists>w \<in> set (cl_workers cl).
                        ctr_ID w = ctr_ID ct \<and> \<not> fails E (ContainerRemove (ctr_ID w))))
        (containers rt)"
    by (simp add: remove_workers_containers)
  show ?thesis
    unfolding delete_one_snd Let_def
    by (auto simp add: deleteImageVolume_containers deleteClusterNetwork_containers
        removeContainer_containers deleteClusterDir_containers remove_workers_containers
        simp del: remove_workers.simps intro!: filter_cong)
qed

section \<open>The steps of AddNode\<close>

lemma split_on_nonempty: "split_on sep s \<noteq> []"
  by (induction s) (auto split: list.splits)

lemma env_key_Nil: "env_key [] = []"
  by (simp add: env_key_def)

lemma extract_secret_filter:
  "extract_secret cur env =
     (case filter (\<lambda>e. env_key e = ''K3S_CLUSTER_SECRET'') env of
        [] \<Rightarrow> cur
      | e # es \<Rightarrow> last (e # es))"
proof (induction env arbitrary: cur)
  case Nil
  show ?case by simp
next
  case (Cons a env)
  show ?case
    by (simp add: Cons.IH split: list.splits)
qed

lemma extract_secret_absent:
  "\<not> (\<exists>e \<in> set env. env_key e = ''K3S_CLUSTER_SECRET'') \<Longrightarrow> extract_secret cur env = cur"
  by (simp add: extract_secret_filter filter_empty_conv split: list.splits) 

lemma extract_secret_present:
  assumes "\<exists>e \<in> set env. env_key e = ''K3S_CLUSTER_SECRET''"
  shows "extract_secret cur env = last (filter (\<lambda>e. env_key e = ''K3S_CLUSTER_SECRET'') env) \<and>
         extract_secret cur env \<in> set env \<and>
         env_key (extract_secret cur env) = ''K3S_CLUSTER_SECRET'' \<and>
         extract_secret cur env \<noteq> []"
proof -
  let ?f = "filter (\<lambda>e. env_key e = ''K3S_CLUSTER_SECRET'') env"
  have ne: "?f \<noteq> []"
    using assms by (simp add: filter_empty_conv)
  then have eq: "extract_secret cur env = last ?f"
    by (simp add: extract_secret_filter split: list.splits)
  have "last ?f \<in> set ?f"
    using ne by (rule last_in_set)
  then have m: "last ?f \<in> set env \<and> env_key (last ?f) = ''K3S_CLUSTER_SECRET''"
    by simp
  then have "last ?f \<noteq> []"
    using env_key_Nil by auto
  with eq m show ?thesis by simp
qed

lemma extract_port_panic_iff:
  "extract_port cur cmd = Inl e \<longleftrightarrow>
     e = IndexOutOfRange \<and> cmd \<noteq> [] \<and> last cmd = ''--https-listen-port''"
proof (induction cmd arbitrary: cur)
  case Nil
  show ?case by simp
next
  case (Cons a cmd)
  show ?case
  proof (cases cmd)
    case Nil
    then show ?thesis by auto
  next
    case (Cons b rest)
    then show ?thesis
      using Cons.IH [of b] Cons.IH [of cur] by auto
  qed
qed

lemma extract_port_absent:
  "''--https-listen-port'' \<notin> set cmd \<Longrightarrow> extract_port cur cmd = Inr cur"
  by (induction cmd arbitrary: cur) auto

lemma extract_port_last_occurrence:
  assumes "''--https-listen-port'' \<notin> set (p # post)"
  shows "extract_port cur (pre @ ''--https-listen-port'' # p # post) = Inr p"
proof (induction pre arbitrary: cur)
  case Nil
  have "extract_port p (p # post) = Inr p"
    using assms by (intro extract_port_absent) 
  then show ?case by simp
next
  case (Cons a pre)
  show ?case
    using Cons.IH [of cur] Cons.IH [of "hd (pre @ ''--https-listen-port'' # p # post)"]
    by (cases pre) auto
qed

lemma AddNode_inspected:
  assumes "server_inspected E c rt srv"
  shows "AddNode E c rt =
     (if extract_secret [] (ctr_Env srv) = [] then (Inl SecretNotFound, rt)
      else case extract_port [] (ctr_Cmd srv) of
        Inl p \<Rightarrow> (Inl p, rt)
      | Inr port \<Rightarrow>
          if port = [] then (Inl ListenPortNotFound, rt)
          else if refuses E (ListNetworks (c_name c)) \<or> c_name c \<notin> set (networks rt)
          then (Inl NetworkNotFound, rt)
          else case (if node_role (c_role c) = ''agent'' then
                       (if refuses E (ListWorkers (c_name c)) then Inl WorkerListFailed
                        else highest_suffix 0 (all_workers (c_name c) rt))
                     else Inr 0) of
                 Inl err \<Rightarrow> (Inl err, rt)
               | Inr h \<Rightarrow>
                   if node_role (c_role c) = ''agent'' then
                     add_workers E (join_spec (c_name c) (default_image (c_image c)) (join_env srv port))
                       (wrap (h + 1)) (wrap (c_count c + 1 + h)) rt
                   else (Inr (), rt))"
proof -
  obtain more where rs: "running_servers (c_name c) rt = srv # more"
    using assms by (auto simp add: server_inspected_def split: list.splits)
  have nf: "(filter (\<lambda>n. n = c_name c) (networks rt) = []) = (c_name c \<notin> set (networks rt))"
    by (auto simp add: filter_empty_conv)
  show ?thesis
    using assms rs
    by (simp add: AddNode_def server_inspected_def Let_def join_env_def nf
        split: sum.splits)
qed

lemma createWorker_calls:
  "calls (snd (createWorker E spec i rt)) = calls rt @ [WorkerCreate spec i]"
  by (simp add: createWorker_def issue_def Let_def)

lemma createWorker_fst:
  "(\<exists>e. fst (createWorker E spec i rt) = Inl e) = fails E (WorkerCreate spec i)"
  by (simp add: createWorker_def Let_def)

lemma add_workers_calls_prefix:
  "\<exists>m. s - 1 \<le> m \<and> m \<le> max (b - 1) (s - 1) \<and>
       calls (snd (add_workers E spec s b rt)) = calls rt @ map (WorkerCreate spec) [s .. m]"
proof (induction E spec s b rt rule: add_workers.induct)
  case (1 E spec s b rt)
  show ?case
  proof (cases "s < b")
    case False
    then have "add_workers E spec s b rt = (Inr (), rt)"
      by (simp add: add_workers.simps)
    then have "calls (snd (add_workers E spec s b rt)) = calls rt @ map (WorkerCreate spec) [s .. s - 1]"
      by simp
    then show ?thesis
      by (intro exI [of _ "s - 1"]) simp
  next
    case True
    obtain r rt1 where cw: "createWorker E spec s rt = (r, rt1)"
      by (cases "createWorker E spec s rt")
    have c1: "calls rt1 = calls rt @ [WorkerCreate spec s]"
      using createWorker_calls [of E spec s rt] cw by simp
    show ?thesis
    proof (cases r)
      case (Inl e)
      then have "add_workers E spec s b rt = (Inl WorkerCreateFailed, rt1)"
        using True cw by (simp add: add_workers.simps)
      then have "calls (snd (add_workers E spec s b rt)) = calls rt @ map (WorkerCreate spec) [s .. s]"
        using c1 by simp
      then show ?thesis
        using True by (intro exI [of _ s]) simp
    next
      case (Inr wid)
      then have eq: "add_workers E spec s b rt = add_workers E spec (s + 1) b rt1"
        using True cw by (simp add: add_workers.simps)
      from "1.IH" [OF True cw [symmetric] Inr]
      obtain m where m: "s + 1 - 1 \<le> m" "m \<le> max (b - 1) (s + 1 - 1)"
        "calls (snd (add_workers E spec (s + 1) b rt1)) = calls rt1 @ map (WorkerCreate spec) [s + 1 .. m]"
        by auto
      have "[s .. m] = s # [s + 1 .. m]"
        using m(1) by (simp add: upto_rec1)
      then have "calls (snd (add_workers E spec s b rt)) = calls rt @ map (WorkerCreate spec) [s .. m]"
        using eq m(3) c1 by simp
      then show ?thesis
        using m(1,2) True by (intro exI [of _ m]) auto
    qed
  qed
qed

lemma add_workers_calls_ok:
  assumes "\<forall>i. s \<le> i \<and> i < b \<longrightarrow> \<not> fails E (WorkerCreate spec i)"
  shows "fst (add_workers E spec s b rt) = Inr () \<and>
         calls (snd (add_workers E spec s b rt)) = calls rt @ map (WorkerCreate spec) [s .. b - 1]"
  using assms
proof (induction E spec s b rt rule: add_workers.induct)
  case (1 E spec s b rt)
  show ?case
  proof (cases "s < b")
    case False
    then show ?thesis
      by (simp add: add_workers.simps)
  next
    case True
    obtain r rt1 where cw: "createWorker E spec s rt = (r, rt1)"
      by (cases "createWorker E spec s rt")
    have c1: "calls rt1 = calls rt @ [WorkerCreate spec s]"
      using createWorker_calls [of E spec s rt] cw by simp
    have "\<not> fails E (WorkerCreate spec s)"
      using "1.prems" True by simp
    then obtain wid where r: "r = Inr wid"
      using createWorker_fst [of E spec s rt] cw by (cases r) auto
    have eq: "add_workers E spec s b rt = add_workers E spec (s + 1) b rt1"
      using True cw r by (simp add: add_workers.simps)
    have "\<forall>i. s + 1 \<le> i \<and> i < b \<longrightarrow> \<not> fails E (WorkerCreate spec i)"
      using "1.prems" by simp
    from "1.IH" [OF True cw [symmetric] r this]
    have ih: "fst (add_workers E spec (s + 1) b rt1) = Inr () \<and>
      calls (snd (add_workers E spec (s + 1) b rt1)) = calls rt1 @ map (WorkerCreate spec) [s + 1 .. b - 1]"
      by simp
    have "[s .. b - 1] = s # [s + 1 .. b - 1]"
      using True by (simp add: upto_rec1)
    then show ?thesis
      using eq ih c1 by simp
  qed
qed

lemma wrap_id: "minInt \<le> x \<Longrightarrow> x \<le> maxInt \<Longrightarrow> wrap x = x"
  by (simp add: wrap_def minInt_def maxInt_def)

lemma split_on_no_sep: "p \<in> set (split_on sep s) \<Longrightarrow> sep \<notin> set p"
proof (induction s arbitrary: p)
  case Nil
  then show ?case by simp
next
  case (Cons a s)
  then show ?case
    by (cases "split_on sep s") (auto split: if_splits)
qed

lemma digit_val_nonneg: "is_digit ch \<Longrightarrow> 0 \<le> digit_val ch"
  by (simp add: is_digit_def digit_val_def)

lemma digits_val_nonneg: "list_all is_digit ds \<Longrightarrow> 0 \<le> acc \<Longrightarrow> 0 \<le> digits_val acc ds"
proof (induction ds arbitrary: acc)
  case Nil
  then show ?case by simp
next
  case (Cons d ds)
  have "0 \<le> acc * 10 + digit_val d"
    using Cons.prems digit_val_nonneg [of d] by simp
  then show ?case
    using Cons by simp
qed

lemma name_suffix_nonneg:
  assumes "name_suffix nm = Inr v"
  shows "0 \<le> v"
proof -
  let ?s = "last (split_on CHR ''-'' nm)"
  have "?s \<in> set (split_on CHR ''-'' nm)"
    by (simp add: split_on_nonempty)
  then have nd: "CHR ''-'' \<notin> set ?s"
    by (rule split_on_no_sep)
  then have nh: "?s \<noteq> [] \<longrightarrow> hd ?s \<noteq> CHR ''-''"
    by (cases ?s) auto
  show ?thesis
    using assms nh
    by (auto simp add: name_suffix_def Atoi_def Let_def digits_val_nonneg split: if_splits)
qed

lemma name_suffix_range:
  assumes "name_suffix nm = Inr v"
  shows "v \<le> maxInt"
  using assms
  by (auto simp add: name_suffix_def Atoi_def Let_def split: if_splits)

lemma highest_suffix_parsed:
  assumes "map (\<lambda>w. name_suffix (ctr_Name w)) ws = map Inr vs"
  shows "highest_suffix h ws = Inr (Max (insert h (set vs)))"
  using assms
proof (induction ws arbitrary: h vs)
  case Nil
  then show ?case by simp
next
  case (Cons w ws)
  then obtain v vs' where vs: "vs = v # vs'" "name_suffix (ctr_Name w) = Inr v"
    "map (\<lambda>w. name_suffix (ctr_Name w)) ws = map Inr vs'"
    by (cases vs) auto
  have "highest_suffix h (w # ws) = highest_suffix (if v > h then v else h) ws"
    using vs(2) by simp
  also have "\<dots> = Inr (Max (insert (if v > h then v else h) (set vs')))"
    using Cons.IH [OF vs(3)] by simp
  also have "Max (insert (if v > h then v else h) (set vs')) = Max (insert h (set vs))"
  proof -
    have "(if v > h then v else h) = max h v"
      by simp
    moreover have "Max (insert (max h v) (set vs')) = Max (insert h (insert v (set vs')))"
      by (cases "vs' = []") (simp_all add: max.assoc)
    ultimately show ?thesis
      by (simp add: vs(1))
  qed
  finally show ?case .
qed

lemma highest_suffix_nonempty:
  assumes "map (\<lambda>w. name_suffix (ctr_Name w)) ws = map Inr vs"
    and "vs \<noteq> []"
  shows "highest_suffix 0 ws = Inr (Max (set vs))"
proof -
  have "\<forall>v \<in> set vs. 0 \<le> v"
  proof
    fix v
    assume "v \<in> set vs"
    then have "Inr v \<in> set (map (\<lambda>w. name_suffix (ctr_Name w)) ws)"
      using assms(1) by simp
    then have "Inr v \<in> (\<lambda>w. name_suffix (ctr_Name w)) ` set ws"
      by (simp only: set_map)
    then obtain w :: container where "Inr v = name_suffix (ctr_Name w)"
      by blast
    then have "name_suffix (ctr_Name w) = Inr v"
      by (rule sym)
    then show "0 \<le> v"
      by (rule name_suffix_nonneg)
  qed
  then have "0 \<le> Max (set vs)"
  proof (cases vs)
    case Nil
    with assms(2) show ?thesis by simp
  next
    case (Cons a as)
    assume nn: "\<forall>v \<in> set vs. 0 \<le> v"
    have a: "a \<in> set vs"
      using Cons by simp
    then have "a \<le> Max (set vs)"
      by simp
    moreover have "0 \<le> a"
      using nn a by blast
    ultimately show ?thesis
      by linarith
  qed
  then have "Max (insert 0 (set vs)) = Max (set vs)"
    using assms(2) by simp
  then show ?thesis
    using highest_suffix_parsed [OF assms(1), of 0] by simp
qed

lemma highest_suffix_error:
  assumes "\<exists>w \<in> set ws. \<exists>e. name_suffix (ctr_Name w) = Inl e"
  shows "\<exists>e. highest_suffix h ws = Inl e \<and> (e = SuffixSyntax \<or> e = SuffixRange)"
  using assms
proof (induction ws arbitrary: h)
  case Nil
  then show ?case by simp
next
  case (Cons w ws)
  show ?case
  proof (cases "name_suffix (ctr_Name w)")
    case (Inl e)
    then have "e = SuffixSyntax \<or> e = SuffixRange"
      by (auto simp add: name_suffix_def Atoi_def Let_def split: if_splits)
    then show ?thesis
      using Inl by simp
  next
    case (Inr v)
    then have "\<exists>w \<in> set ws. \<exists>e. name_suffix (ctr_Name w) = Inl e"
      using Cons.prems by auto
    then show ?thesis
      using Cons.IH Inr by simp
  qed
qed

lemma highest_suffix_bounds:
  "highest_suffix h ws = Inr r \<Longrightarrow> 0 \<le> h \<Longrightarrow> h \<le> maxInt \<Longrightarrow> 0 \<le> r \<and> r \<le> maxInt"
proof (induction ws arbitrary: h)
  case Nil
  then show ?case by simp
next
  case (Cons w ws)
  then obtain v where v: "name_suffix (ctr_Name w) = Inr v"
    by (cases "name_suffix (ctr_Name w)") auto
  have "0 \<le> v" "v \<le> maxInt"
    using v name_suffix_nonneg name_suffix_range by auto
  then show ?case
    using Cons v by (auto split: if_splits)
qed

lemma AddNode_listed:
  assumes "workers_listed E c rt srv port"
  shows "AddNode E c rt =
     (case highest_suffix 0 (all_workers (c_name c) rt) of
        Inl err \<Rightarrow> (Inl err, rt)
      | Inr h \<Rightarrow>
          add_workers E (join_spec (c_name c) (default_image (c_image c)) (join_env srv port))
            (wrap (h + 1)) (wrap (c_count c + 1 + h)) rt)"
  using assms AddNode_inspected [of E c rt srv]
  by (simp add: workers_listed_def split: sum.splits)

lemma example_suffixes:
  "name_suffix ''c-worker-0'' = Inr 0" "name_suffix ''c-worker-2'' = Inr 2"
  "name_suffix ''c-worker-x'' = Inl SuffixSyntax"
  by (simp_all add: name_suffix_def Atoi_def is_digit_def digit_val_def minInt_def maxInt_def Let_def)

lemma example_env_key: "env_key ''K3S_CLUSTER_SECRET=abc'' = ''K3S_CLUSTER_SECRET''"
  by (simp add: env_key_def)

lemma example_workers_listed:
  "workers_listed (example_externals (\<lambda>k. False)) (example_join_context n)
     (example_join_runtime
        (example_server [''K3S_CLUSTER_SECRET=abc''] [''--https-listen-port'', ''6443'']) ws)
     (example_server [''K3S_CLUSTER_SECRET=abc''] [''--https-listen-port'', ''6443''])
     ''6443''"
proof -
  have "running_servers ''c'' (example_join_runtime
        (example_server [''K3S_CLUSTER_SECRET=abc''] [''--https-listen-port'', ''6443'']) ws)
      = example_server [''K3S_CLUSTER_SECRET=abc''] [''--https-listen-port'', ''6443''] #
        filter (\<lambda>ct. has_label ''cluster'' ''c'' ct \<and> has_label ''app'' ''k3d'' ct \<and>
                  has_label ''component'' ''server'' ct \<and> ctr_Running ct) ws"
    by (simp add: running_servers_def example_join_runtime_def example_server_def
        has_label_def node_labels_def)
  then show ?thesis
    by (simp add: workers_listed_def server_inspected_def example_externals_def
        example_join_context_def node_role_def example_env_key Let_def)
      (simp add: example_server_def example_join_runtime_def example_env_key)
qed

lemma example_all_workers:
  "all_workers ''c'' (example_join_runtime (example_server env cmd)
      (map (example_node ''c'' ''worker'') names)) = map (example_node ''c'' ''worker'') names"
proof -
  have "filter (\<lambda>ct. has_label ''cluster'' ''c'' ct \<and> has_label ''app'' ''k3d'' ct \<and>
                  has_label ''component'' ''worker'' ct) (map (example_node ''c'' ''worker'') names)
        = map (example_node ''c'' ''worker'') names"
    by (induction names) (simp_all add: example_node_def has_label_def node_labels_def)
  then show ?thesis
    by (simp add: all_workers_def example_join_runtime_def example_server_def has_label_def
        node_labels_def)
qed

section \<open>The results of AddNode, the calls of a rollback and of the worker loop\<close>

lemma example_server_inspected:
  "server_inspected (example_externals (\<lambda>k. False)) (example_join_context n)
     (example_join_runtime (example_server env cmd) ws) (example_server env cmd)"
proof -
  have "running_servers ''c'' (example_join_runtime (example_server env cmd) ws)
      = example_server env cmd #
        filter (\<lambda>ct. has_label ''cluster'' ''c'' ct \<and> has_label ''app'' ''k3d'' ct \<and>
                  has_label ''component'' ''server'' ct \<and> ctr_Running ct) ws"
    by (simp add: running_servers_def example_join_runtime_def example_server_def
        has_label_def node_labels_def)
  then show ?thesis
    by (simp add: server_inspected_def example_externals_def
        example_join_context_def node_role_def Let_def)
qed

lemma example_secret:
  "extract_secret [] (ctr_Env (example_server [''K3S_CLUSTER_SECRET=abc''] cmd)) =
     ''K3S_CLUSTER_SECRET=abc''"
  by (simp add: example_server_def example_env_key)

lemma AddNode_calls_inspected:
  assumes "server_inspected E c rt srv"
    and "extract_port [] (ctr_Cmd srv) = Inr port"
  shows "\<exists>s m. calls (snd (AddNode E c rt)) =
           calls rt @ map (WorkerCreate (join_spec (c_name c) (default_image (c_image c))
                                           (join_env srv port))) [s .. m]"
proof -
  let ?spec = "join_spec (c_name c) (default_image (c_image c)) (join_env srv port)"
  have unchanged: "\<exists>s m. calls (snd (AddNode E c rt)) = calls rt @ map (WorkerCreate ?spec) [s .. m]"
    if "snd (AddNode E c rt) = rt"
    using that by (intro exI [of _ 1] exI [of _ 0]) simp
  have looped: "\<exists>s m. calls (snd (AddNode E c rt)) = calls rt @ map (WorkerCreate ?spec) [s .. m]"
    if "AddNode E c rt = add_workers E ?spec s b rt" for s b
    using add_workers_calls_prefix [of s b E ?spec rt] that by auto
  show ?thesis
    using AddNode_inspected [OF assms(1)] assms(2) unchanged looped
    by (auto split: if_splits sum.splits)
qed

lemma wrap_high:
  assumes "9223372036854775808 \<le> x" and "x < 27670116110564327424"
  shows "wrap x = x - 18446744073709551616"
proof -
  have "(x + 9223372036854775808) mod 18446744073709551616
      = (x + 9223372036854775808 - 18446744073709551616) mod 18446744073709551616"
    by (metis minus_mod_self2)
  also have "\<dots> = x + 9223372036854775808 - 18446744073709551616"
    using assms by (intro mod_pos_pos_trivial) simp_all
  finally show ?thesis
    by (simp add: wrap_def)
qed

lemma add_workers_fst:
  "fst (add_workers E spec s b rt) = Inr () \<or> fst (add_workers E spec s b rt) = Inl WorkerCreateFailed"
proof (induction E spec s b rt rule: add_workers.induct)
  case (1 E spec s b rt)
  show ?case
  proof (cases "s < b")
    case False
    then show ?thesis by (simp add: add_workers.simps)
  next
    case True
    obtain r rt1 where cw: "createWorker E spec s rt = (r, rt1)"
      by (cases "createWorker E spec s rt")
    show ?thesis
    proof (cases r)
      case (Inl e)
      then show ?thesis
        using True cw by (simp add: add_workers.simps)
    next
      case (Inr wid)
      then have "add_workers E spec s b rt = add_workers E spec (s + 1) b rt1"
        using True cw by (simp add: add_workers.simps)
      then show ?thesis
        using "1.IH" [OF True cw [symmetric] Inr] by simp
    qed
  qed
qed

lemma highest_suffix_Inl:
  "highest_suffix h ws = Inl e \<Longrightarrow> e = SuffixSyntax \<or> e = SuffixRange"
proof (induction ws arbitrary: h)
  case Nil
  then show ?case by simp
next
  case (Cons w ws)
  show ?case
  proof (cases "name_suffix (ctr_Name w)")
    case (Inl e')
    then have "e' = SuffixSyntax \<or> e' = SuffixRange"
      by (auto simp add: name_suffix_def Atoi_def Let_def split: if_splits)
    then show ?thesis
      using Inl Cons.prems by simp
  next
    case (Inr v)
    then show ?thesis
      using Cons by simp
  qed
qed

lemma AddNode_not_listed:
  assumes si: "server_inspected E c rt srv"
    and nl: "\<not> (\<exists>port. workers_listed E c rt srv port)"
  shows "snd (AddNode E c rt) = rt \<and>
         fst (AddNode E c rt) \<in> {Inl SecretNotFound, Inl IndexOutOfRange, Inl ListenPortNotFound,
                                Inl NetworkNotFound, Inl WorkerListFailed, Inr ()}"
proof (cases "extract_secret [] (ctr_Env srv) = []")
  case True
  then show ?thesis
    using AddNode_inspected [OF si] by simp
next
  case se: False
  show ?thesis
  proof (cases "extract_port [] (ctr_Cmd srv)")
    case (Inl p)
    then have "p = IndexOutOfRange"
      by (simp add: extract_port_panic_iff)
    then show ?thesis
      using AddNode_inspected [OF si] se Inl by simp
  next
    case (Inr port)
    show ?thesis
    proof (cases "port = []")
      case True
      then show ?thesis
        using AddNode_inspected [OF si] se Inr by simp
    next
      case pn: False
      show ?thesis
      proof (cases "refuses E (ListNetworks (c_name c)) \<or> c_name c \<notin> set (networks rt)")
        case True
        then show ?thesis
          using AddNode_inspected [OF si] se Inr pn by simp
      next
        case nw: False
        show ?thesis
        proof (cases "node_role (c_role c) = ''agent''")
          case False
          then show ?thesis
            using AddNode_inspected [OF si] se Inr pn nw by simp
        next
          case ag: True
          have "refuses E (ListWorkers (c_name c))"
            using nl si se Inr pn nw ag by (auto simp add: workers_listed_def)
          then show ?thesis
            using AddNode_inspected [OF si] se Inr pn nw ag by simp
        qed
      qed
    qed
  qed
qed

lemma AddNode_derived_result:
  assumes si: "server_inspected E c rt srv"
    and se: "extract_secret [] (ctr_Env srv) \<noteq> []"
    and ep: "extract_port [] (ctr_Cmd srv) = Inr port" and pn: "port \<noteq> []"
  shows "fst (AddNode E c rt) \<noteq> Inl SecretNotFound \<and>
         fst (AddNode E c rt) \<noteq> Inl ListenPortNotFound \<and>
         fst (AddNode E c rt) \<noteq> Inl IndexOutOfRange"
proof (cases "workers_listed E c rt srv port")
  case True
  show ?thesis
  proof (cases "highest_suffix 0 (all_workers (c_name c) rt)")
    case (Inl e)
    then show ?thesis
      using AddNode_listed [OF True] highest_suffix_Inl [OF Inl] by auto
  next
    case (Inr h)
    then show ?thesis
      using AddNode_listed [OF True]
        add_workers_fst [of E "join_spec (c_name c) (default_image (c_image c)) (join_env srv port)"
          "wrap (h + 1)" "wrap (c_count c + 1 + h)" rt]
      by auto
  qed
next
  case False
  have u: "AddNode E c rt =
     (if refuses E (ListNetworks (c_name c)) \<or> c_name c \<notin> set (networks rt)
      then (Inl NetworkNotFound, rt)
      else case (if node_role (c_role c) = ''agent'' then
                   (if refuses E (ListWorkers (c_name c)) then Inl WorkerListFailed
                    else highest_suffix 0 (all_workers (c_name c) rt))
                 else Inr 0) of
             Inl err \<Rightarrow> (Inl err, rt)
           | Inr h \<Rightarrow>
               if node_role (c_role c) = ''agent'' then
                 add_workers E (join_spec (c_name c) (default_image (c_image c)) (join_env srv port))
                   (wrap (h + 1)) (wrap (c_count c + 1 + h)) rt
               else (Inr (), rt))"
    using AddNode_inspected [OF si] se ep pn by simp
  show ?thesis
  proof (cases "refuses E (ListNetworks (c_name c)) \<or> c_name c \<notin> set (networks rt)")
    case True
    then show ?thesis using u by simp
  next
    case nw: False
    show ?thesis
    proof (cases "node_role (c_role c) = ''agent''")
      case False
      then show ?thesis using u nw by simp
    next
      case ag: True
      then have "refuses E (ListWorkers (c_name c))"
        using \<open>\<not> workers_listed E c rt srv port\<close> si se ep pn nw
        by (auto simp add: workers_listed_def)
      then show ?thesis using u nw ag by simp
    qed
  qed
qed

lemma AddNode_cases:
  "snd (AddNode E c rt) = rt \<or>
   (\<exists>srv port h. workers_listed E c rt srv port \<and>
      highest_suffix 0 (all_workers (c_name c) rt) = Inr h \<and>
      AddNode E c rt =
        add_workers E (join_spec (c_name c) (default_image (c_image c)) (join_env srv port))
          (wrap (h + 1)) (wrap (c_count c + 1 + h)) rt)"
proof (cases "\<exists>srv. server_inspected E c rt srv")
  case False
  have "snd (AddNode E c rt) = rt"
  proof (cases "running_servers (c_name c) rt")
    case Nil
    then show ?thesis
      by (simp add: AddNode_def Let_def)
  next
    case (Cons s more)
    then have "\<not> server_inspected E c rt s"
      using False by blast
    then have "node_role (c_role c) = ''server'' \<or> refuses E NewClient \<or>
        refuses E (ListServers (c_name c)) \<or> refuses E (Inspect (ctr_ID s))"
      using Cons by (simp add: server_inspected_def)
    then show ?thesis
      using Cons by (auto simp add: AddNode_def Let_def)
  qed
  then show ?thesis ..
next
  case True
  then obtain srv where si: "server_inspected E c rt srv" ..
  show ?thesis
  proof (cases "\<exists>port. workers_listed E c rt srv port")
    case False
    then show ?thesis
      using AddNode_not_listed [OF si] by simp
  next
    case True
    then obtain port where wl: "workers_listed E c rt srv port" ..
    show ?thesis
    proof (cases "highest_suffix 0 (all_workers (c_name c) rt)")
      case (Inl e)
      then show ?thesis
        using AddNode_listed [OF wl] by simp
    next
      case (Inr h)
      then show ?thesis
        using AddNode_listed [OF wl] wl by auto
    qed
  qed
qed

lemma delete_one_extends:
  "\<exists>rb. calls (snd (delete_one E cl rt)) = calls rt @ rb \<and> list_all is_removal rb"
  by (simp add: delete_one_calls list_all_iff)

lemma delete_clusters_extends:
  "\<exists>rb. calls (snd (delete_clusters E cls rt)) = calls rt @ rb \<and> list_all is_removal rb"
proof (induction cls arbitrary: rt)
  case Nil
  show ?case by simp
next
  case (Cons cl cls)
  obtain rb1 where 1: "calls (snd (delete_one E cl rt)) = calls rt @ rb1" "list_all is_removal rb1"
    using delete_one_extends by blast
  show ?case
  proof (cases "fails E (ContainerRemove (ctr_ID (cl_server cl)))")
    case True
    then show ?thesis
      using 1 by (simp add: delete_clusters_step del: delete_clusters.simps)
  next
    case False
    obtain rb2 where 2: "calls (snd (delete_clusters E cls (snd (delete_one E cl rt)))) =
        calls (snd (delete_one E cl rt)) @ rb2" "list_all is_removal rb2"
      using Cons.IH by blast
    have "calls (snd (delete_clusters E (cl # cls) rt)) = calls rt @ (rb1 @ rb2)"
      using False 1 2 by (simp add: delete_clusters_step del: delete_clusters.simps)
    moreover have "list_all is_removal (rb1 @ rb2)"
      using 1 2 by simp
    ultimately show ?thesis
      by blast
  qed
qed

lemma rollback_extends:
  "\<exists>rb. calls (rollback E c rt) = calls rt @ rb \<and> list_all is_removal rb"
proof (cases "getClusters (c_all c) (c_name c) rt")
  case (Inl e)
  then show ?thesis
    by (simp add: rollback_def DeleteCluster_def)
next
  case (Inr cls)
  then show ?thesis
    using delete_clusters_extends [of E cls rt] by (simp add: rollback_def DeleteCluster_def)
qed

lemma create_workers_calls:
  "\<exists>m rb. i - 1 \<le> m \<and> m \<le> max (c_workers c - 1) (i - 1) \<and> (i < c_workers c \<longrightarrow> i \<le> m) \<and>
     list_all is_removal rb \<and>
     calls (snd (create_workers E c spec i rt)) = calls rt @ map (WorkerCreate spec) [i .. m] @ rb \<and>
     (fst (create_workers E c spec i rt) = Inr () \<longrightarrow> rb = [] \<and> m = max (c_workers c - 1) (i - 1))"
proof (induction E c spec i rt rule: create_workers.induct)
  case (1 E c spec i rt)
  show ?case
  proof (cases "i < c_workers c")
    case False
    then have "create_workers E c spec i rt = (Inr (), rt)"
      by (simp add: create_workers.simps)
    then show ?thesis
      using False by (intro exI [of _ "i - 1"] exI [of _ "[]"]) simp
  next
    case True
    obtain r rt1 where cw: "createWorker E spec i rt = (r, rt1)"
      by (cases "createWorker E spec i rt")
    have c1: "calls rt1 = calls rt @ [WorkerCreate spec i]"
      using createWorker_calls [of E spec i rt] cw by simp
    show ?thesis
    proof (cases r)
      case (Inl e)
      then have eq: "create_workers E c spec i rt = (Inl e, rollback E c rt1)"
        using True cw by (simp add: create_workers.simps)
      obtain rb where rb: "calls (rollback E c rt1) = calls rt1 @ rb" "list_all is_removal rb"
        using rollback_extends by blast
      have "calls (snd (create_workers E c spec i rt)) = calls rt @ map (WorkerCreate spec) [i .. i] @ rb"
        using eq rb c1 by simp
      then show ?thesis
        using True rb(2) eq by (intro exI [of _ i] exI [of _ rb]) simp
    next
      case (Inr wid)
      then have eq: "create_workers E c spec i rt = create_workers E c spec (i + 1) rt1"
        using True cw by (simp add: create_workers.simps)
      from "1.IH" [OF True cw [symmetric] Inr]
      obtain m rb where m: "i + 1 - 1 \<le> m" "m \<le> max (c_workers c - 1) (i + 1 - 1)"
        "list_all is_removal rb"
        "calls (snd (create_workers E c spec (i + 1) rt1)) =
           calls rt1 @ map (WorkerCreate spec) [i + 1 .. m] @ rb"
        "fst (create_workers E c spec (i + 1) rt1) = Inr () \<longrightarrow>
           rb = [] \<and> m = max (c_workers c - 1) (i + 1 - 1)"
        by blast
      have up: "[i .. m] = i # [i + 1 .. m]"
        using m(1) by (simp add: upto_rec1)
      have "calls (snd (create_workers E c spec i rt)) = calls rt @ map (WorkerCreate spec) [i .. m] @ rb"
        using eq m(4) c1 up by simp
      moreover have "fst (create_workers E c spec i rt) = Inr () \<longrightarrow>
           rb = [] \<and> m = max (c_workers c - 1) (i - 1)"
        using eq m(5) True by auto
      ultimately show ?thesis
        using m(1,2,3) True by (intro exI [of _ m] exI [of _ rb]) auto
    qed
  qed
qed

lemma create_workers_first:
  assumes "i < c_workers c"
  shows "\<exists>ks. calls (snd (create_workers E c spec i rt)) = calls rt @ WorkerCreate spec i # ks"
proof -
  obtain m rb where m: "i < c_workers c \<longrightarrow> i \<le> m"
    "calls (snd (create_workers E c spec i rt)) = calls rt @ map (WorkerCreate spec) [i .. m] @ rb"
    using create_workers_calls [of i c E spec rt] by blast
  have "[i .. m] = i # [i + 1 .. m]"
    using m(1) assms by (simp add: upto_rec1)
  then show ?thesis
    using m(2) by simp
qed

lemma createWorker_containers:
  "\<not> fails E (WorkerCreate spec i) \<Longrightarrow>
   \<exists>ct \<in> set (containers (snd (createWorker E spec i rt))).
      ctr_Name ct = worker_name (ClusterName spec) i"
  by (simp add: createWorker_def issue_def Let_def)

lemma createWorker_keeps:
  "set (containers rt) \<subseteq> set (containers (snd (createWorker E spec i rt)))"
  by (auto simp add: createWorker_def issue_def Let_def)

lemma add_workers_keeps:
  "set (containers rt) \<subseteq> set (containers (snd (add_workers E spec s b rt)))"
proof (induction E spec s b rt rule: add_workers.induct)
  case (1 E spec s b rt)
  show ?case
  proof (cases "s < b")
    case False
    then show ?thesis by (simp add: add_workers.simps)
  next
    case True
    obtain r rt1 where cw: "createWorker E spec s rt = (r, rt1)"
      by (cases "createWorker E spec s rt")
    have k1: "set (containers rt) \<subseteq> set (containers rt1)"
      using createWorker_keeps [of rt E spec s] cw by simp
    show ?thesis
    proof (cases r)
      case (Inl e)
      then show ?thesis
        using True cw k1 by (simp add: add_workers.simps)
    next
      case (Inr wid)
      then have "add_workers E spec s b rt = add_workers E spec (s + 1) b rt1"
        using True cw by (simp add: add_workers.simps)
      then show ?thesis
        using "1.IH" [OF True cw [symmetric] Inr] k1 by auto
    qed
  qed
qed

lemma add_workers_first_container:
  assumes "s < b" and "\<not> fails E (WorkerCreate spec s)"
  shows "\<exists>ct \<in> set (containers (snd (add_workers E spec s b rt))).
      ctr_Name ct = worker_name (ClusterName spec) s"
proof -
  obtain r rt1 where cw: "createWorker E spec s rt = (r, rt1)"
    by (cases "createWorker E spec s rt")
  obtain wid where r: "r = Inr wid"
    using createWorker_fst [of E spec s rt] cw assms(2) by (cases r) auto
  have eq: "add_workers E spec s b rt = add_workers E spec (s + 1) b rt1"
    using assms(1) cw r by (simp add: add_workers.simps)
  obtain ct where ct: "ct \<in> set (containers rt1)" "ctr_Name ct = worker_name (ClusterName spec) s"
    using createWorker_containers [OF assms(2), of rt] cw by auto
  have "ct \<in> set (containers (snd (add_workers E spec (s + 1) b rt1)))"
    using add_workers_keeps [of rt1 E spec "s + 1" b] ct(1) by blast
  then show ?thesis
    using eq ct(2) by auto
qed

lemma worker_name_1: "worker_name n 1 = n @ ''-worker-1''"
  by (simp add: worker_name_def Itoa_def itoa_nat.simps)

lemma add_workers_never_zero:
  assumes h: "0 \<le> h" "h \<le> maxInt"
    and cnt: "h = maxInt \<longrightarrow> 0 \<le> n \<and> n \<le> maxInt"
  shows "\<exists>ks. calls (snd (add_workers E spec (wrap (h + 1)) (wrap (n + 1 + h)) rt)) = calls rt @ ks \<and>
              (\<forall>sp. WorkerCreate sp 0 \<notin> set ks)"
proof -
  let ?s = "wrap (h + 1)" and ?b = "wrap (n + 1 + h)"
  obtain m where m: "?s - 1 \<le> m" "m \<le> max (?b - 1) (?s - 1)"
    "calls (snd (add_workers E spec ?s ?b rt)) = calls rt @ map (WorkerCreate spec) [?s .. m]"
    using add_workers_calls_prefix [of ?s ?b E spec rt] by blast
  have "\<not> (?s \<le> 0 \<and> 0 \<le> m)"
  proof (cases "h = maxInt")
    case False
    then have "wrap (h + 1) = h + 1"
      using h by (intro wrap_id) (simp_all add: minInt_def maxInt_def)
    then show ?thesis
      using h(1) by simp
  next
    case True
    then have n: "0 \<le> n" "n \<le> maxInt"
      using cnt by simp_all
    have "wrap (n + 1 + h) = n + 1 + h - 18446744073709551616"
      using n True by (intro wrap_high) (simp_all add: maxInt_def)
    then have "?b < 0"
      using n True by (simp add: maxInt_def)
    then show ?thesis
      using m(2) by auto
  qed
  then have "0 \<notin> set [?s .. m]"
    by simp
  then have "\<forall>sp. WorkerCreate sp 0 \<notin> set (map (WorkerCreate spec) [?s .. m])"
    by auto
  then show ?thesis
    using m(3) by blast
qed

section \<open>The calls of CreateCluster\<close>

lemma upto_prefix: "i - 1 \<le> m \<Longrightarrow> m \<le> j \<Longrightarrow> [i .. j] = [i .. m] @ [m + 1 .. j]"
proof (cases "m = j")
  case True
  then show ?thesis by simp
next
  case False
  assume "i - 1 \<le> m" "m \<le> j"
  then have "i \<le> m + 1" "m + 1 \<le> j"
    using False by simp_all
  then have "[i .. j] = [i .. m + 1 - 1] @ [m + 1 .. j]"
    by (rule upto_split1)
  then show ?thesis by simp
qed

lemma createClusterDir_calls: "calls (createClusterDir n rt) = calls rt @ [ClusterDirCreate n]"
  by (simp add: createClusterDir_def issue_def Let_def)

lemma createServer_calls: "calls (snd (createServer E spec rt)) = calls rt @ [ServerCreate spec]"
  by (simp add: createServer_def issue_def Let_def)

lemma createServer_fst:
  "fst (createServer E spec rt) =
     (if fails E (ServerCreate spec) then Inl ServerCreateFailed
      else Inr (server_name (ClusterName spec)))"
  by (simp add: createServer_def Let_def)

lemma wait_calls_eq:
  "calls (snd (waitForContainerLogMessage E cid marker secs rt)) =
     calls rt @ [WaitForLogMessage cid marker secs]"
  by (simp add: waitForContainerLogMessage_def issue_def Let_def)

lemma wait_fst:
  "fst (waitForContainerLogMessage E cid marker secs rt) =
     (if fails E (WaitForLogMessage cid marker secs) then Inl WaitFailed else Inr ())"
  by (simp add: waitForContainerLogMessage_def Let_def)

lemma create_workers_ok:
  assumes "\<forall>i. \<not> fails E (WorkerCreate spec i)"
  shows "fst (create_workers E c spec i rt) = Inr ()"
  using assms
proof (induction E c spec i rt rule: create_workers.induct)
  case (1 E c spec i rt)
  show ?case
  proof (cases "i < c_workers c")
    case False
    then show ?thesis by (simp add: create_workers.simps)
  next
    case True
    obtain r rt1 where cw: "createWorker E spec i rt = (r, rt1)"
      by (cases "createWorker E spec i rt")
    have "\<not> fails E (WorkerCreate spec i)"
      using "1.prems" by simp
    then obtain wid where r: "r = Inr wid"
      using createWorker_fst [of E spec i rt] cw by (cases r) auto
    have "create_workers E c spec i rt = create_workers E c spec (i + 1) rt1"
      using True cw r by (simp add: create_workers.simps)
    then show ?thesis
      using "1.IH" [OF True cw [symmetric] r "1.prems"] by simp
  qed
qed

lemma create_nodes_calls:
  assumes cn: "ClusterName spec = c_name c"
  shows "\<exists>ks rest rb. node_order c spec = ks @ rest \<and> list_all is_removal rb \<and>
     calls (snd (create_nodes E c spec rt)) = calls rt @ ks @ rb \<and>
     (fst (create_nodes E c spec rt) = Inr () \<longrightarrow> rest = [] \<and> rb = [])"
proof -
  let ?n = "c_name c"
  let ?rt1 = "createClusterDir ?n rt"
  let ?ws = "map (WorkerCreate spec) [0 .. c_workers c - 1]"
  obtain r2 rt2 where cs: "createServer E spec ?rt1 = (r2, rt2)"
    by (cases "createServer E spec ?rt1")
  have c2: "calls rt2 = calls rt @ [ClusterDirCreate ?n, ServerCreate spec]"
    using createServer_calls [of E spec ?rt1] cs by (simp add: createClusterDir_calls)
  show ?thesis
  proof (cases r2)
    case (Inl err)
    then have eq: "create_nodes E c spec rt = (Inl err, rollback E c rt2)"
      using cs by (simp add: create_nodes_def Let_def)
    obtain rb where rb: "calls (rollback E c rt2) = calls rt2 @ rb" "list_all is_removal rb"
      using rollback_extends by blast
    show ?thesis
      using eq rb c2
      by (intro exI [of _ "[ClusterDirCreate ?n, ServerCreate spec]"]
          exI [of _ "wait_calls c @ ?ws"] exI [of _ rb]) (simp add: node_order_def)
  next
    case (Inr sid)
    then have sid: "sid = server_name ?n"
      using createServer_fst [of E spec ?rt1] cs cn by (simp split: if_splits)
    let ?w = "case c_wait c of None \<Rightarrow> (Inr (), rt2)
              | Some secs \<Rightarrow> waitForContainerLogMessage E sid ''Running kubelet'' secs rt2"
    obtain r3 rt3 where w: "?w = (r3, rt3)"
      by (cases ?w)
    have c3: "calls rt3 = calls rt2 @ wait_calls c"
    proof (cases "c_wait c")
      case None
      then show ?thesis
        using w by (simp add: wait_calls_def)
    next
      case (Some secs)
      then have "waitForContainerLogMessage E sid ''Running kubelet'' secs rt2 = (r3, rt3)"
        using w by simp
      then have "calls rt3 = calls rt2 @ [WaitForLogMessage sid ''Running kubelet'' secs]"
        using wait_calls_eq [of E sid "''Running kubelet''" secs rt2] by simp
      then show ?thesis
        using Some sid by (simp add: wait_calls_def)
    qed
    show ?thesis
    proof (cases r3)
      case (Inl err)
      then have eq: "create_nodes E c spec rt = (Inl WaitFailed, rollback E c rt3)"
        using cs \<open>r2 = Inr sid\<close> w by (simp add: create_nodes_def Let_def)
      obtain rb where rb: "calls (rollback E c rt3) = calls rt3 @ rb" "list_all is_removal rb"
        using rollback_extends by blast
      show ?thesis
        using eq rb c2 c3
        by (intro exI [of _ "[ClusterDirCreate ?n, ServerCreate spec] @ wait_calls c"]
            exI [of _ ?ws] exI [of _ rb]) (simp add: node_order_def)
    next
      case (Inr u)
      then have eq: "create_nodes E c spec rt =
          (if 0 < c_workers c then create_workers E c spec 0 rt3 else (Inr (), rt3))"
        using cs \<open>r2 = Inr sid\<close> w by (simp add: create_nodes_def Let_def)
      show ?thesis
      proof (cases "0 < c_workers c")
        case False
        then have "?ws = []"
          by simp
        then show ?thesis
          using eq False c2 c3
          by (intro exI [of _ "[ClusterDirCreate ?n, ServerCreate spec] @ wait_calls c"]
              exI [of _ "[]"] exI [of _ "[]"]) (simp add: node_order_def)
      next
        case True
        obtain m rb where m: "0 - 1 \<le> m" "m \<le> max (c_workers c - 1) (0 - 1)"
          "list_all is_removal rb"
          "calls (snd (create_workers E c spec 0 rt3)) =
             calls rt3 @ map (WorkerCreate spec) [0 .. m] @ rb"
          "fst (create_workers E c spec 0 rt3) = Inr () \<longrightarrow>
             rb = [] \<and> m = max (c_workers c - 1) (0 - 1)"
          using create_workers_calls [of 0 c E spec rt3] by blast
        have le: "m \<le> c_workers c - 1"
          using m(2) True by simp
        have split: "[0 .. c_workers c - 1] = [0 .. m] @ [m + 1 .. c_workers c - 1]"
          using m(1) le by (intro upto_prefix) simp_all
        have fin: "fst (create_workers E c spec 0 rt3) = Inr () \<longrightarrow>
            [m + 1 .. c_workers c - 1] = [] \<and> rb = []"
          using m(5) True by auto
        show ?thesis
          using eq True c2 c3 m(3,4) split fin
          by (intro exI [of _ "[ClusterDirCreate ?n, ServerCreate spec] @ wait_calls c @
                map (WorkerCreate spec) [0 .. m]"]
              exI [of _ "map (WorkerCreate spec) [m + 1 .. c_workers c - 1]"] exI [of _ rb])
            (simp add: node_order_def)
      qed
    qed
  qed
qed

lemma getClusters_containers:
  "containers rt = containers rt' \<Longrightarrow> getClusters all n rt = getClusters all n rt'"
  by (simp add: getClusters_def query_containers_def)

lemma createClusterNetwork_calls:
  "calls (snd (createClusterNetwork E n rt)) = calls rt @ [NetworkCreate n]"
  by (simp add: createClusterNetwork_def issue_def Let_def)

lemma createImageVolume_calls:
  "calls (snd (createImageVolume E n rt)) = calls rt @ [VolumeCreate n]"
  by (simp add: createImageVolume_def issue_def Let_def)

lemma CreateCluster_invalid:
  "\<not> CheckClusterName E (c_name c) \<Longrightarrow> CreateCluster E c rt = (Inl InvalidClusterName, rt)"
  by (simp add: CreateCluster_def)

lemma CreateCluster_exists:
  "CheckClusterName E (c_name c) \<Longrightarrow> getClusters False (c_name c) rt = Inr (cl # cls) \<Longrightarrow>
   CreateCluster E c rt = (Inl ClusterExists, rt)"
  by (simp add: CreateCluster_def)

lemma CreateCluster_discovery_error:
  "CheckClusterName E (c_name c) \<Longrightarrow> getClusters False (c_name c) rt = Inl e \<Longrightarrow>
   CreateCluster E c rt = (Inl e, rt)"
  by (simp add: CreateCluster_def)

lemma CreateCluster_reached:
  assumes "CheckClusterName E (c_name c)" and "getClusters False (c_name c) rt = Inr []"
  shows "CreateCluster E c rt =
     (if fails E (NetworkCreate (c_name c))
      then (Inl NetworkCreateFailed, snd (createClusterNetwork E (c_name c) rt))
      else case parseAPIPort E (c_api_port c) of
        None \<Rightarrow> (Inl APIPortInvalid, snd (createClusterNetwork E (c_name c) rt))
      | Some ap0 \<Rightarrow>
          (case mapNodesToPortSpecs E (c_port c)
                  (GetAllContainerNames (c_name c) 1 (c_workers c)) of
             None \<Rightarrow> (Inl PortSpecFatal, snd (createClusterNetwork E (c_name c) rt))
           | Some pm \<Rightarrow>
               if fails E (VolumeCreate (c_name c))
               then (Inl VolumeCreateFailed,
                     snd (createImageVolume E (c_name c) (snd (createClusterNetwork E (c_name c) rt))))
               else create_nodes E c (created_spec E c (api_port_host E ap0) pm)
                      (snd (createImageVolume E (c_name c)
                             (snd (createClusterNetwork E (c_name c) rt))))))"
  using assms
  by (simp add: CreateCluster_def created_spec_def createClusterNetwork_def createImageVolume_def
      Let_def split: option.splits)

lemma CreateCluster_calls:
  "\<exists>ap pm ks rest rb. create_order c (created_spec E c ap pm) = ks @ rest \<and>
     list_all is_removal rb \<and>
     calls (snd (CreateCluster E c rt)) = calls rt @ ks @ rb \<and>
     (fst (CreateCluster E c rt) = Inr () \<longrightarrow> rest = [] \<and> rb = [])"
proof -
  let ?n = "c_name c"
  let ?ap = "\<lparr>Host = [], HostIP = [], Port = []\<rparr>"
  let ?rt1 = "snd (createClusterNetwork E ?n rt)"
  let ?rt2 = "snd (createImageVolume E ?n ?rt1)"
  have none: ?thesis if "CreateCluster E c rt = (Inl e, rt)" for e
    using that
    by (intro exI [of _ ?ap] exI [of _ "[]"] exI [of _ "create_order c (created_spec E c ?ap [])"])
      simp
  have net: ?thesis if "CreateCluster E c rt = (Inl e, ?rt1)" for e
    using that
    by (intro exI [of _ ?ap] exI [of _ "[]"] exI [of _ "[NetworkCreate ?n]"]
        exI [of _ "VolumeCreate ?n # node_order c (created_spec E c ?ap [])"] exI [of _ "[]"])
      (simp add: create_order_def createClusterNetwork_calls)
  have vol: ?thesis if "CreateCluster E c rt = (Inl e, ?rt2)" for e
    using that
    by (intro exI [of _ ?ap] exI [of _ "[]"] exI [of _ "[NetworkCreate ?n, VolumeCreate ?n]"]
        exI [of _ "node_order c (created_spec E c ?ap [])"] exI [of _ "[]"])
      (simp add: create_order_def createClusterNetwork_calls createImageVolume_calls)
  have nodes: ?thesis if eq: "CreateCluster E c rt = create_nodes E c (created_spec E c ap pm) ?rt2"
    for ap pm
  proof -
    have "ClusterName (created_spec E c ap pm) = c_name c"
      by (simp add: created_spec_def)
    from create_nodes_calls [OF this, of E ?rt2]
    obtain ks rest rb where k: "node_order c (created_spec E c ap pm) = ks @ rest"
      "list_all is_removal rb"
      "calls (snd (create_nodes E c (created_spec E c ap pm) ?rt2)) = calls ?rt2 @ ks @ rb"
      "fst (create_nodes E c (created_spec E c ap pm) ?rt2) = Inr () \<longrightarrow> rest = [] \<and> rb = []"
      by blast
    show ?thesis
      using k eq
      by (intro exI [of _ ap] exI [of _ pm] exI [of _ "[NetworkCreate ?n, VolumeCreate ?n] @ ks"]
          exI [of _ rest] exI [of _ rb])
        (simp add: create_order_def createClusterNetwork_calls createImageVolume_calls)
  qed
  show ?thesis
  proof (cases "CheckClusterName E ?n")
    case False
    then show ?thesis
      using none CreateCluster_invalid by blast
  next
    case ok: True
    show ?thesis
    proof (cases "getClusters False ?n rt")
      case (Inl e)
      then show ?thesis
        using none CreateCluster_discovery_error [OF ok] by blast
    next
      case (Inr cls)
      show ?thesis
      proof (cases cls)
        case (Cons cl more)
        then show ?thesis
          using none CreateCluster_exists [OF ok] Inr by blast
      next
        case Nil
        note r = CreateCluster_reached [OF ok Inr [unfolded Nil]]
        show ?thesis
        proof (cases "fails E (NetworkCreate ?n)")
          case True
          then show ?thesis using r net by simp
        next
          case nf: False
          show ?thesis
          proof (cases "parseAPIPort E (c_api_port c)")
            case None
            then show ?thesis using r nf net by simp
          next
            case (Some ap0)
            show ?thesis
            proof (cases "mapNodesToPortSpecs E (c_port c)
                  (GetAllContainerNames (c_name c) 1 (c_workers c))")
              case None
              then show ?thesis using r nf Some net by simp
            next
              case pm: (Some pm)
              show ?thesis
              proof (cases "fails E (VolumeCreate ?n)")
                case True
                then show ?thesis using r nf Some pm vol by simp
              next
                case False
                then show ?thesis using r nf Some pm nodes by simp
              qed
            qed
          qed
        qed
      qed
    qed
  qed
qed

lemma create_nodes_ok:
  assumes "\<forall>k. \<not> fails E k"
  shows "fst (create_nodes E c spec rt) = Inr ()"
proof -
  have cw: "fst (create_workers E c spec 0 rt') = Inr ()" for rt'
    using assms by (intro create_workers_ok) simp
  have "fst (createServer E spec rt') = Inr (server_name (ClusterName spec))" for rt'
    using assms by (simp add: createServer_fst)
  moreover have "fst (waitForContainerLogMessage E cid mk secs rt') = Inr ()" for cid mk secs rt'
    using assms by (simp add: wait_fst)
  ultimately show ?thesis
    using cw
    by (simp add: create_nodes_def Let_def split: prod.splits sum.splits option.splits)
      (metis fst_conv sum.distinct(1))
qed

lemma CreateCluster_success:
  assumes ok: "CheckClusterName E (c_name c)" and fresh: "getClusters False (c_name c) rt = Inr []"
    and ap: "parseAPIPort E (c_api_port c) = Some ap0"
    and pm: "mapNodesToPortSpecs E (c_port c) (GetAllContainerNames (c_name c) 1 (c_workers c)) = Some pm"
    and nf: "\<forall>k. \<not> fails E k"
  shows "fst (CreateCluster E c rt) = Inr () \<and>
         calls (snd (CreateCluster E c rt)) =
           calls rt @ create_order c (created_spec E c (api_port_host E ap0) pm)"
proof -
  let ?spec = "created_spec E c (api_port_host E ap0) pm"
  let ?rt2 = "snd (createImageVolume E (c_name c) (snd (createClusterNetwork E (c_name c) rt)))"
  have eq: "CreateCluster E c rt = create_nodes E c ?spec ?rt2"
    using CreateCluster_reached [OF ok fresh] ap pm nf by simp
  have r: "fst (create_nodes E c ?spec ?rt2) = Inr ()"
    using nf by (rule create_nodes_ok)
  have "ClusterName ?spec = c_name c"
    by (simp add: created_spec_def)
  from create_nodes_calls [OF this, of E ?rt2] r
  have "calls (snd (create_nodes E c ?spec ?rt2)) = calls ?rt2 @ node_order c ?spec"
    by auto
  then show ?thesis
    using eq r
    by (simp add: create_order_def createClusterNetwork_calls createImageVolume_calls)
qed

lemma example_fresh: "getClusters False n example_empty_runtime = Inr []"
  by (simp add: getClusters_def query_containers_def example_empty_runtime_def)

lemma example_created:
  "fst (CreateCluster (example_externals (\<lambda>k. False)) example_context example_empty_runtime) = Inr () \<and>
   calls (snd (CreateCluster (example_externals (\<lambda>k. False)) example_context example_empty_runtime)) =
     create_order example_context
       (created_spec (example_externals (\<lambda>k. False)) example_context
          \<lparr>Host = [], HostIP = [], Port = ''6443''\<rparr> [])"
proof -
  let ?E = "example_externals (\<lambda>k. False)"
  have 1: "CheckClusterName ?E (c_name example_context)"
    by (simp add: example_externals_def example_context_def)
  have 2: "parseAPIPort ?E (c_api_port example_context) = Some \<lparr>Host = [], HostIP = [], Port = ''6443''\<rparr>"
    by (simp add: example_externals_def example_context_def)
  have 3: "mapNodesToPortSpecs ?E (c_port example_context)
      (GetAllContainerNames (c_name example_context) 1 (c_workers example_context)) = Some []"
    by (simp add: example_externals_def)
  have 4: "\<forall>k. \<not> fails ?E k"
    by (simp add: example_externals_def)
  have 5: "api_port_host ?E \<lparr>Host = [], HostIP = [], Port = ''6443''\<rparr> =
      \<lparr>Host = [], HostIP = [], Port = ''6443''\<rparr>"
    by (simp add: api_port_host_def example_externals_def)
  show ?thesis
    using CreateCluster_success [OF 1 example_fresh 2 3 4]
    by (simp add: 5 example_empty_runtime_def)
qed

lemma example_create_order:
  "create_order example_context spec =
     [NetworkCreate ''demo'', VolumeCreate ''demo'', ClusterDirCreate ''demo'', ServerCreate spec,
      WorkerCreate spec 0, WorkerCreate spec 1]"
proof -
  have "[0 .. 2 - 1 :: int] = [0, 1]"
    by (simp add: upto_rec1)
  then show ?thesis
    by (simp add: create_order_def node_order_def wait_calls_def example_context_def)
qed

lemma example_spec_Volumes:
  "Volumes (created_spec E example_context ap pm) = [''demo:/images'']"
  by (simp add: created_spec_def example_context_def)

lemma example_create_env:
  "create_env (example_externals f) example_context =
     [''K3S_KUBECONFIG_OUTPUT=/output/kubeconfig.yaml'', ''A=1'', ''K3S_CLUSTER_SECRET=s3cr3t'']"
  by (simp add: create_env_def example_externals_def example_context_def)

lemma ServerCreate_in_order:
  "ServerCreate spec' \<in> set (create_order c spec) \<Longrightarrow> spec' = spec"
  by (auto simp add: create_order_def node_order_def wait_calls_def split: option.splits)

lemma removal_not_create: "list_all is_removal rb \<Longrightarrow> ServerCreate spec \<notin> set rb"
  by (auto simp add: list_all_iff)

lemma rollback_nothing_found:
  assumes "getClusters (c_all c) (c_name c) rt = Inr []"
  shows "rollback E c rt = rt"
  using assms by (simp add: rollback_def DeleteCluster_def)

section \<open>What a rollback removes\<close>

lemma has_label_value: "has_label k v ct \<Longrightarrow> label_value k ct = v"
  by (simp add: has_label_def label_value_def)

lemma query_labelled:
  "n \<noteq> [] \<Longrightarrow> query_containers False n rt = filter (labelled n) (containers rt)"
  by (simp add: query_containers_def labelled_def [abs_def])

lemma fresh_unlabelled:
  assumes "getClusters False n rt = Inr []" and "n \<noteq> []"
  shows "list_all (\<lambda>ct. \<not> labelled n ct) (containers rt)"
proof -
  let ?cs = "query_containers False n rt"
  let ?names = "remdups (map (label_value ''cluster'') ?cs)"
  have "getClusters False n rt =
      (if list_ex (\<lambda>m. 1 < length (servers_of ?cs m)) ?names then Inl ConsistencyError
       else Inr (map (group_cluster ?cs) ?names))"
    by (simp only: getClusters_def Let_def)
  then have "map (group_cluster ?cs) ?names = []"
    using assms(1) by (cases "list_ex (\<lambda>m. 1 < length (servers_of ?cs m)) ?names") simp_all
  then have "?names = []"
    by (simp only: map_is_Nil_conv)
  then have "map (label_value ''cluster'') ?cs = []"
    by (simp only: remdups_eq_nil_iff)
  then have "query_containers False n rt = []"
    by (simp only: map_is_Nil_conv)
  then show ?thesis
    using assms(2) by (simp add: query_labelled filter_empty_conv list_all_iff)
qed

lemma remdups_const: "xs \<noteq> [] \<Longrightarrow> set xs \<subseteq> {n} \<Longrightarrow> remdups xs = [n]"
proof (induction xs)
  case Nil
  then show ?case by simp
next
  case (Cons a xs)
  have a: "a = n"
    using Cons.prems(2) by simp
  show ?case
  proof (cases "xs = []")
    case True
    then show ?thesis
      using a by simp
  next
    case False
    have sub: "set xs \<subseteq> {n}"
      using Cons.prems(2) by simp
    then have "set xs = {n}"
      using False by (cases xs) auto
    then have "a \<in> set xs"
      using a by simp
    then show ?thesis
      using Cons.IH [OF False sub] by simp
  qed
qed

lemma getClusters_one_server:
  assumes inv: "one_server n rt" and ne: "n \<noteq> []"
  shows "getClusters False n rt =
     Inr [\<lparr>cl_name = n,
           cl_server = hd (filter (\<lambda>ct. labelled n ct \<and> has_label ''component'' ''server'' ct)
                             (containers rt)),
           cl_workers = sort_key worker_suffix
              (filter (\<lambda>ct. labelled n ct \<and> has_label ''component'' ''worker'' ct)
                 (containers rt))\<rparr>]"
proof -
  let ?q = "filter (labelled n) (containers rt)"
  let ?srv = "filter (\<lambda>ct. labelled n ct \<and> has_label ''component'' ''server'' ct) (containers rt)"
  have q: "query_containers False n rt = ?q"
    using ne by (rule query_labelled)
  have l1: "length ?srv = 1"
    using inv by (simp add: one_server_def)
  then obtain s where s: "?srv = [s]"
    by (cases ?srv) auto
  then have "s \<in> set ?srv"
    by simp
  then have sq: "s \<in> set ?q"
    by simp
  have lv: "\<forall>ct \<in> set ?q. label_value ''cluster'' ct = n"
    by (auto simp add: labelled_def has_label_value)
  then have "set (map (label_value ''cluster'') ?q) \<subseteq> {n}"
    by auto
  moreover have "map (label_value ''cluster'') ?q \<noteq> []"
    using sq by (auto simp add: filter_empty_conv)
  ultimately have names: "remdups (map (label_value ''cluster'') ?q) = [n]"
    by (intro remdups_const)
  have so: "servers_of ?q n = ?srv"
    using lv by (auto simp add: servers_of_def intro!: filter_cong)
  have wo: "workers_of ?q n =
      filter (\<lambda>ct. labelled n ct \<and> has_label ''component'' ''worker'' ct) (containers rt)"
    using lv by (auto simp add: workers_of_def intro!: filter_cong)
  show ?thesis
    using names so wo s
    by (simp add: getClusters_def q group_cluster_def Let_def)
qed

lemma removeContainer_other:
  "networks (snd (removeContainer E i rt)) = networks rt"
  "volumes (snd (removeContainer E i rt)) = volumes rt"
  "dirs (snd (removeContainer E i rt)) = dirs rt"
  by (simp_all add: removeContainer_def issue_def Let_def)

lemma remove_workers_other:
  "networks (remove_workers E ws rt) = networks rt \<and>
   volumes (remove_workers E ws rt) = volumes rt \<and>
   dirs (remove_workers E ws rt) = dirs rt"
proof (induction ws arbitrary: rt)
  case Nil
  show ?case by simp
next
  case (Cons w ws)
  show ?case
    unfolding remove_workers_step by (simp add: Cons.IH removeContainer_other)
qed

lemma delete_one_other:
  assumes "\<forall>k. is_removal k \<longrightarrow> \<not> fails E k"
  shows "networks (snd (delete_one E cl rt)) = filter (\<lambda>d. d \<noteq> cl_name cl) (networks rt)"
    and "volumes (snd (delete_one E cl rt)) = filter (\<lambda>d. d \<noteq> cl_name cl) (volumes rt)"
    and "dirs (snd (delete_one E cl rt)) = filter (\<lambda>d. d \<noteq> cl_name cl) (dirs rt)"
proof -
  have f: "\<not> fails E (ContainerRemove (ctr_ID (cl_server cl)))"
    "\<not> fails E (NetworkRemove (cl_name cl))" "\<not> fails E (VolumeRemove (cl_name cl))"
    using assms by simp_all
  let ?rt1 = "if 0 < length (cl_workers cl) then remove_workers E (cl_workers cl) rt else rt"
  have o: "networks ?rt1 = networks rt" "volumes ?rt1 = volumes rt" "dirs ?rt1 = dirs rt"
    using remove_workers_other [of E "cl_workers cl" rt] by simp_all
  have s: "snd (delete_one E cl rt) =
      snd (deleteImageVolume E (cl_name cl) (snd (deleteClusterNetwork E (cl_name cl)
        (snd (removeContainer E (ctr_ID (cl_server cl)) (deleteClusterDir (cl_name cl) ?rt1))))))"
    using f(1) by (simp only: delete_one_snd Let_def if_False)
  show "networks (snd (delete_one E cl rt)) = filter (\<lambda>d. d \<noteq> cl_name cl) (networks rt)"
    unfolding s using f o(1)
    by (simp add: deleteImageVolume_def deleteClusterNetwork_def removeContainer_def
        deleteClusterDir_def issue_def Let_def del: remove_workers.simps)
  show "volumes (snd (delete_one E cl rt)) = filter (\<lambda>d. d \<noteq> cl_name cl) (volumes rt)"
    unfolding s using f o(2)
    by (simp add: deleteImageVolume_def deleteClusterNetwork_def removeContainer_def
        deleteClusterDir_def issue_def Let_def del: remove_workers.simps)
  show "dirs (snd (delete_one E cl rt)) = filter (\<lambda>d. d \<noteq> cl_name cl) (dirs rt)"
    unfolding s using f o(3)
    by (simp add: deleteImageVolume_def deleteClusterNetwork_def removeContainer_def
        deleteClusterDir_def issue_def Let_def del: remove_workers.simps)
qed

lemma rollback_cleans:
  assumes inv: "one_server n rt" and ne: "n \<noteq> []" and one: "\<not> c_all c" and nm: "c_name c = n"
    and rm: "\<forall>k. is_removal k \<longrightarrow> \<not> fails E k"
  shows "cleaned n (rollback E c rt)"
proof -
  define srvs where
    "srvs = filter (\<lambda>ct. labelled n ct \<and> has_label ''component'' ''server'' ct) (containers rt)"
  define wrks where
    "wrks = filter (\<lambda>ct. labelled n ct \<and> has_label ''component'' ''worker'' ct) (containers rt)"
  define cl where
    "cl = \<lparr>cl_name = n, cl_server = hd srvs, cl_workers = sort_key worker_suffix wrks\<rparr>"
  have sel: "cl_name cl = n" "cl_server cl = hd srvs" "cl_workers cl = sort_key worker_suffix wrks"
    by (simp_all add: cl_def)
  have g: "getClusters (c_all c) (c_name c) rt = Inr [cl]"
    using getClusters_one_server [OF inv ne] one nm
    by (simp only: cl_def srvs_def wrks_def)
  have fs: "\<not> fails E (ContainerRemove (ctr_ID (cl_server cl)))"
    using rm by simp
  have "DeleteCluster E c rt = delete_clusters E [cl] rt"
    by (simp only: DeleteCluster_def g sum.case)
  also have "\<dots> = delete_clusters E [] (snd (delete_one E cl rt))"
    using fs by (simp only: delete_clusters_step if_False)
  also have "\<dots> = (Inr (), snd (delete_one E cl rt))"
    by (simp only: delete_clusters.simps)
  finally have rb: "rollback E c rt = snd (delete_one E cl rt)"
    by (simp only: rollback_def snd_conv)
  have "length srvs = 1"
    using inv unfolding one_server_def srvs_def by blast
  then obtain s where s: "srvs = [s]"
    by (cases srvs) auto
  have hs: "cl_server cl = s"
    by (simp only: sel s list.sel)
  have kinds: "\<forall>ct \<in> set (containers rt). labelled n ct \<longrightarrow>
      has_label ''component'' ''server'' ct \<or> has_label ''component'' ''worker'' ct"
    using inv unfolding one_server_def list_all_iff by blast
  have in_srvs: "ct \<in> set srvs"
    if "ct \<in> set (containers rt)" "labelled n ct" "has_label ''component'' ''server'' ct" for ct
    using that by (simp only: srvs_def set_filter mem_Collect_eq simp_thms)
  have in_wrks: "ct \<in> set (cl_workers cl)"
    if "ct \<in> set (containers rt)" "labelled n ct" "has_label ''component'' ''worker'' ct" for ct
    using that by (simp only: sel set_sort wrks_def set_filter mem_Collect_eq simp_thms)
  have cont: "containers (snd (delete_one E cl rt)) =
     filter (\<lambda>ct. \<not> (\<exists>w \<in> set (cl_workers cl).
                        ctr_ID w = ctr_ID ct \<and> \<not> fails E (ContainerRemove (ctr_ID w))) \<and>
                  (fails E (ContainerRemove (ctr_ID (cl_server cl))) \<or>
                   ctr_ID ct \<noteq> ctr_ID (cl_server cl)))
       (containers rt)"
    by (rule delete_one_containers)
  have gone: "\<not> labelled n ct" if m: "ct \<in> set (containers (snd (delete_one E cl rt)))" for ct
  proof
    assume l: "labelled n ct"
    have mm: "ct \<in> set (containers rt) \<and>
        (\<not> (\<exists>w \<in> set (cl_workers cl). ctr_ID w = ctr_ID ct \<and>
                   \<not> fails E (ContainerRemove (ctr_ID w))) \<and>
         (fails E (ContainerRemove (ctr_ID (cl_server cl))) \<or>
          ctr_ID ct \<noteq> ctr_ID (cl_server cl)))"
      using m unfolding cont by (simp only: set_filter mem_Collect_eq simp_thms)
    then have in_rt: "ct \<in> set (containers rt)"
      by (rule conjunct1)
    have nw: "\<not> (\<exists>w \<in> set (cl_workers cl). ctr_ID w = ctr_ID ct \<and>
                   \<not> fails E (ContainerRemove (ctr_ID w)))"
      using mm by blast
    have ns: "ctr_ID ct \<noteq> ctr_ID (cl_server cl)"
      using mm fs by blast
    from kinds in_rt l
    have "has_label ''component'' ''server'' ct \<or> has_label ''component'' ''worker'' ct"
      by blast
    then show False
    proof
      assume "has_label ''component'' ''server'' ct"
      then have "ct \<in> set srvs"
        using in_rt l by (intro in_srvs)
      then have "ct = s"
        by (simp only: s list.set insert_iff empty_iff simp_thms)
      then show False
        using ns hs by blast
    next
      assume "has_label ''component'' ''worker'' ct"
      then have "ct \<in> set (cl_workers cl)"
        using in_rt l by (intro in_wrks)
      moreover have "\<not> fails E (ContainerRemove (ctr_ID ct))"
        using rm by simp
      ultimately show False
        using nw by blast
    qed
  qed
  have "n \<notin> set (networks (snd (delete_one E cl rt)))"
    "n \<notin> set (volumes (snd (delete_one E cl rt)))"
    "n \<notin> set (dirs (snd (delete_one E cl rt)))"
    using delete_one_other [OF rm, of cl rt] by (simp_all add: sel)
  then show ?thesis
    using gone rb by (simp add: cleaned_def list_all_iff)
qed

lemma one_server_containers:
  "containers rt' = containers rt \<Longrightarrow> one_server n rt' = one_server n rt"
  by (simp add: one_server_def)

lemma node_labelled: "labelled n \<lparr>ctr_ID = i, ctr_Name = nm, ctr_Labels = node_labels n role,
    ctr_Env = e, ctr_Cmd = cm, ctr_Running = r\<rparr>"
  by (simp add: labelled_def has_label_def node_labels_def)

lemma node_component:
  "has_label ''component'' role' \<lparr>ctr_ID = i, ctr_Name = nm, ctr_Labels = node_labels n role,
    ctr_Env = e, ctr_Cmd = cm, ctr_Running = r\<rparr> = (role = role')"
  by (simp add: has_label_def node_labels_def)

lemma createServer_one_server:
  assumes un: "list_all (\<lambda>ct. \<not> labelled n ct) (containers rt)"
    and cn: "ClusterName spec = n" and ok: "\<not> fails E (ServerCreate spec)"
  shows "one_server n (snd (createServer E spec rt))"
proof -
  let ?srv = "\<lparr>ctr_ID = server_name n, ctr_Name = server_name n,
      ctr_Labels = node_labels n ''server'', ctr_Env = Env spec, ctr_Cmd = ServerArgs spec,
      ctr_Running = True\<rparr>"
  have c: "containers (snd (createServer E spec rt)) = containers rt @ [?srv]"
    using cn ok by (simp add: createServer_def issue_def Let_def)
  have old: "filter (\<lambda>ct. labelled n ct \<and> has_label ''component'' ''server'' ct) (containers rt) = []"
    using un by (simp add: filter_empty_conv list_all_iff)
  have new: "labelled n ?srv" "has_label ''component'' ''server'' ?srv"
    by (simp_all add: node_labelled node_component)
  have "length (filter (\<lambda>ct. labelled n ct \<and> has_label ''component'' ''server'' ct)
      (containers rt @ [?srv])) = 1"
    using old new by simp
  moreover have "list_all (\<lambda>ct. labelled n ct \<longrightarrow>
      has_label ''component'' ''server'' ct \<or> has_label ''component'' ''worker'' ct)
      (containers rt @ [?srv])"
    using un new by (simp add: list_all_iff)
  ultimately show ?thesis
    unfolding one_server_def c by blast
qed

lemma createWorker_one_server:
  assumes inv: "one_server n rt" and cn: "ClusterName spec = n"
  shows "one_server n (snd (createWorker E spec i rt))"
proof (cases "fails E (WorkerCreate spec i)")
  case True
  then have "containers (snd (createWorker E spec i rt)) = containers rt"
    by (simp add: createWorker_def issue_def Let_def)
  then have "one_server n (snd (createWorker E spec i rt)) = one_server n rt"
    by (rule one_server_containers)
  then show ?thesis
    using inv by blast
next
  case False
  let ?w = "\<lparr>ctr_ID = worker_name n i, ctr_Name = worker_name n i,
      ctr_Labels = node_labels n ''worker'', ctr_Env = Env spec, ctr_Cmd = AgentArgs spec,
      ctr_Running = True\<rparr>"
  have c: "containers (snd (createWorker E spec i rt)) = containers rt @ [?w]"
    using cn False by (simp add: createWorker_def issue_def Let_def)
  have new: "\<not> has_label ''component'' ''server'' ?w" "has_label ''component'' ''worker'' ?w"
    by (simp_all add: node_component)
  have l: "length (filter (\<lambda>ct. labelled n ct \<and> has_label ''component'' ''server'' ct)
      (containers rt)) = 1"
    and k: "list_all (\<lambda>ct. labelled n ct \<longrightarrow>
      has_label ''component'' ''server'' ct \<or> has_label ''component'' ''worker'' ct) (containers rt)"
    using inv unfolding one_server_def by blast+
  have "length (filter (\<lambda>ct. labelled n ct \<and> has_label ''component'' ''server'' ct)
      (containers rt @ [?w])) = 1"
    using l new(1) by simp
  moreover have "list_all (\<lambda>ct. labelled n ct \<longrightarrow>
      has_label ''component'' ''server'' ct \<or> has_label ''component'' ''worker'' ct)
      (containers rt @ [?w])"
    using k new(2) by simp
  ultimately show ?thesis
    unfolding one_server_def c by blast
qed

lemma create_workers_cleans:
  assumes "one_server n rt" and "ClusterName spec = n" and "c_name c = n" and "n \<noteq> []"
    and "\<not> c_all c" and "\<forall>k. is_removal k \<longrightarrow> \<not> fails E k"
  shows "fst (create_workers E c spec i rt) = Inr () \<or>
         cleaned n (snd (create_workers E c spec i rt))"
  using assms
proof (induction E c spec i rt rule: create_workers.induct)
  case (1 E c spec i rt)
  show ?case
  proof (cases "i < c_workers c")
    case False
    then show ?thesis
      by (simp add: create_workers.simps)
  next
    case True
    obtain r rt1 where cw: "createWorker E spec i rt = (r, rt1)"
      by (cases "createWorker E spec i rt")
    have "one_server n (snd (createWorker E spec i rt))"
      using "1.prems"(1,2) by (rule createWorker_one_server)
    then have inv1: "one_server n rt1"
      using cw by simp
    show ?thesis
    proof (cases r)
      case (Inl e)
      then have "create_workers E c spec i rt = (Inl e, rollback E c rt1)"
        using True cw by (simp add: create_workers.simps)
      moreover have "cleaned n (rollback E c rt1)"
        using inv1 "1.prems"(4,5,3,6) by (rule rollback_cleans)
      ultimately show ?thesis
        by simp
    next
      case (Inr wid)
      then have "create_workers E c spec i rt = create_workers E c spec (i + 1) rt1"
        using True cw by (simp add: create_workers.simps)
      then show ?thesis
        using "1.IH" [OF True cw [symmetric] Inr inv1 "1.prems"(2,3,4,5,6)] by simp
    qed
  qed
qed

lemma create_nodes_cleans:
  assumes un: "list_all (\<lambda>ct. \<not> labelled n ct) (containers rt)"
    and cn: "ClusterName spec = n" and nm: "c_name c = n" and ne: "n \<noteq> []"
    and one: "\<not> c_all c" and rm: "\<forall>k. is_removal k \<longrightarrow> \<not> fails E k"
    and srv: "\<not> fails E (ServerCreate spec)"
  shows "fst (create_nodes E c spec rt) = Inr () \<or> cleaned n (snd (create_nodes E c spec rt))"
proof -
  let ?rt1 = "createClusterDir (c_name c) rt"
  have "containers ?rt1 = containers rt"
    by (simp add: createClusterDir_def issue_def Let_def)
  then have un1: "list_all (\<lambda>ct. \<not> labelled n ct) (containers ?rt1)"
    using un by simp
  obtain r2 rt2 where cs: "createServer E spec ?rt1 = (r2, rt2)"
    by (cases "createServer E spec ?rt1")
  have r2: "r2 = Inr (server_name (ClusterName spec))"
    using createServer_fst [of E spec ?rt1] cs srv by simp
  have "one_server n (snd (createServer E spec ?rt1))"
    using un1 cn srv by (rule createServer_one_server)
  then have inv2: "one_server n rt2"
    using cs by simp
  let ?w = "case c_wait c of None \<Rightarrow> (Inr (), rt2)
            | Some secs \<Rightarrow> waitForContainerLogMessage E (server_name (ClusterName spec))
                ''Running kubelet'' secs rt2"
  obtain r3 rt3 where w: "?w = (r3, rt3)"
    by (cases ?w)
  have "containers rt3 = containers rt2"
    using w by (auto simp add: waitForContainerLogMessage_def issue_def Let_def
        split: option.splits if_splits)
  then have "one_server n rt3 = one_server n rt2"
    by (rule one_server_containers)
  then have inv3: "one_server n rt3"
    using inv2 by blast
  show ?thesis
  proof (cases r3)
    case (Inl err)
    then have "create_nodes E c spec rt = (Inl WaitFailed, rollback E c rt3)"
      using cs r2 w by (simp add: create_nodes_def Let_def)
    moreover have "cleaned n (rollback E c rt3)"
      using inv3 ne one nm rm by (rule rollback_cleans)
    ultimately show ?thesis
      by simp
  next
    case (Inr u)
    then have eq: "create_nodes E c spec rt =
        (if 0 < c_workers c then create_workers E c spec 0 rt3 else (Inr (), rt3))"
      using cs r2 w by (simp add: create_nodes_def Let_def)
    show ?thesis
    proof (cases "0 < c_workers c")
      case False
      then show ?thesis
        using eq by simp
    next
      case True
      then show ?thesis
        using eq create_workers_cleans [OF inv3 cn nm ne one rm, of 0] by simp
    qed
  qed
qed

lemma create_workers_fails:
  assumes "i \<le> k" and "k < c_workers c" and "fails E (WorkerCreate spec k)"
  shows "fst (create_workers E c spec i rt) = Inl WorkerCreateFailed"
  using assms
proof (induction E c spec i rt rule: create_workers.induct)
  case (1 E c spec i rt)
  have lt: "i < c_workers c"
    using "1.prems"(1,2) by simp
  obtain r rt1 where cw: "createWorker E spec i rt = (r, rt1)"
    by (cases "createWorker E spec i rt")
  show ?case
  proof (cases r)
    case (Inl e)
    then have "e = WorkerCreateFailed"
      using cw by (auto simp add: createWorker_def Let_def split: if_splits)
    then show ?thesis
      using lt cw Inl by (simp add: create_workers.simps)
  next
    case (Inr wid)
    then have "\<not> fails E (WorkerCreate spec i)"
      using createWorker_fst [of E spec i rt] cw by auto
    then have "i \<noteq> k"
      using "1.prems"(3) by auto
    then have "i + 1 \<le> k"
      using "1.prems"(1) by simp
    moreover have "create_workers E c spec i rt = create_workers E c spec (i + 1) rt1"
      using lt cw Inr by (simp add: create_workers.simps)
    ultimately show ?thesis
      using "1.IH" [OF lt cw [symmetric] Inr _ "1.prems"(2,3)] by simp
  qed
qed

lemma create_nodes_worker_fails:
  assumes srv: "\<not> fails E (ServerCreate spec)"
    and wait: "\<forall>a b t. \<not> fails E (WaitForLogMessage a b t)"
    and k: "0 \<le> k" "k < c_workers c" "fails E (WorkerCreate spec k)"
  shows "fst (create_nodes E c spec rt) = Inl WorkerCreateFailed"
proof -
  let ?rt1 = "createClusterDir (c_name c) rt"
  obtain r2 rt2 where cs: "createServer E spec ?rt1 = (r2, rt2)"
    by (cases "createServer E spec ?rt1")
  have r2: "r2 = Inr (server_name (ClusterName spec))"
    using createServer_fst [of E spec ?rt1] cs srv by simp
  let ?w = "case c_wait c of None \<Rightarrow> (Inr (), rt2)
            | Some secs \<Rightarrow> waitForContainerLogMessage E (server_name (ClusterName spec))
                ''Running kubelet'' secs rt2"
  obtain r3 rt3 where w: "?w = (r3, rt3)"
    by (cases ?w)
  have "r3 = Inr ()"
    using w wait by (auto simp add: waitForContainerLogMessage_def Let_def split: option.splits)
  then have "create_nodes E c spec rt = create_workers E c spec 0 rt3"
    using cs r2 w k(1,2) by (simp add: create_nodes_def Let_def)
  then show ?thesis
    using create_workers_fails [OF k, of rt3] by simp
qed

section \<open>Stop and start\<close>

text \<open>
  Claim C6. For every cluster, \<open>StopCluster\<close> issues the stop of every worker, in the order
  of the list and whether or not an earlier one failed, and then the stop of the server;
  \<open>StartCluster\<close> issues the start of the server first and then, when that succeeded, the
  start of every worker, whether or not an earlier one failed. A failure of a worker never
  changes the result; a failure of the server is the error the operation returns, and the
  clusters after it are not processed. Both operations run this on the clusters that
  \<open>getClusters\<close> returns.
\<close>

theorem StopCluster_StartCluster_order:
  "calls (snd (stop_one E cl rt)) =
     calls rt @ map (\<lambda>w. ContainerStop (ctr_ID w)) (cl_workers cl) @
       [ContainerStop (ctr_ID (cl_server cl))] \<and>
   fst (stop_one E cl rt) =
     (if fails E (ContainerStop (ctr_ID (cl_server cl))) then Inl ServerStopFailed else Inr ()) \<and>
   calls (snd (start_one E cl rt)) =
     calls rt @ [ContainerStart (ctr_ID (cl_server cl))] @
       (if fails E (ContainerStart (ctr_ID (cl_server cl))) then []
        else map (\<lambda>w. ContainerStart (ctr_ID w)) (cl_workers cl)) \<and>
   fst (start_one E cl rt) =
     (if fails E (ContainerStart (ctr_ID (cl_server cl))) then Inl ServerStartFailed else Inr ()) \<and>
   stop_clusters E (cl # rest) rt =
     (if fails E (ContainerStop (ctr_ID (cl_server cl)))
      then (Inl ServerStopFailed, snd (stop_one E cl rt))
      else stop_clusters E rest (snd (stop_one E cl rt))) \<and>
   start_clusters E (cl # rest) rt =
     (if fails E (ContainerStart (ctr_ID (cl_server cl)))
      then (Inl ServerStartFailed, snd (start_one E cl rt))
      else start_clusters E rest (snd (start_one E cl rt))) \<and>
   (getClusters (c_all c) (c_name c) rt = Inr cls \<and> \<not> refuses E NewClient \<longrightarrow>
      StopCluster E c rt = stop_clusters E cls rt \<and>
      StartCluster E c rt = start_clusters E cls rt)"
  by (simp add: stop_one_calls stop_one_result start_one_calls start_one_result
      stop_clusters_step start_clusters_step StopCluster_def StartCluster_def
      del: stop_clusters.simps start_clusters.simps)

theorem StopCluster_StartCluster_order_witness:
  "getClusters (c_all example_context) (c_name example_context) example_runtime = Inr [example_cluster] \<and>
   calls (snd (StopCluster (example_externals (\<lambda>k. k = ContainerStop ''demo-worker-0''))
      example_context example_runtime)) =
     [ContainerStop ''demo-worker-0'', ContainerStop ''demo-worker-1'', ContainerStop ''demo-server''] \<and>
   fst (StopCluster (example_externals (\<lambda>k. k = ContainerStop ''demo-worker-0''))
      example_context example_runtime) = Inr () \<and>
   calls (snd (StartCluster (example_externals (\<lambda>k. k = ContainerStart ''demo-worker-0''))
      example_context example_runtime)) =
     [ContainerStart ''demo-server'', ContainerStart ''demo-worker-0'', ContainerStart ''demo-worker-1''] \<and>
   calls (snd (StartCluster (example_externals (\<lambda>k. k = ContainerStart ''demo-server''))
      example_context example_runtime)) = [ContainerStart ''demo-server''] \<and>
   fst (StartCluster (example_externals (\<lambda>k. k = ContainerStart ''demo-server''))
      example_context example_runtime) = Inl ServerStartFailed"
proof -
  have g: "getClusters (c_all example_context) (c_name example_context) example_runtime
             = Inr [example_cluster]"
    using example_getClusters by (simp add: example_context_def)
  note t = StopCluster_StartCluster_order [of _ example_cluster example_runtime "[]"
      example_context "[example_cluster]"]
  show ?thesis
    using g
      t [of "example_externals (\<lambda>k. k = ContainerStop ''demo-worker-0'')"]
      t [of "example_externals (\<lambda>k. k = ContainerStart ''demo-worker-0'')"]
      t [of "example_externals (\<lambda>k. k = ContainerStart ''demo-server'')"]
    by (simp add: example_externals_def example_cluster_def example_node_def example_runtime_def)
qed

section \<open>Delete\<close>

text \<open>
  Claim C7. For every cluster, \<open>DeleteCluster\<close> issues the removal of every worker, whether
  or not an earlier one failed, then the removal of the cluster directory, then the removal of
  the server. When the server's removal fails the operation returns that error and issues
  nothing more; otherwise it issues the removal of the network and of the image volume, and
  returns no error whatever these two answer. The containers that remain are those whose
  removal was refused or was never asked for.
\<close>

theorem DeleteCluster_order:
  "calls (snd (delete_one E cl rt)) =
     calls rt @ map (\<lambda>w. ContainerRemove (ctr_ID w)) (cl_workers cl) @
       [ClusterDirDelete (cl_name cl), ContainerRemove (ctr_ID (cl_server cl))] @
       (if fails E (ContainerRemove (ctr_ID (cl_server cl))) then []
        else [NetworkRemove (cl_name cl), VolumeRemove (cl_name cl)]) \<and>
   fst (delete_one E cl rt) =
     (if fails E (ContainerRemove (ctr_ID (cl_server cl))) then Inl ServerRemoveFailed else Inr ()) \<and>
   containers (snd (delete_one E cl rt)) =
     filter (\<lambda>ct. \<not> (\<exists>w \<in> set (cl_workers cl).
                        ctr_ID w = ctr_ID ct \<and> \<not> fails E (ContainerRemove (ctr_ID w))) \<and>
                  (fails E (ContainerRemove (ctr_ID (cl_server cl))) \<or>
                   ctr_ID ct \<noteq> ctr_ID (cl_server cl)))
       (containers rt) \<and>
   delete_clusters E (cl # rest) rt =
     (if fails E (ContainerRemove (ctr_ID (cl_server cl)))
      then (Inl ServerRemoveFailed, snd (delete_one E cl rt))
      else delete_clusters E rest (snd (delete_one E cl rt))) \<and>
   (getClusters (c_all c) (c_name c) rt = Inr cls \<longrightarrow>
      DeleteCluster E c rt = delete_clusters E cls rt)"
  by (simp add: delete_one_calls delete_one_result delete_one_containers delete_clusters_step
      DeleteCluster_def del: delete_clusters.simps)

theorem DeleteCluster_order_witness:
  "getClusters (c_all example_context) (c_name example_context) example_runtime = Inr [example_cluster] \<and>
   calls (snd (DeleteCluster
      (example_externals (\<lambda>k. k = ContainerRemove ''demo-worker-0'' \<or> k = NetworkRemove ''demo''))
      example_context example_runtime)) =
     [ContainerRemove ''demo-worker-0'', ContainerRemove ''demo-worker-1'', ClusterDirDelete ''demo'',
      ContainerRemove ''demo-server'', NetworkRemove ''demo'', VolumeRemove ''demo''] \<and>
   fst (DeleteCluster
      (example_externals (\<lambda>k. k = ContainerRemove ''demo-worker-0'' \<or> k = NetworkRemove ''demo''))
      example_context example_runtime) = Inr () \<and>
   containers (snd (DeleteCluster
      (example_externals (\<lambda>k. k = ContainerRemove ''demo-worker-0'' \<or> k = NetworkRemove ''demo''))
      example_context example_runtime)) = [example_node ''demo'' ''worker'' ''demo-worker-0''] \<and>
   calls (snd (DeleteCluster (example_externals (\<lambda>k. k = ContainerRemove ''demo-server''))
      example_context example_runtime)) =
     [ContainerRemove ''demo-worker-0'', ContainerRemove ''demo-worker-1'', ClusterDirDelete ''demo'',
      ContainerRemove ''demo-server''] \<and>
   fst (DeleteCluster (example_externals (\<lambda>k. k = ContainerRemove ''demo-server''))
      example_context example_runtime) = Inl ServerRemoveFailed"
proof -
  have g: "getClusters (c_all example_context) (c_name example_context) example_runtime
             = Inr [example_cluster]"
    using example_getClusters by (simp add: example_context_def)
  note t = DeleteCluster_order [of _ example_cluster example_runtime "[]"
      example_context "[example_cluster]"]
  show ?thesis
    using g
      t [of "example_externals (\<lambda>k. k = ContainerRemove ''demo-worker-0'' \<or> k = NetworkRemove ''demo'')"]
      t [of "example_externals (\<lambda>k. k = ContainerRemove ''demo-server'')"]
    by (simp add: example_externals_def example_cluster_def example_node_def example_runtime_def)
qed

text \<open>
  Claim C8. When no container carries the labels \<open>app=k3d\<close> and \<open>cluster=<name>\<close> for a
  non-empty name, \<open>DeleteCluster\<close> for that name issues no call, leaves the runtime as it
  is and returns no error, and the discovery after it returns no cluster.
\<close>

theorem DeleteCluster_absent:
  assumes "\<not> c_all c"
    and "c_name c \<noteq> []"
    and "\<forall>ct \<in> set (containers rt).
           \<not> (has_label ''app'' ''k3d'' ct \<and> has_label ''cluster'' (c_name c) ct)"
  shows "DeleteCluster E c rt = (Inr (), rt) \<and>
         getClusters (c_all c) (c_name c) (snd (DeleteCluster E c rt)) = Inr []"
proof -
  have g: "getClusters (c_all c) (c_name c) rt = Inr []"
    using getClusters_absent [OF assms(2,3)] assms(1) by simp
  then have d: "DeleteCluster E c rt = (Inr (), rt)"
    by (simp add: DeleteCluster_def)
  show ?thesis
    using g d by simp
qed

theorem DeleteCluster_absent_witness:
  "\<not> c_all (example_context\<lparr>c_name := ''other''\<rparr>) \<and>
   c_name (example_context\<lparr>c_name := ''other''\<rparr>) \<noteq> [] \<and>
   list_all (\<lambda>ct. \<not> (has_label ''app'' ''k3d'' ct \<and> has_label ''cluster'' ''other'' ct))
     (containers example_runtime) \<and>
   DeleteCluster (example_externals (\<lambda>k. False)) (example_context\<lparr>c_name := ''other''\<rparr>)
     example_runtime = (Inr (), example_runtime) \<and>
   getClusters False ''other'' example_runtime = Inr []"
proof -
  have h: "\<forall>ct \<in> set (containers example_runtime).
      \<not> (has_label ''app'' ''k3d'' ct \<and>
         has_label ''cluster'' (c_name (example_context\<lparr>c_name := ''other''\<rparr>)) ct)"
    by (simp add: example_runtime_def example_node_def node_labels_def has_label_def)
  have a: "\<not> c_all (example_context\<lparr>c_name := ''other''\<rparr>)"
    by (simp add: example_context_def)
  have n: "c_name (example_context\<lparr>c_name := ''other''\<rparr>) \<noteq> []"
    by simp
  note t = DeleteCluster_absent [OF a n h, of "example_externals (\<lambda>k. False)"]
  have d: "DeleteCluster (example_externals (\<lambda>k. False)) (example_context\<lparr>c_name := ''other''\<rparr>)
     example_runtime = (Inr (), example_runtime)"
    using t by simp
  have g: "getClusters False ''other'' example_runtime = Inr []"
    using t a by (simp add: d)
  show ?thesis
    using a h d g by (simp add: list_all_iff)
qed

section \<open>The ordinals of added workers\<close>

text \<open>
  Claim C3. When \<open>AddNode\<close> has listed the existing workers and every one of their names
  ends in a number, the ordinals it passes to \<open>createWorker\<close> are, in this order,
  \<open>highest + 1\<close>, \<open>highest + 2\<close>, ... up to at most \<open>highest + count\<close>, where \<open>highest\<close>
  is the greatest of the existing suffixes; when no creation fails they are all of
  \<open>highest + 1 .. highest + count\<close>. With workers 0 and 2 and a count of 2 these are 3 and 4.
  When a name does not end in a number, \<open>AddNode\<close> returns the parse error of
  \<open>strconv.Atoi\<close> and issues no call. The count is not negative and \<open>highest + count\<close>
  stays below the greatest \<open>int\<close>.
\<close>

theorem AddNode_suffixes:
  "workers_listed E c rt srv port \<Longrightarrow>
   (map (\<lambda>w. name_suffix (ctr_Name w)) (all_workers (c_name c) rt) = map Inr vs \<and> vs \<noteq> [] \<and>
    0 \<le> c_count c \<and> Max (set vs) + c_count c < maxInt \<longrightarrow>
      (\<exists>m. Max (set vs) \<le> m \<and> m \<le> Max (set vs) + c_count c \<and>
           calls (snd (AddNode E c rt)) =
             calls rt @ map (WorkerCreate (join_spec (c_name c) (default_image (c_image c))
                                             (join_env srv port)))
                          [Max (set vs) + 1 .. m]) \<and>
      ((\<forall>i. \<not> fails E (WorkerCreate (join_spec (c_name c) (default_image (c_image c))
                                        (join_env srv port)) i)) \<longrightarrow>
         fst (AddNode E c rt) = Inr () \<and>
         calls (snd (AddNode E c rt)) =
           calls rt @ map (WorkerCreate (join_spec (c_name c) (default_image (c_image c))
                                           (join_env srv port)))
                        [Max (set vs) + 1 .. Max (set vs) + c_count c])) \<and>
   ((\<exists>w \<in> set (all_workers (c_name c) rt). \<exists>e. name_suffix (ctr_Name w) = Inl e) \<longrightarrow>
      (\<exists>e. AddNode E c rt = (Inl e, rt) \<and> (e = SuffixSyntax \<or> e = SuffixRange)))"
proof -
  assume wl: "workers_listed E c rt srv port"
  let ?spec = "join_spec (c_name c) (default_image (c_image c)) (join_env srv port)"
  let ?ws = "all_workers (c_name c) rt"
  have A: "\<exists>e. AddNode E c rt = (Inl e, rt) \<and> (e = SuffixSyntax \<or> e = SuffixRange)"
    if bad: "\<exists>w \<in> set ?ws. \<exists>e. name_suffix (ctr_Name w) = Inl e"
  proof -
    obtain e where "highest_suffix 0 ?ws = Inl e" "e = SuffixSyntax \<or> e = SuffixRange"
      using highest_suffix_error [OF bad, of 0] by blast
    then show ?thesis
      using AddNode_listed [OF wl] by simp
  qed
  have B: "(\<exists>m. Max (set vs) \<le> m \<and> m \<le> Max (set vs) + c_count c \<and>
           calls (snd (AddNode E c rt)) = calls rt @ map (WorkerCreate ?spec) [Max (set vs) + 1 .. m]) \<and>
      ((\<forall>i. \<not> fails E (WorkerCreate ?spec i)) \<longrightarrow>
         fst (AddNode E c rt) = Inr () \<and>
         calls (snd (AddNode E c rt)) =
           calls rt @ map (WorkerCreate ?spec) [Max (set vs) + 1 .. Max (set vs) + c_count c])"
    if p: "map (\<lambda>w. name_suffix (ctr_Name w)) ?ws = map Inr vs" and ne: "vs \<noteq> []"
      and c0: "0 \<le> c_count c" and rg: "Max (set vs) + c_count c < maxInt"
  proof -
    let ?h = "Max (set vs)"
    have h: "highest_suffix 0 ?ws = Inr ?h"
      using highest_suffix_nonempty [OF p ne] .
    have h0: "0 \<le> ?h"
      using highest_suffix_bounds [OF h] by (simp add: maxInt_def)
    have w1: "wrap (?h + 1) = ?h + 1"
      using h0 c0 rg by (intro wrap_id) (simp_all add: minInt_def)
    have w2: "wrap (c_count c + 1 + ?h) = ?h + c_count c + 1"
      using h0 c0 rg wrap_id [of "c_count c + 1 + ?h"] by (simp add: minInt_def add.commute add.left_commute)
    have eq: "AddNode E c rt = add_workers E ?spec (?h + 1) (?h + c_count c + 1) rt"
      using AddNode_listed [OF wl] h w1 w2 by simp
    obtain m where m: "?h + 1 - 1 \<le> m" "m \<le> max (?h + c_count c + 1 - 1) (?h + 1 - 1)"
      "calls (snd (add_workers E ?spec (?h + 1) (?h + c_count c + 1) rt)) =
         calls rt @ map (WorkerCreate ?spec) [?h + 1 .. m]"
      using add_workers_calls_prefix [of "?h + 1" "?h + c_count c + 1" E ?spec rt] by blast
    have first: "\<exists>m. ?h \<le> m \<and> m \<le> ?h + c_count c \<and>
           calls (snd (AddNode E c rt)) = calls rt @ map (WorkerCreate ?spec) [?h + 1 .. m]"
      using m c0 eq by (intro exI [of _ m]) simp
    have second: "fst (AddNode E c rt) = Inr () \<and>
         calls (snd (AddNode E c rt)) = calls rt @ map (WorkerCreate ?spec) [?h + 1 .. ?h + c_count c]"
      if nf: "\<forall>i. \<not> fails E (WorkerCreate ?spec i)"
      using add_workers_calls_ok [of "?h + 1" "?h + c_count c + 1" E ?spec rt] nf eq by simp
    show ?thesis
      using first second by blast
  qed
  show ?thesis
    using A B by blast
qed

theorem AddNode_suffixes_witness:
  "workers_listed (example_externals (\<lambda>k. False)) (example_join_context 2)
     (example_join_runtime
        (example_server [''K3S_CLUSTER_SECRET=abc''] [''--https-listen-port'', ''6443''])
        (map (example_node ''c'' ''worker'') [''c-worker-0'', ''c-worker-2'']))
     (example_server [''K3S_CLUSTER_SECRET=abc''] [''--https-listen-port'', ''6443''])
     ''6443'' \<and>
   fst (AddNode (example_externals (\<lambda>k. False)) (example_join_context 2)
     (example_join_runtime
        (example_server [''K3S_CLUSTER_SECRET=abc''] [''--https-listen-port'', ''6443''])
        (map (example_node ''c'' ''worker'') [''c-worker-0'', ''c-worker-2'']))) = Inr () \<and>
   calls (snd (AddNode (example_externals (\<lambda>k. False)) (example_join_context 2)
     (example_join_runtime
        (example_server [''K3S_CLUSTER_SECRET=abc''] [''--https-listen-port'', ''6443''])
        (map (example_node ''c'' ''worker'') [''c-worker-0'', ''c-worker-2''])))) =
     [WorkerCreate (join_spec ''c'' ''docker.io/rancher/k3s:latest''
         [''K3S_URL=https://c-server:6443'', ''K3S_CLUSTER_SECRET=abc'']) 3,
      WorkerCreate (join_spec ''c'' ''docker.io/rancher/k3s:latest''
         [''K3S_URL=https://c-server:6443'', ''K3S_CLUSTER_SECRET=abc'']) 4] \<and>
   snd (AddNode (example_externals (\<lambda>k. False)) (example_join_context 2)
     (example_join_runtime
        (example_server [''K3S_CLUSTER_SECRET=abc''] [''--https-listen-port'', ''6443''])
        (map (example_node ''c'' ''worker'') [''c-worker-x'']))) =
     example_join_runtime
        (example_server [''K3S_CLUSTER_SECRET=abc''] [''--https-listen-port'', ''6443''])
        (map (example_node ''c'' ''worker'') [''c-worker-x''])"
proof -
  let ?E = "example_externals (\<lambda>k. False)"
  let ?srv = "example_server [''K3S_CLUSTER_SECRET=abc''] [''--https-listen-port'', ''6443'']"
  let ?rt = "example_join_runtime ?srv (map (example_node ''c'' ''worker'') [''c-worker-0'', ''c-worker-2''])"
  let ?bad = "example_join_runtime ?srv (map (example_node ''c'' ''worker'') [''c-worker-x''])"
  let ?c = "example_join_context 2"
  have n: "c_name ?c = ''c''" "c_count ?c = 2" "c_image ?c = ''rancher/k3s:latest''"
    by (simp_all add: example_join_context_def)
  have img: "default_image ''rancher/k3s:latest'' = ''docker.io/rancher/k3s:latest''"
    by (simp add: default_image_def)
  have je: "join_env ?srv ''6443'' = [''K3S_URL=https://c-server:6443'', ''K3S_CLUSTER_SECRET=abc'']"
    by (simp add: join_env_def example_server_def example_env_key)
  have nf: "\<forall>i. \<not> fails ?E (WorkerCreate (join_spec (c_name ?c) (default_image (c_image ?c))
                                        (join_env ?srv ''6443'')) i)"
    by (simp add: example_externals_def)
  have p: "map (\<lambda>w. name_suffix (ctr_Name w)) (all_workers (c_name ?c) ?rt) = map Inr [0, 2]"
    by (simp only: n example_all_workers) (simp add: example_node_def example_suffixes)
  have b: "\<exists>w \<in> set (all_workers (c_name ?c) ?bad). \<exists>e. name_suffix (ctr_Name w) = Inl e"
    by (simp only: n example_all_workers) (simp add: example_node_def example_suffixes)
  have mx: "Max (set [0, 2 :: int]) = 2"
    by simp
  have up: "[2 + 1 .. 2 + 2 :: int] = [3, 4]"
    by (simp add: upto_rec1)
  from AddNode_suffixes [OF example_workers_listed
      [of 2 "map (example_node ''c'' ''worker'') [''c-worker-0'', ''c-worker-2'']"], of "[0, 2]"] p nf
  have good: "fst (AddNode ?E ?c ?rt) = Inr () \<and>
      calls (snd (AddNode ?E ?c ?rt)) =
        calls ?rt @ map (WorkerCreate (join_spec (c_name ?c) (default_image (c_image ?c))
                                           (join_env ?srv ''6443''))) [2 + 1 .. 2 + 2]"
    by (simp add: n maxInt_def)
  from AddNode_suffixes [OF example_workers_listed
      [of 2 "map (example_node ''c'' ''worker'') [''c-worker-x'']"], of "[0]"] b
  have bad: "snd (AddNode ?E ?c ?bad) = ?bad"
    by auto
  show ?thesis
    using good bad example_workers_listed
    by (simp add: n img je up example_join_runtime_def)
qed

section \<open>The join configuration\<close>

text \<open>
  Claim C9. The loop that looks for the listen port reads the element after the flag without
  a check of the length: it ends in Go's index-out-of-range panic exactly when the command list
  is not empty and its last element is \<open>--https-listen-port\<close>, and then \<open>AddNode\<close>,
  having found the secret, panics instead of returning the error for a missing port.
\<close>

theorem AddNode_trailing_flag:
  "(extract_port cur cmd = Inl e \<longleftrightarrow>
      e = IndexOutOfRange \<and> cmd \<noteq> [] \<and> last cmd = ''--https-listen-port'') \<and>
   (server_inspected E c rt srv \<and> extract_secret [] (ctr_Env srv) \<noteq> [] \<and>
    ctr_Cmd srv \<noteq> [] \<and> last (ctr_Cmd srv) = ''--https-listen-port'' \<longrightarrow>
      AddNode E c rt = (Inl IndexOutOfRange, rt))"
proof -
  have "AddNode E c rt = (Inl IndexOutOfRange, rt)"
    if si: "server_inspected E c rt srv" and se: "extract_secret [] (ctr_Env srv) \<noteq> []"
      and ne: "ctr_Cmd srv \<noteq> []" and la: "last (ctr_Cmd srv) = ''--https-listen-port''"
  proof -
    have "extract_port [] (ctr_Cmd srv) = Inl IndexOutOfRange"
      using ne la by (simp add: extract_port_panic_iff)
    then show ?thesis
      using AddNode_inspected [OF si] se by simp
  qed
  then show ?thesis
    using extract_port_panic_iff [of cur cmd e] by blast
qed

theorem AddNode_trailing_flag_witness:
  "server_inspected (example_externals (\<lambda>k. False)) (example_join_context 1)
     (example_join_runtime
        (example_server [''K3S_CLUSTER_SECRET=abc'']
           [''--https-listen-port'', ''6443'', ''--https-listen-port'']) [])
     (example_server [''K3S_CLUSTER_SECRET=abc'']
           [''--https-listen-port'', ''6443'', ''--https-listen-port'']) \<and>
   AddNode (example_externals (\<lambda>k. False)) (example_join_context 1)
     (example_join_runtime
        (example_server [''K3S_CLUSTER_SECRET=abc'']
           [''--https-listen-port'', ''6443'', ''--https-listen-port'']) []) =
     (Inl IndexOutOfRange,
      example_join_runtime
        (example_server [''K3S_CLUSTER_SECRET=abc'']
           [''--https-listen-port'', ''6443'', ''--https-listen-port'']) []) \<and>
   extract_port [] [''--https-listen-port''] = Inl IndexOutOfRange"
proof -
  let ?srv = "example_server [''K3S_CLUSTER_SECRET=abc'']
           [''--https-listen-port'', ''6443'', ''--https-listen-port'']"
  note t = AddNode_trailing_flag [of _ _ _ "example_externals (\<lambda>k. False)" "example_join_context 1"
      "example_join_runtime ?srv []" ?srv]
  have c: "ctr_Cmd ?srv = [''--https-listen-port'', ''6443'', ''--https-listen-port'']"
    by (simp add: example_server_def)
  show ?thesis
    using t [of "[]" "[''--https-listen-port'']" IndexOutOfRange]
      example_server_inspected [of 1 "[''K3S_CLUSTER_SECRET=abc'']"
        "[''--https-listen-port'', ''6443'', ''--https-listen-port'']" "[]"]
    by (simp add: example_secret c)
qed

text \<open>
  Claim C4, as stated, at a server whose command list has the flag followed by the port 6443
  and then the flag again followed by an empty argument: the later occurrence counts, and
  \<open>AddNode\<close> returns the error for a missing port.
\<close>

theorem AddNode_join_config_counterexample:
  "list_ex (\<lambda>e. env_key e = ''K3S_CLUSTER_SECRET'') [''K3S_CLUSTER_SECRET=abc''] \<and>
   [''--https-listen-port'', ''6443'', ''--https-listen-port'', ''''] ! 0 = ''--https-listen-port'' \<and>
   [''--https-listen-port'', ''6443'', ''--https-listen-port'', ''''] ! 1 = ''6443'' \<and>
   AddNode (example_externals (\<lambda>k. False)) (example_join_context 1)
     (example_join_runtime
        (example_server [''K3S_CLUSTER_SECRET=abc'']
           [''--https-listen-port'', ''6443'', ''--https-listen-port'', '''']) []) =
     (Inl ListenPortNotFound,
      example_join_runtime
        (example_server [''K3S_CLUSTER_SECRET=abc'']
           [''--https-listen-port'', ''6443'', ''--https-listen-port'', '''']) [])"
proof -
  let ?srv = "example_server [''K3S_CLUSTER_SECRET=abc'']
           [''--https-listen-port'', ''6443'', ''--https-listen-port'', '''']"
  have c: "extract_port [] (ctr_Cmd ?srv) = Inr []"
    by (simp add: example_server_def)
  show ?thesis
    using AddNode_inspected [OF example_server_inspected [of 1 "[''K3S_CLUSTER_SECRET=abc'']"
        "[''--https-listen-port'', ''6443'', ''--https-listen-port'', '''']" "[]"]]
    by (simp add: example_secret c example_env_key)
qed

text \<open>
  Claim C4, amended. Once \<open>AddNode\<close> has inspected the server container: when no entry of
  its environment has the key \<open>K3S_CLUSTER_SECRET\<close> the result is the error for a missing
  secret, and when there is one but the command list has no \<open>--https-listen-port\<close> the
  result is the error for a missing port; in both cases nothing is changed or created. When
  there is such an entry and the last occurrence of the flag is followed by a non-empty
  argument \<open>p\<close>, the secret is the last such entry of the environment, unchanged, the port
  is \<open>p\<close>, the derivation does not fail, and every node the operation goes on to create
  gets the environment made of the URL \<open>https://<server name>:p\<close> and that entry.
\<close>

theorem AddNode_join_config:
  "server_inspected E c rt srv \<Longrightarrow>
   (\<not> (\<exists>e \<in> set (ctr_Env srv). env_key e = ''K3S_CLUSTER_SECRET'') \<longrightarrow>
      AddNode E c rt = (Inl SecretNotFound, rt)) \<and>
   ((\<exists>e \<in> set (ctr_Env srv). env_key e = ''K3S_CLUSTER_SECRET'') \<and>
    ''--https-listen-port'' \<notin> set (ctr_Cmd srv) \<longrightarrow>
      AddNode E c rt = (Inl ListenPortNotFound, rt)) \<and>
   ((\<exists>e \<in> set (ctr_Env srv). env_key e = ''K3S_CLUSTER_SECRET'') \<and>
    ctr_Cmd srv = pre @ ''--https-listen-port'' # p # post \<and>
    ''--https-listen-port'' \<notin> set (p # post) \<and> p \<noteq> [] \<longrightarrow>
      extract_secret [] (ctr_Env srv) =
        last (filter (\<lambda>e. env_key e = ''K3S_CLUSTER_SECRET'') (ctr_Env srv)) \<and>
      extract_secret [] (ctr_Env srv) \<in> set (ctr_Env srv) \<and>
      extract_port [] (ctr_Cmd srv) = Inr p \<and>
      fst (AddNode E c rt) \<noteq> Inl SecretNotFound \<and>
      fst (AddNode E c rt) \<noteq> Inl ListenPortNotFound \<and>
      fst (AddNode E c rt) \<noteq> Inl IndexOutOfRange \<and>
      (\<exists>s m. calls (snd (AddNode E c rt)) =
         calls rt @
         map (WorkerCreate (join_spec (c_name c) (default_image (c_image c))
                [''K3S_URL=https://'' @ ctr_Name srv @ '':'' @ p,
                 last (filter (\<lambda>e. env_key e = ''K3S_CLUSTER_SECRET'') (ctr_Env srv))]))
           [s .. m]))"
proof -
  assume si: "server_inspected E c rt srv"
  note unf = AddNode_inspected [OF si]
  have A: "AddNode E c rt = (Inl SecretNotFound, rt)"
    if "\<not> (\<exists>e \<in> set (ctr_Env srv). env_key e = ''K3S_CLUSTER_SECRET'')"
    using extract_secret_absent [OF that, of "[]"] unf by simp
  have B: "AddNode E c rt = (Inl ListenPortNotFound, rt)"
    if pr: "\<exists>e \<in> set (ctr_Env srv). env_key e = ''K3S_CLUSTER_SECRET''"
      and ab: "''--https-listen-port'' \<notin> set (ctr_Cmd srv)"
  proof -
    have "extract_secret [] (ctr_Env srv) \<noteq> []"
      using extract_secret_present [OF pr, of "[]"] by blast
    then show ?thesis
      using extract_port_absent [OF ab, of "[]"] unf by simp
  qed
  have C: "extract_secret [] (ctr_Env srv) =
        last (filter (\<lambda>e. env_key e = ''K3S_CLUSTER_SECRET'') (ctr_Env srv)) \<and>
      extract_secret [] (ctr_Env srv) \<in> set (ctr_Env srv) \<and>
      extract_port [] (ctr_Cmd srv) = Inr p \<and>
      fst (AddNode E c rt) \<noteq> Inl SecretNotFound \<and>
      fst (AddNode E c rt) \<noteq> Inl ListenPortNotFound \<and>
      fst (AddNode E c rt) \<noteq> Inl IndexOutOfRange \<and>
      (\<exists>s m. calls (snd (AddNode E c rt)) =
         calls rt @
         map (WorkerCreate (join_spec (c_name c) (default_image (c_image c))
                [''K3S_URL=https://'' @ ctr_Name srv @ '':'' @ p,
                 last (filter (\<lambda>e. env_key e = ''K3S_CLUSTER_SECRET'') (ctr_Env srv))]))
           [s .. m])"
    if pr: "\<exists>e \<in> set (ctr_Env srv). env_key e = ''K3S_CLUSTER_SECRET''"
      and cm: "ctr_Cmd srv = pre @ ''--https-listen-port'' # p # post"
      and la: "''--https-listen-port'' \<notin> set (p # post)" and pn: "p \<noteq> []"
  proof -
    have ep: "extract_port [] (ctr_Cmd srv) = Inr p"
      using extract_port_last_occurrence [OF la, of "[]" pre] cm by simp
    have se: "extract_secret [] (ctr_Env srv) \<noteq> []"
      using extract_secret_present [OF pr, of "[]"] by blast
    have es: "extract_secret [] (ctr_Env srv) =
        last (filter (\<lambda>e. env_key e = ''K3S_CLUSTER_SECRET'') (ctr_Env srv))"
      "extract_secret [] (ctr_Env srv) \<in> set (ctr_Env srv)"
      using extract_secret_present [OF pr, of "[]"] by blast+
    have je: "join_env srv p = [''K3S_URL=https://'' @ ctr_Name srv @ '':'' @ p,
                 last (filter (\<lambda>e. env_key e = ''K3S_CLUSTER_SECRET'') (ctr_Env srv))]"
      using es(1) by (simp add: join_env_def)
    show ?thesis
      using AddNode_calls_inspected [OF si ep] AddNode_derived_result [OF si se ep pn] ep es je
      by simp
  qed
  show ?thesis
    using A B C by blast
qed

theorem AddNode_join_config_witness:
  "server_inspected (example_externals (\<lambda>k. False)) (example_join_context 1)
     (example_join_runtime
        (example_server [''K3S_CLUSTER_SECRET=abc''] [''server'', ''--https-listen-port'', ''6443'']) [])
     (example_server [''K3S_CLUSTER_SECRET=abc''] [''server'', ''--https-listen-port'', ''6443'']) \<and>
   extract_secret [] [''K3S_CLUSTER_SECRET=abc''] = ''K3S_CLUSTER_SECRET=abc'' \<and>
   extract_port [] [''server'', ''--https-listen-port'', ''6443''] = Inr ''6443'' \<and>
   AddNode (example_externals (\<lambda>k. False)) (example_join_context 1)
     (example_join_runtime (example_server [''A=1''] [''--https-listen-port'', ''6443'']) []) =
     (Inl SecretNotFound,
      example_join_runtime (example_server [''A=1''] [''--https-listen-port'', ''6443'']) []) \<and>
   AddNode (example_externals (\<lambda>k. False)) (example_join_context 1)
     (example_join_runtime (example_server [''K3S_CLUSTER_SECRET=abc''] [''server'']) []) =
     (Inl ListenPortNotFound,
      example_join_runtime (example_server [''K3S_CLUSTER_SECRET=abc''] [''server'']) [])"
proof -
  let ?E = "example_externals (\<lambda>k. False)"
  let ?c = "example_join_context 1"
  note si = example_server_inspected [of 1 _ _ "[]"]
  have k: "env_key ''A=1'' \<noteq> ''K3S_CLUSTER_SECRET''"
    by (simp add: env_key_def)
  have e: "ctr_Env (example_server env cmd) = env" "ctr_Cmd (example_server env cmd) = cmd"
    for env cmd
    by (simp_all add: example_server_def)
  have 1: "extract_secret [] [''K3S_CLUSTER_SECRET=abc''] = ''K3S_CLUSTER_SECRET=abc'' \<and>
           extract_port [] [''server'', ''--https-listen-port'', ''6443''] = Inr ''6443''"
    using AddNode_join_config [OF si [of "[''K3S_CLUSTER_SECRET=abc'']"
          "[''server'', ''--https-listen-port'', ''6443'']"], of "[''server'']" "''6443''" "[]"]
    by (simp add: e example_env_key)
  have 2: "AddNode ?E ?c
     (example_join_runtime (example_server [''A=1''] [''--https-listen-port'', ''6443'']) []) =
     (Inl SecretNotFound,
      example_join_runtime (example_server [''A=1''] [''--https-listen-port'', ''6443'']) [])"
    using AddNode_join_config [OF si [of "[''A=1'']" "[''--https-listen-port'', ''6443'']"]]
    by (simp add: e k)
  have 3: "AddNode ?E ?c
     (example_join_runtime (example_server [''K3S_CLUSTER_SECRET=abc''] [''server'']) []) =
     (Inl ListenPortNotFound,
      example_join_runtime (example_server [''K3S_CLUSTER_SECRET=abc''] [''server'']) [])"
    using AddNode_join_config [OF si [of "[''K3S_CLUSTER_SECRET=abc'']" "[''server'']"]]
    by (simp add: e example_env_key)
  show ?thesis
    using 1 2 3 si [of "[''K3S_CLUSTER_SECRET=abc'']" "[''server'', ''--https-listen-port'', ''6443'']"]
    by simp
qed

section \<open>The first ordinal\<close>

text \<open>
  Claim C10. When \<open>AddNode\<close> finds no worker, the highest suffix stays 0 and the ordinals it
  passes to \<open>createWorker\<close> start at 1: for a count between 1 and the greatest \<open>int\<close> the
  first call creates ordinal 1, and the container \<open><cluster>-worker-1\<close> when the runtime
  accepts it. For every state of the runtime and a count that is not negative, no call of
  \<open>AddNode\<close> creates ordinal 0. The worker loop of \<open>CreateCluster\<close> starts with ordinal 0.
\<close>

theorem AddNode_first_ordinal:
  "(workers_listed E c rt srv port \<and> all_workers (c_name c) rt = [] \<longrightarrow>
      highest_suffix 0 (all_workers (c_name c) rt) = Inr 0 \<and>
      (\<exists>m. calls (snd (AddNode E c rt)) =
            calls rt @ map (WorkerCreate (join_spec (c_name c) (default_image (c_image c))
                                            (join_env srv port))) [1 .. m]) \<and>
      (0 < c_count c \<and> c_count c < maxInt \<longrightarrow>
         (\<exists>ks. calls (snd (AddNode E c rt)) =
            calls rt @ WorkerCreate (join_spec (c_name c) (default_image (c_image c))
                                       (join_env srv port)) 1 # ks) \<and>
         (\<not> fails E (WorkerCreate (join_spec (c_name c) (default_image (c_image c))
                                      (join_env srv port)) 1) \<longrightarrow>
            (\<exists>ct \<in> set (containers (snd (AddNode E c rt))).
               ctr_Name ct = c_name c @ ''-worker-1'')))) \<and>
   (0 \<le> c_count c \<and> c_count c \<le> maxInt \<longrightarrow>
      (\<exists>ks. calls (snd (AddNode E c rt)) = calls rt @ ks \<and> (\<forall>sp. WorkerCreate sp 0 \<notin> set ks))) \<and>
   (0 < c_workers c' \<longrightarrow>
      (\<exists>ks. calls (snd (create_workers E' c' spec' 0 rt')) = calls rt' @ WorkerCreate spec' 0 # ks))"
proof -
  let ?spec = "join_spec (c_name c) (default_image (c_image c)) (join_env srv port)"
  have A: "highest_suffix 0 (all_workers (c_name c) rt) = Inr 0 \<and>
      (\<exists>m. calls (snd (AddNode E c rt)) = calls rt @ map (WorkerCreate ?spec) [1 .. m]) \<and>
      (0 < c_count c \<and> c_count c < maxInt \<longrightarrow>
         (\<exists>ks. calls (snd (AddNode E c rt)) = calls rt @ WorkerCreate ?spec 1 # ks) \<and>
         (\<not> fails E (WorkerCreate ?spec 1) \<longrightarrow>
            (\<exists>ct \<in> set (containers (snd (AddNode E c rt))).
               ctr_Name ct = c_name c @ ''-worker-1'')))"
    if wl: "workers_listed E c rt srv port" and nw: "all_workers (c_name c) rt = []"
  proof -
    have eq: "AddNode E c rt = add_workers E ?spec 1 (wrap (c_count c + 1)) rt"
      using AddNode_listed [OF wl] nw wrap_id [of 1] by (simp add: minInt_def maxInt_def)
    obtain m where m: "1 - 1 \<le> m" "m \<le> max (wrap (c_count c + 1) - 1) (1 - 1)"
      "calls (snd (add_workers E ?spec 1 (wrap (c_count c + 1)) rt)) =
         calls rt @ map (WorkerCreate ?spec) [1 .. m]"
      using add_workers_calls_prefix [of 1 "wrap (c_count c + 1)" E ?spec rt] by blast
    have B: "(\<exists>ks. calls (snd (AddNode E c rt)) = calls rt @ WorkerCreate ?spec 1 # ks) \<and>
         (\<not> fails E (WorkerCreate ?spec 1) \<longrightarrow>
            (\<exists>ct \<in> set (containers (snd (AddNode E c rt))).
               ctr_Name ct = c_name c @ ''-worker-1''))"
      if cr: "0 < c_count c" "c_count c < maxInt"
    proof -
      have w: "wrap (c_count c + 1) = c_count c + 1"
        using cr by (intro wrap_id) (simp_all add: minInt_def)
      have lt: "(1::int) < c_count c + 1"
        using cr by simp
      have "fails E (WorkerCreate ?spec 1) \<or>
         (\<exists>ct \<in> set (containers (snd (add_workers E ?spec 1 (c_count c + 1) rt))).
               ctr_Name ct = worker_name (ClusterName ?spec) 1)"
        using add_workers_first_container [OF lt, of E ?spec rt] by blast
      then have cont: "\<not> fails E (WorkerCreate ?spec 1) \<longrightarrow>
            (\<exists>ct \<in> set (containers (snd (AddNode E c rt))).
               ctr_Name ct = c_name c @ ''-worker-1'')"
        using eq w by (auto simp add: worker_name_1 join_spec_def)
      obtain r rt1 where cw: "createWorker E ?spec 1 rt = (r, rt1)"
        by (cases "createWorker E ?spec 1 rt")
      have c1: "calls rt1 = calls rt @ [WorkerCreate ?spec 1]"
        using createWorker_calls [of E ?spec 1 rt] cw by simp
      have "\<exists>ks. calls (snd (add_workers E ?spec 1 (c_count c + 1) rt)) =
          calls rt @ WorkerCreate ?spec 1 # ks"
      proof (cases r)
        case (Inl e)
        then have "add_workers E ?spec 1 (c_count c + 1) rt = (Inl WorkerCreateFailed, rt1)"
          using lt cw by (simp add: add_workers.simps)
        then show ?thesis
          using c1 by simp
      next
        case (Inr wid)
        then have e2: "add_workers E ?spec 1 (c_count c + 1) rt =
            add_workers E ?spec (1 + 1) (c_count c + 1) rt1"
          using lt cw by (simp add: add_workers.simps)
        obtain m2 where "calls (snd (add_workers E ?spec (1 + 1) (c_count c + 1) rt1)) =
            calls rt1 @ map (WorkerCreate ?spec) [1 + 1 .. m2]"
          using add_workers_calls_prefix [of "1 + 1" "c_count c + 1" E ?spec rt1] by blast
        then show ?thesis
          using e2 c1 by simp
      qed
      then show ?thesis
        using eq w cont by simp
    qed
    show ?thesis
      using nw eq m(3) B by auto
  qed
  have C: "\<exists>ks. calls (snd (AddNode E c rt)) = calls rt @ ks \<and> (\<forall>sp. WorkerCreate sp 0 \<notin> set ks)"
    if cr: "0 \<le> c_count c" "c_count c \<le> maxInt"
  proof -
    consider (same) "snd (AddNode E c rt) = rt"
      | (loop) srv' port' h where "highest_suffix 0 (all_workers (c_name c) rt) = Inr h"
          "AddNode E c rt =
             add_workers E (join_spec (c_name c) (default_image (c_image c)) (join_env srv' port'))
               (wrap (h + 1)) (wrap (c_count c + 1 + h)) rt"
      using AddNode_cases [of E c rt] by blast
    then show ?thesis
    proof cases
      case same
      then show ?thesis by simp
    next
      case loop
      have hb: "0 \<le> h" "h \<le> maxInt"
        using highest_suffix_bounds [OF loop(1)] by (simp_all add: maxInt_def)
      show ?thesis
        using add_workers_never_zero [OF hb, of "c_count c" E _ rt] cr loop(2) by simp
    qed
  qed
  have D: "\<exists>ks. calls (snd (create_workers E' c' spec' 0 rt')) = calls rt' @ WorkerCreate spec' 0 # ks"
    if "0 < c_workers c'"
    using create_workers_first [OF that] .
  show ?thesis
    using A C D by blast
qed

theorem AddNode_first_ordinal_witness:
  "workers_listed (example_externals (\<lambda>k. False)) (example_join_context 2)
     (example_join_runtime
        (example_server [''K3S_CLUSTER_SECRET=abc''] [''--https-listen-port'', ''6443'']) [])
     (example_server [''K3S_CLUSTER_SECRET=abc''] [''--https-listen-port'', ''6443''])
     ''6443'' \<and>
   all_workers ''c'' (example_join_runtime
        (example_server [''K3S_CLUSTER_SECRET=abc''] [''--https-listen-port'', ''6443'']) []) = [] \<and>
   hd (calls (snd (AddNode (example_externals (\<lambda>k. False)) (example_join_context 2)
     (example_join_runtime
        (example_server [''K3S_CLUSTER_SECRET=abc''] [''--https-listen-port'', ''6443'']) [])))) =
     WorkerCreate (join_spec ''c'' ''docker.io/rancher/k3s:latest''
         [''K3S_URL=https://c-server:6443'', ''K3S_CLUSTER_SECRET=abc'']) 1 \<and>
   list_ex (\<lambda>ct. ctr_Name ct = ''c-worker-1'')
     (containers (snd (AddNode (example_externals (\<lambda>k. False)) (example_join_context 2)
     (example_join_runtime
        (example_server [''K3S_CLUSTER_SECRET=abc''] [''--https-listen-port'', ''6443'']) [])))) \<and>
   hd (calls (snd (create_workers (example_externals (\<lambda>k. False)) example_context
         (join_spec ''demo'' [] []) 0 example_runtime))) = WorkerCreate (join_spec ''demo'' [] []) 0"
proof -
  let ?E = "example_externals (\<lambda>k. False)"
  let ?srv = "example_server [''K3S_CLUSTER_SECRET=abc''] [''--https-listen-port'', ''6443'']"
  let ?rt = "example_join_runtime ?srv []"
  let ?c = "example_join_context 2"
  have n: "c_name ?c = ''c''" "c_count ?c = 2" "c_image ?c = ''rancher/k3s:latest''"
    by (simp_all add: example_join_context_def)
  have img: "default_image ''rancher/k3s:latest'' = ''docker.io/rancher/k3s:latest''"
    by (simp add: default_image_def)
  have je: "join_env ?srv ''6443'' = [''K3S_URL=https://c-server:6443'', ''K3S_CLUSTER_SECRET=abc'']"
    by (simp add: join_env_def example_server_def example_env_key)
  have wl: "workers_listed ?E ?c ?rt ?srv ''6443''"
    using example_workers_listed [of 2 "[]"] .
  have aw: "all_workers ''c'' ?rt = []"
    using example_all_workers [of _ _ "[]"] by simp
  have nf: "\<not> fails ?E k" for k
    by (simp add: example_externals_def)
  have cr: "calls ?rt = []" "calls example_runtime = []"
    by (simp_all add: example_join_runtime_def example_runtime_def)
  have cw: "0 < c_workers example_context"
    by (simp add: example_context_def)
  note t = AddNode_first_ordinal [of ?E ?c ?rt ?srv "''6443''" example_context ?E
      "join_spec ''demo'' [] []" example_runtime]
  have 1: "hd (calls (snd (AddNode ?E ?c ?rt))) =
     WorkerCreate (join_spec ''c'' ''docker.io/rancher/k3s:latest''
         [''K3S_URL=https://c-server:6443'', ''K3S_CLUSTER_SECRET=abc'']) 1"
    using t wl aw by (auto simp add: n img je cr maxInt_def)
  have 2: "list_ex (\<lambda>ct. ctr_Name ct = ''c-worker-1'') (containers (snd (AddNode ?E ?c ?rt)))"
    using t wl aw nf by (auto simp add: n maxInt_def list_ex_iff)
  have 3: "hd (calls (snd (create_workers ?E example_context (join_spec ''demo'' [] []) 0
      example_runtime))) = WorkerCreate (join_spec ''demo'' [] []) 0"
    using t cw by (auto simp add: cr)
  show ?thesis
    using wl aw 1 2 3 by simp
qed

section \<open>Create\<close>

text \<open>
  Claim C5, as stated, at a cluster \<open>demo\<close> with two workers and no wait, on an empty
  runtime where nothing fails: the cluster directory is created third, before the server, and
  the last call creates worker 1.
\<close>

theorem CreateCluster_order_counterexample:
  "fst (CreateCluster (example_externals (\<lambda>k. False)) example_context example_empty_runtime) = Inr () \<and>
   calls (snd (CreateCluster (example_externals (\<lambda>k. False)) example_context example_empty_runtime)) \<noteq>
     spec_create_order example_context
       (created_spec (example_externals (\<lambda>k. False)) example_context
          \<lparr>Host = [], HostIP = [], Port = ''6443''\<rparr> []) \<and>
   calls (snd (CreateCluster (example_externals (\<lambda>k. False)) example_context example_empty_runtime)) ! 2 =
     ClusterDirCreate ''demo'' \<and>
   last (calls (snd (CreateCluster (example_externals (\<lambda>k. False)) example_context
      example_empty_runtime))) =
     WorkerCreate (created_spec (example_externals (\<lambda>k. False)) example_context
          \<lparr>Host = [], HostIP = [], Port = ''6443''\<rparr> []) 1"
proof -
  have "[0 .. 2 - 1 :: int] = [0, 1]"
    by (simp add: upto_rec1)
  then have "spec_create_order example_context spec =
     [NetworkCreate ''demo'', VolumeCreate ''demo'', ServerCreate spec,
      WorkerCreate spec 0, WorkerCreate spec 1, ClusterDirCreate ''demo'']" for spec
    by (simp add: spec_create_order_def wait_calls_def example_context_def)
  then show ?thesis
    using example_created by (simp add: example_create_order)
qed

text \<open>
  Claim C5, amended. An invalid name and a name that a discovered cluster has are errors
  before any call. Every run issues a beginning of the following list and, after it, only
  removals (the rollback); a run that returns no error issues all of the list and nothing
  else: the network, the image volume, the cluster directory, the server, the wait for
  \<open>Running kubelet\<close> when a wait was asked for, the workers 0 to N-1. When the name is
  valid and free, the port and the port map parse and no call fails, the run returns no error.
  The volumes of the server's and the workers' specification are the user's followed by the
  mount of the image volume.
\<close>

theorem CreateCluster_order:
  "(\<not> CheckClusterName E (c_name c) \<longrightarrow> CreateCluster E c rt = (Inl InvalidClusterName, rt)) \<and>
   (CheckClusterName E (c_name c) \<and> getClusters False (c_name c) rt = Inr (cl # cls) \<longrightarrow>
      CreateCluster E c rt = (Inl ClusterExists, rt)) \<and>
   (\<exists>ap pm ks rest rb.
      create_order c (created_spec E c ap pm) = ks @ rest \<and> list_all is_removal rb \<and>
      calls (snd (CreateCluster E c rt)) = calls rt @ ks @ rb \<and>
      (fst (CreateCluster E c rt) = Inr () \<longrightarrow> rest = [] \<and> rb = [])) \<and>
   (CheckClusterName E (c_name c) \<and> getClusters False (c_name c) rt = Inr [] \<and>
    parseAPIPort E (c_api_port c) = Some ap0 \<and>
    mapNodesToPortSpecs E (c_port c) (GetAllContainerNames (c_name c) 1 (c_workers c)) = Some pm0 \<and>
    (\<forall>k. \<not> fails E k) \<longrightarrow>
      fst (CreateCluster E c rt) = Inr () \<and>
      calls (snd (CreateCluster E c rt)) =
        calls rt @
        [NetworkCreate (c_name c), VolumeCreate (c_name c), ClusterDirCreate (c_name c),
         ServerCreate (created_spec E c (api_port_host E ap0) pm0)] @
        (case c_wait c of
           None \<Rightarrow> []
         | Some secs \<Rightarrow> [WaitForLogMessage (server_name (c_name c)) ''Running kubelet'' secs]) @
        map (WorkerCreate (created_spec E c (api_port_host E ap0) pm0)) [0 .. c_workers c - 1] \<and>
      Volumes (created_spec E c (api_port_host E ap0) pm0) = c_volume c @ [c_name c @ '':/images''])"
proof -
  have S: "fst (CreateCluster E c rt) = Inr () \<and>
      calls (snd (CreateCluster E c rt)) =
        calls rt @
        [NetworkCreate (c_name c), VolumeCreate (c_name c), ClusterDirCreate (c_name c),
         ServerCreate (created_spec E c (api_port_host E ap0) pm0)] @
        (case c_wait c of
           None \<Rightarrow> []
         | Some secs \<Rightarrow> [WaitForLogMessage (server_name (c_name c)) ''Running kubelet'' secs]) @
        map (WorkerCreate (created_spec E c (api_port_host E ap0) pm0)) [0 .. c_workers c - 1] \<and>
      Volumes (created_spec E c (api_port_host E ap0) pm0) = c_volume c @ [c_name c @ '':/images'']"
    if "CheckClusterName E (c_name c)" "getClusters False (c_name c) rt = Inr []"
      "parseAPIPort E (c_api_port c) = Some ap0"
      "mapNodesToPortSpecs E (c_port c) (GetAllContainerNames (c_name c) 1 (c_workers c)) = Some pm0"
      "\<forall>k. \<not> fails E k"
    using CreateCluster_success [OF that]
    by (simp add: create_order_def node_order_def wait_calls_def created_spec_def)
  show ?thesis
    using CreateCluster_invalid [of E c rt] CreateCluster_exists [of E c rt cl cls]
      CreateCluster_calls [of c E rt] S
    by blast
qed

theorem CreateCluster_order_witness:
  "CheckClusterName (example_externals (\<lambda>k. False)) (c_name example_context) \<and>
   getClusters False (c_name example_context) example_empty_runtime = Inr [] \<and>
   fst (CreateCluster (example_externals (\<lambda>k. False)) example_context example_empty_runtime) = Inr () \<and>
   calls (snd (CreateCluster (example_externals (\<lambda>k. False)) example_context example_empty_runtime)) =
     [NetworkCreate ''demo'', VolumeCreate ''demo'', ClusterDirCreate ''demo'',
      ServerCreate (created_spec (example_externals (\<lambda>k. False)) example_context
          \<lparr>Host = [], HostIP = [], Port = ''6443''\<rparr> []),
      WorkerCreate (created_spec (example_externals (\<lambda>k. False)) example_context
          \<lparr>Host = [], HostIP = [], Port = ''6443''\<rparr> []) 0,
      WorkerCreate (created_spec (example_externals (\<lambda>k. False)) example_context
          \<lparr>Host = [], HostIP = [], Port = ''6443''\<rparr> []) 1] \<and>
   Volumes (created_spec (example_externals (\<lambda>k. False)) example_context
          \<lparr>Host = [], HostIP = [], Port = ''6443''\<rparr> []) = [''demo:/images''] \<and>
   CreateCluster (example_externals (\<lambda>k. False)) example_context example_runtime =
     (Inl ClusterExists, example_runtime)"
proof -
  let ?E = "example_externals (\<lambda>k. False)"
  let ?ap = "\<lparr>Host = [], HostIP = [], Port = ''6443''\<rparr>"
  have 1: "CheckClusterName ?E (c_name example_context)"
    by (simp add: example_externals_def example_context_def)
  have 2: "parseAPIPort ?E (c_api_port example_context) = Some ?ap"
    by (simp add: example_externals_def example_context_def)
  have 3: "mapNodesToPortSpecs ?E (c_port example_context)
      (GetAllContainerNames (c_name example_context) 1 (c_workers example_context)) = Some []"
    by (simp add: example_externals_def)
  have 4: "\<forall>k. \<not> fails ?E k"
    by (simp add: example_externals_def)
  have 5: "api_port_host ?E ?ap = ?ap"
    by (simp add: api_port_host_def example_externals_def)
  have 6: "getClusters False (c_name example_context) example_runtime = Inr [example_cluster]"
    using example_getClusters by (simp add: example_context_def)
  have up: "[0 .. 1 :: int] = [0, 1]"
    by (simp add: upto_rec1)
  have w: "c_wait example_context = None" "c_workers example_context = 2"
    "c_name example_context = ''demo''"
    by (simp_all add: example_context_def)
  have a: "fst (CreateCluster ?E example_context example_empty_runtime) = Inr () \<and>
      calls (snd (CreateCluster ?E example_context example_empty_runtime)) =
        [NetworkCreate ''demo'', VolumeCreate ''demo'', ClusterDirCreate ''demo'',
         ServerCreate (created_spec ?E example_context ?ap []),
         WorkerCreate (created_spec ?E example_context ?ap []) 0,
         WorkerCreate (created_spec ?E example_context ?ap []) 1]"
    using CreateCluster_order [of ?E example_context example_empty_runtime _ _ ?ap "[]"]
      1 2 3 4 example_fresh [of "c_name example_context"]
    by (simp add: 5 w up example_empty_runtime_def)
  have b: "CreateCluster ?E example_context example_runtime = (Inl ClusterExists, example_runtime)"
    using CreateCluster_order [of ?E example_context example_runtime example_cluster "[]"] 1 6
    by simp
  show ?thesis
    using 1 example_fresh [of "c_name example_context"] a b
    by (simp add: example_spec_Volumes)
qed

text \<open>
  Claim C2, as stated, at the same cluster with the user's variable \<open>A=1\<close>: the server is
  created with the secret last and the user's variable before it.
\<close>

theorem create_env_counterexample:
  "calls (snd (CreateCluster (example_externals (\<lambda>k. False)) example_context
      example_empty_runtime)) ! 3 =
     ServerCreate (created_spec (example_externals (\<lambda>k. False)) example_context
          \<lparr>Host = [], HostIP = [], Port = ''6443''\<rparr> []) \<and>
   Env (created_spec (example_externals (\<lambda>k. False)) example_context
          \<lparr>Host = [], HostIP = [], Port = ''6443''\<rparr> []) =
     [''K3S_KUBECONFIG_OUTPUT=/output/kubeconfig.yaml'', ''A=1'', ''K3S_CLUSTER_SECRET=s3cr3t''] \<and>
   spec_create_env (example_externals (\<lambda>k. False)) example_context =
     [''K3S_KUBECONFIG_OUTPUT=/output/kubeconfig.yaml'', ''K3S_CLUSTER_SECRET=s3cr3t'', ''A=1''] \<and>
   Env (created_spec (example_externals (\<lambda>k. False)) example_context
          \<lparr>Host = [], HostIP = [], Port = ''6443''\<rparr> []) \<noteq>
     spec_create_env (example_externals (\<lambda>k. False)) example_context"
proof -
  have s: "spec_create_env (example_externals (\<lambda>k. False)) example_context =
     [''K3S_KUBECONFIG_OUTPUT=/output/kubeconfig.yaml'', ''K3S_CLUSTER_SECRET=s3cr3t'', ''A=1'']"
    by (simp add: spec_create_env_def example_externals_def example_context_def)
  have e: "Env (created_spec (example_externals (\<lambda>k. False)) example_context ap pm) =
     [''K3S_KUBECONFIG_OUTPUT=/output/kubeconfig.yaml'', ''A=1'', ''K3S_CLUSTER_SECRET=s3cr3t'']"
    for ap pm
    by (simp add: created_spec_def example_create_env)
  show ?thesis
    using example_created by (simp add: example_create_order s e)
qed

text \<open>
  Claim C2, amended. The environment is the kubeconfig output path, then the user's variables
  in their order, then the generated cluster secret as the last element; every server that a
  \<open>CreateCluster\<close> creates gets this list.
\<close>

theorem create_env_order:
  "create_env E c =
     ''K3S_KUBECONFIG_OUTPUT=/output/kubeconfig.yaml'' # c_env c @
     [''K3S_CLUSTER_SECRET='' @ GenerateRandomString E 20] \<and>
   (\<forall>spec. ServerCreate spec \<in> set (calls (snd (CreateCluster E c rt))) \<and>
           ServerCreate spec \<notin> set (calls rt) \<longrightarrow>
      Env spec = create_env E c \<and>
      last (Env spec) = ''K3S_CLUSTER_SECRET='' @ GenerateRandomString E 20)"
proof -
  have env: "create_env E c =
     ''K3S_KUBECONFIG_OUTPUT=/output/kubeconfig.yaml'' # c_env c @
     [''K3S_CLUSTER_SECRET='' @ GenerateRandomString E 20]"
    by (simp add: create_env_def)
  obtain ap pm ks rest rb where k: "create_order c (created_spec E c ap pm) = ks @ rest"
    "list_all is_removal rb" "calls (snd (CreateCluster E c rt)) = calls rt @ ks @ rb"
    using CreateCluster_calls [of c E rt] by blast
  have "Env spec = create_env E c"
    if i: "ServerCreate spec \<in> set (calls (snd (CreateCluster E c rt)))"
      and o: "ServerCreate spec \<notin> set (calls rt)" for spec
  proof -
    have "ServerCreate spec \<in> set ks"
      using i o k(3) removal_not_create [OF k(2), of spec] by auto
    then have "ServerCreate spec \<in> set (create_order c (created_spec E c ap pm))"
      using k(1) by simp
    then have "spec = created_spec E c ap pm"
      by (rule ServerCreate_in_order)
    then show ?thesis
      by (simp add: created_spec_def)
  qed
  then show ?thesis
    using env by auto
qed

theorem create_env_order_witness:
  "ServerCreate (created_spec (example_externals (\<lambda>k. False)) example_context
          \<lparr>Host = [], HostIP = [], Port = ''6443''\<rparr> [])
     \<in> set (calls (snd (CreateCluster (example_externals (\<lambda>k. False)) example_context
          example_empty_runtime))) \<and>
   ServerCreate (created_spec (example_externals (\<lambda>k. False)) example_context
          \<lparr>Host = [], HostIP = [], Port = ''6443''\<rparr> []) \<notin> set (calls example_empty_runtime) \<and>
   last (Env (created_spec (example_externals (\<lambda>k. False)) example_context
          \<lparr>Host = [], HostIP = [], Port = ''6443''\<rparr> [])) = ''K3S_CLUSTER_SECRET=s3cr3t'' \<and>
   create_env (example_externals (\<lambda>k. False)) example_context =
     [''K3S_KUBECONFIG_OUTPUT=/output/kubeconfig.yaml'', ''A=1'', ''K3S_CLUSTER_SECRET=s3cr3t'']"
proof -
  let ?E = "example_externals (\<lambda>k. False)"
  let ?spec = "created_spec ?E example_context \<lparr>Host = [], HostIP = [], Port = ''6443''\<rparr> []"
  have i: "ServerCreate ?spec \<in> set (calls (snd (CreateCluster ?E example_context
          example_empty_runtime)))"
    using example_created by (simp add: example_create_order)
  have o: "ServerCreate ?spec \<notin> set (calls example_empty_runtime)"
    by (simp add: example_empty_runtime_def)
  have g: "GenerateRandomString ?E 20 = ''s3cr3t''"
    by (simp add: example_externals_def)
  have c: "c_env example_context = [''A=1'']"
    by (simp add: example_context_def)
  note t = create_env_order [of ?E example_context example_empty_runtime]
  have l: "last (Env ?spec) = ''K3S_CLUSTER_SECRET=s3cr3t''"
    using t i o g by auto
  have e: "create_env ?E example_context =
     [''K3S_KUBECONFIG_OUTPUT=/output/kubeconfig.yaml'', ''A=1'', ''K3S_CLUSTER_SECRET=s3cr3t'']"
    using t g c by simp
  show ?thesis
    using i o l e by simp
qed

text \<open>
  Claim C1, where the creation of the server fails after the network and the image volume were
  created: the rollback is \<open>DeleteCluster\<close>, which removes what discovery finds; no
  container carries the labels of the cluster, so it finds no cluster and issues no call. The
  network, the volume and the cluster directory stay.
\<close>

theorem CreateCluster_server_failure:
  assumes ok: "CheckClusterName E (c_name c)"
    and fresh: "getClusters False (c_name c) rt = Inr []"
    and one: "\<not> c_all c"
    and ap: "parseAPIPort E (c_api_port c) = Some ap0"
    and pm: "mapNodesToPortSpecs E (c_port c) (GetAllContainerNames (c_name c) 1 (c_workers c)) = Some pm"
    and net: "\<not> fails E (NetworkCreate (c_name c))"
    and vol: "\<not> fails E (VolumeCreate (c_name c))"
    and srv: "fails E (ServerCreate (created_spec E c (api_port_host E ap0) pm))"
  shows "fst (CreateCluster E c rt) = Inl ServerCreateFailed \<and>
         calls (snd (CreateCluster E c rt)) =
           calls rt @ [NetworkCreate (c_name c), VolumeCreate (c_name c), ClusterDirCreate (c_name c),
                       ServerCreate (created_spec E c (api_port_host E ap0) pm)] \<and>
         containers (snd (CreateCluster E c rt)) = containers rt \<and>
         networks (snd (CreateCluster E c rt)) = networks rt @ [c_name c] \<and>
         volumes (snd (CreateCluster E c rt)) = volumes rt @ [c_name c] \<and>
         dirs (snd (CreateCluster E c rt)) = dirs rt @ [c_name c]"
proof -
  let ?n = "c_name c"
  let ?spec = "created_spec E c (api_port_host E ap0) pm"
  let ?rt2 = "snd (createImageVolume E ?n (snd (createClusterNetwork E ?n rt)))"
  have eq: "CreateCluster E c rt = create_nodes E c ?spec ?rt2"
    using CreateCluster_reached [OF ok fresh] ap pm net vol by simp
  obtain r rt4 where cs: "createServer E ?spec (createClusterDir ?n ?rt2) = (r, rt4)"
    by (cases "createServer E ?spec (createClusterDir ?n ?rt2)")
  have r: "r = Inl ServerCreateFailed"
    using createServer_fst [of E ?spec "createClusterDir ?n ?rt2"] cs srv by simp
  have cn: "create_nodes E c ?spec ?rt2 = (Inl ServerCreateFailed, rollback E c rt4)"
    using cs r by (simp add: create_nodes_def Let_def)
  have "rt4 = snd (createServer E ?spec (createClusterDir ?n ?rt2))"
    using cs by simp
  then have st: "containers rt4 = containers rt" "networks rt4 = networks rt @ [?n]"
    "volumes rt4 = volumes rt @ [?n]" "dirs rt4 = dirs rt @ [?n]"
    "calls rt4 = calls rt @ [NetworkCreate ?n, VolumeCreate ?n, ClusterDirCreate ?n,
        ServerCreate ?spec]"
    using net vol srv
    by (simp_all add: createServer_def createClusterDir_def createImageVolume_def
        createClusterNetwork_def issue_def Let_def)
  have "getClusters (c_all c) ?n rt4 = Inr []"
    using getClusters_containers [OF st(1), of False ?n] fresh one by simp
  then have "rollback E c rt4 = rt4"
    by (rule rollback_nothing_found)
  then show ?thesis
    using eq cn st by simp
qed

theorem CreateCluster_server_failure_witness:
  "CheckClusterName (example_externals (\<lambda>k. \<exists>spec. k = ServerCreate spec)) (c_name example_context) \<and>
   getClusters False (c_name example_context) example_empty_runtime = Inr [] \<and>
   fst (CreateCluster (example_externals (\<lambda>k. \<exists>spec. k = ServerCreate spec)) example_context
      example_empty_runtime) = Inl ServerCreateFailed \<and>
   containers (snd (CreateCluster (example_externals (\<lambda>k. \<exists>spec. k = ServerCreate spec))
      example_context example_empty_runtime)) = [] \<and>
   networks (snd (CreateCluster (example_externals (\<lambda>k. \<exists>spec. k = ServerCreate spec))
      example_context example_empty_runtime)) = [''demo''] \<and>
   volumes (snd (CreateCluster (example_externals (\<lambda>k. \<exists>spec. k = ServerCreate spec))
      example_context example_empty_runtime)) = [''demo''] \<and>
   length (calls (snd (CreateCluster (example_externals (\<lambda>k. \<exists>spec. k = ServerCreate spec))
      example_context example_empty_runtime))) = 4"
proof -
  let ?E = "example_externals (\<lambda>k. \<exists>spec. k = ServerCreate spec)"
  let ?ap = "\<lparr>Host = [], HostIP = [], Port = ''6443''\<rparr>"
  have 1: "CheckClusterName ?E (c_name example_context)"
    by (simp add: example_externals_def example_context_def)
  have 2: "parseAPIPort ?E (c_api_port example_context) = Some ?ap"
    by (simp add: example_externals_def example_context_def)
  have 3: "mapNodesToPortSpecs ?E (c_port example_context)
      (GetAllContainerNames (c_name example_context) 1 (c_workers example_context)) = Some []"
    by (simp add: example_externals_def)
  have 4: "\<not> fails ?E (NetworkCreate (c_name example_context))"
    "\<not> fails ?E (VolumeCreate (c_name example_context))"
    by (simp_all add: example_externals_def)
  have 5: "fails ?E (ServerCreate (created_spec ?E example_context (api_port_host ?E ?ap) []))"
    by (simp add: example_externals_def)
  have 6: "\<not> c_all example_context"
    by (simp add: example_context_def)
  have n: "c_name example_context = ''demo''"
    by (simp add: example_context_def)
  show ?thesis
    using CreateCluster_server_failure [OF 1 example_fresh 6 2 3 4 5]
      1 example_fresh [of "c_name example_context"]
    by (simp add: n example_empty_runtime_def)
qed

text \<open>
  The failures after the server was created, for comparison: when the wait or the creation of
  a worker fails and the runtime refuses none of the removals, the rollback discovers the
  cluster through its server container and leaves no container, network, volume or directory
  of that name.
\<close>

theorem CreateCluster_later_failure:
  assumes ok: "CheckClusterName E (c_name c)"
    and fresh: "getClusters False (c_name c) rt = Inr []"
    and ne: "c_name c \<noteq> []"
    and one: "\<not> c_all c"
    and ap: "parseAPIPort E (c_api_port c) = Some ap0"
    and pm: "mapNodesToPortSpecs E (c_port c) (GetAllContainerNames (c_name c) 1 (c_workers c)) = Some pm"
    and net: "\<not> fails E (NetworkCreate (c_name c))"
    and vol: "\<not> fails E (VolumeCreate (c_name c))"
    and srv: "\<not> fails E (ServerCreate (created_spec E c (api_port_host E ap0) pm))"
    and rm: "\<forall>k. is_removal k \<longrightarrow> \<not> fails E k"
  shows "fst (CreateCluster E c rt) = Inr () \<or> cleaned (c_name c) (snd (CreateCluster E c rt))"
proof -
  let ?n = "c_name c"
  let ?spec = "created_spec E c (api_port_host E ap0) pm"
  let ?rt2 = "snd (createImageVolume E ?n (snd (createClusterNetwork E ?n rt)))"
  have eq: "CreateCluster E c rt = create_nodes E c ?spec ?rt2"
    using CreateCluster_reached [OF ok fresh] ap pm net vol by simp
  have "containers ?rt2 = containers rt"
    by (simp add: createImageVolume_def createClusterNetwork_def issue_def Let_def)
  then have un: "list_all (\<lambda>ct. \<not> labelled ?n ct) (containers ?rt2)"
    using fresh_unlabelled [OF fresh ne] by simp
  have cn: "ClusterName ?spec = ?n"
    by (simp add: created_spec_def)
  show ?thesis
    using create_nodes_cleans [OF un cn refl ne one rm srv] eq by simp
qed

theorem CreateCluster_later_failure_witness:
  "fst (CreateCluster (example_externals (\<lambda>k. \<exists>spec. k = WorkerCreate spec 1)) example_context
      example_empty_runtime) = Inl WorkerCreateFailed \<and>
   cleaned ''demo'' (snd (CreateCluster (example_externals (\<lambda>k. \<exists>spec. k = WorkerCreate spec 1))
      example_context example_empty_runtime))"
proof -
  let ?E = "example_externals (\<lambda>k. \<exists>spec. k = WorkerCreate spec 1)"
  let ?ap = "\<lparr>Host = [], HostIP = [], Port = ''6443''\<rparr>"
  have 1: "CheckClusterName ?E (c_name example_context)"
    by (simp add: example_externals_def example_context_def)
  have 2: "parseAPIPort ?E (c_api_port example_context) = Some ?ap"
    by (simp add: example_externals_def example_context_def)
  have 3: "mapNodesToPortSpecs ?E (c_port example_context)
      (GetAllContainerNames (c_name example_context) 1 (c_workers example_context)) = Some []"
    by (simp add: example_externals_def)
  have 4: "\<not> fails ?E (NetworkCreate (c_name example_context))"
    "\<not> fails ?E (VolumeCreate (c_name example_context))"
    "\<not> fails ?E (ServerCreate (created_spec ?E example_context (api_port_host ?E ?ap) []))"
    by (simp_all add: example_externals_def)
  have 5: "\<forall>k. is_removal k \<longrightarrow> \<not> fails ?E k"
    by (auto simp add: example_externals_def)
  have 6: "\<not> c_all example_context" "c_name example_context \<noteq> []"
    by (simp_all add: example_context_def)
  have 7: "\<forall>a b t. \<not> fails ?E (WaitForLogMessage a b t)"
    by (simp add: example_externals_def)
  have 8: "(0::int) \<le> 1" "1 < c_workers example_context"
    "fails ?E (WorkerCreate (created_spec ?E example_context (api_port_host ?E ?ap) []) 1)"
    by (simp_all add: example_externals_def example_context_def)
  have "CreateCluster ?E example_context example_empty_runtime =
      create_nodes ?E example_context (created_spec ?E example_context (api_port_host ?E ?ap) [])
        (snd (createImageVolume ?E (c_name example_context)
           (snd (createClusterNetwork ?E (c_name example_context) example_empty_runtime))))"
    using CreateCluster_reached [OF 1 example_fresh] 2 3 4(1,2) by simp
  then have f: "fst (CreateCluster ?E example_context example_empty_runtime) = Inl WorkerCreateFailed"
    using create_nodes_worker_fails [OF 4(3) 7 8] by simp
  have "c_name example_context = ''demo''"
    by (simp add: example_context_def)
  then show ?thesis
    using CreateCluster_later_failure [OF 1 example_fresh 6(2,1) 2 3 4 5] f by simp
qed

end
